theory Spec2Isabelle
  imports Main "HOL-Library.Word" "HOL-Library.Char_ord" "HOL-Library.List_Lexorder"
begin

unbundle bit_operations_syntax

section \<open>The L2 wiring engine of the SFC controller\<close>

text \<open>
  A shallow embedding of \<^verbatim>\<open>controller/cnpdriver/l2driver/sfcctlr_l2_driver.go\<close>.
  The driver object \<^verbatim>\<open>cnpd\<close> is a record that every operation takes and returns.
  A Go \<^verbatim>\<open>error\<close> return and a run-time panic are both values of the type
  \<open>error\<close>; an operation returns \<open>Inl e\<close> together with the state it had reached,
  since the engine never unwinds partial wiring.
\<close>

subsection \<open>Declarative input (controller.proto)\<close>

type_synonym uint32 = "32 word"

datatype RxModeType = RX_MODE_UNKNOWN | RX_MODE_POLLING | RX_MODE_INTERRUPT

record BDParms =
  bdp_Flood :: bool
  bdp_UnknownUnicastFlood :: bool
  bdp_Forward :: bool
  bdp_Learn :: bool
  bdp_ArpTermination :: bool
  bdp_MacAge :: uint32

record SystemParameters =
  sp_Mtu :: uint32
  sp_StartingVlanId :: uint32
  sp_DefaultStaticRouteWeight :: uint32
  sp_DefaultStaticRoutePreference :: uint32
  sp_DynamicBridgeParms :: "BDParms option"
  sp_StaticBridgeParms :: "BDParms option"

datatype ExtEntDriverType = EE_DRIVER_TYPE_UNKNOWN | EE_DRIVER_TYPE_IOSXE_SSH

record HostInterface =
  hi_IfName :: string
  hi_Ipv4Addr :: string

record HostVxlan =
  hv_IfName :: string
  hv_SourceIpv4 :: string

record HostBD =
  hbd_Id :: uint32
  hbd_BdiIpv4 :: string
  hbd_Interfaces :: "string list"

record ExternalEntity =
  ee_Name :: string
  ee_MgmntIpAddress :: string
  ee_MgmntPort :: uint32
  ee_BasicAuthUser :: string
  ee_BasicAuthPasswd :: string
  ee_EeDriverType :: ExtEntDriverType
  ee_HostInterface :: "HostInterface option"
  ee_HostVxlan :: "HostVxlan option"
  ee_HostBd :: "HostBD option"

record HostEntity =
  he_Name :: string
  he_EthIfName :: string
  he_EthIpv4 :: string
  he_EthIpv6 :: string
  he_LoopbackMacAddr :: string
  he_LoopbackIpv4 :: string
  he_LoopbackIpv6 :: string
  he_VxlanTunnelIpv4 :: string
  he_CreateVxlanStaticRoute :: bool
  he_Mtu :: uint32
  he_RxMode :: RxModeType

datatype SfcType =
    SFC_UNKNOWN_TYPE
  | SFC_NS_VXLAN
  | SFC_NS_NIC_BD
  | SFC_NS_NIC_L2XCONN
  | SFC_NS_NIC_VRF
  | SFC_EW_BD
  | SFC_EW_L2XCONN
  | SFC_EW_BD_L2FIB
  | SFC_EW_VRF_FIB
  | SFC_EW_MEMIF
  | SFC_EW_VETH

datatype SfcElementType =
    ELEMENT_UNKNOWN
  | EXTERNAL_ENTITY
  | VPP_CONTAINER_MEMIF
  | NON_VPP_CONTAINER_AFP
  | NON_VPP_CONTAINER_MEMIF
  | HOST_ENTITY
  | VPP_CONTAINER_AFP

record L3VRFRoute =
  vr_VrfId :: uint32
  vr_Description :: string
  vr_DstIpAddr :: string
  vr_NextHopAddr :: string
  vr_OutgoingInterface :: string
  vr_Weight :: uint32
  vr_Preference :: uint32

record L3ArpEntry =
  l3a_IpAddress :: string
  l3a_PhysAddress :: string

record SfcElement =
  el_Container :: string
  el_PortLabel :: string
  el_EtcdVppSwitchKey :: string
  el_Ipv4Addr :: string
  el_MacAddr :: string
  el_Type :: SfcElementType
  el_VlanId :: uint32
  el_Mtu :: uint32
  el_RxMode :: RxModeType
  el_L2FibMacs :: "string list"
  el_Ipv6Addr :: string
  el_L3VrfRoutes :: "L3VRFRoute list"
  el_L3ArpEntries :: "L3ArpEntry list"

record SfcEntity =
  sfc_Name :: string
  sfc_Description :: string
  sfc_Type :: SfcType
  sfc_SfcIpv4Prefix :: string
  sfc_VnfRepeatCount :: uint32
  sfc_BdParms :: "BDParms option"
  sfc_Elements :: "SfcElement list"

subsection \<open>Derived dataplane resources (the agent's models, as far as the driver fills them)\<close>

datatype InterfaceType =
    SOFTWARE_LOOPBACK
  | ETHERNET_CSMACD
  | MEMORY_INTERFACE
  | VXLAN_TUNNEL
  | AF_PACKET_INTERFACE

datatype IfRxMode = INTERRUPT | POLLING

record Vxlan =
  vx_SrcAddress :: string
  vx_DstAddress :: string
  vx_Vni :: uint32

record Memif =
  mi_Id :: uint32
  mi_Master :: bool
  mi_SocketFilename :: string

record Interface =
  if_Name :: string
  if_Type :: InterfaceType
  if_Enabled :: bool
  if_PhysAddress :: string
  if_Mtu :: uint32
  if_IpAddresses :: "string list"
  if_RxModeSettings :: "IfRxMode option"
  if_Vxlan :: "Vxlan option"
  if_Memif :: "Memif option"
  if_Afpacket :: "string option"

datatype BDInterface = BDInterface (bi_Name: string)

record BridgeDomain =
  bd_Name :: string
  bd_Flood :: bool
  bd_UnknownUnicastFlood :: bool
  bd_Forward :: bool
  bd_Learn :: bool
  bd_ArpTermination :: bool
  bd_MacAge :: uint32
  bd_Interfaces :: "BDInterface list"

record StaticRoute =
  sr_VrfId :: uint32
  sr_Description :: string
  sr_DstIpAddr :: string
  sr_NextHopAddr :: string
  sr_Weight :: uint32
  sr_OutgoingInterface :: string
  sr_Preference :: uint32

record ArpTableEntry =
  arp_Interface :: string
  arp_Static :: bool
  arp_IpAddress :: string
  arp_PhysAddress :: string

datatype FibAction = FORWARD | DROP

record FibTableEntry =
  fib_BridgeDomain :: string
  fib_PhysAddress :: string
  fib_Action :: FibAction
  fib_OutgoingInterface :: string
  fib_StaticConfig :: bool

record XConnectPair =
  xc_ReceiveInterface :: string
  xc_TransmitInterface :: string

record LinuxInterface =
  li_Name :: string
  li_Enabled :: bool
  li_PhysAddress :: string
  li_HostIfName :: string
  li_IpAddresses :: "string list"
  li_Mtu :: uint32
  li_Microservice :: string
  li_PeerIfName :: string

datatype resource =
    ResInterface Interface
  | ResBridgeDomain BridgeDomain
  | ResStaticRoute StaticRoute
  | ResFib FibTableEntry
  | ResXConnect XConnectPair
  | ResLinuxInterface LinuxInterface

subsection \<open>Errors\<close>

text \<open>
  One constructor for each \<^verbatim>\<open>fmt.Errorf\<close>/\<^verbatim>\<open>errors.New\<close> site of the driver, one for an
  error handed up from the key-value store, one for an error handed up from IPAM, and
  two for the run-time panics the code can reach (a field read through a nil pointer, an
  index past the end of a slice).
\<close>

datatype error =
    InvalidExternalEntityConfig
  | UnknownEntityType SfcType
  | OnlyOneEEAllowed string
  | EENotFound string string
  | OnlyOneDestHostAllowed string
  | DestHostNotFound string string
  | NoEEOrDHSpecified string
  | HostNotFound string string
  | HostNotWired string string string
  | OnlyOneHEAllowed string
  | NoHESpecified string
  | EWMemifNeedsPairs string
  | ExternalEntityNotAllowedInEW string
  | CannotFindHostBridge string string
  | StoreError
  | IpamError string
  | NilPointerPanic
  | IndexOutOfRangePanic

definition isPanic :: "error \<Rightarrow> bool" where
  "isPanic e = (e = NilPointerPanic \<or> e = IndexOutOfRangePanic)"


subsection \<open>Driver state\<close>

text \<open>
  \<^verbatim>\<open>sequencer\<close>, the state cache and the entity cache are the Go structs field by
  field. The cache maps hold pointers to their state structs; every such pointer is
  stored in exactly one map slot, so a slot holds the struct itself and a write through
  the pointer is a write to the slot. Bridge domains are different: the pointer returned
  by \<^verbatim>\<open>bridgedDomainCreateWithIfs\<close> is kept in a cache slot and in local variables and is
  written through later, so bridge domains live in \<open>bdHeap\<close> and a pointer is an index
  into it (\<open>None\<close> is nil).
\<close>

record sequencer =
  VLanID :: uint32
  MemIfID :: uint32
  MacInstanceID :: uint32
  VethID :: uint32

record sfcInterfaceAddressStateType =
  ifa_ipAddress :: string
  ifa_macAddress :: string

record heToEEStateType =
  heToEE_vlanIf :: "Interface option"
  heToEE_bd :: "nat option"
  heToEE_l3Route :: "StaticRoute option"

record heToHEStateType =
  heToHE_vlanIf :: "Interface option"
  heToHE_bd :: "nat option"
  heToHE_l3Route :: "StaticRoute option"

record heStateType =
  ewBD :: "nat option"
  ewBDL2Fib :: "nat option"

record l2CNPStateCacheType =
  HEToEEs :: "string \<rightharpoonup> (string \<rightharpoonup> heToEEStateType)"
  HEToHEs :: "string \<rightharpoonup> (string \<rightharpoonup> heToHEStateType)"
  SFCToHEs :: "string \<rightharpoonup> (string \<rightharpoonup> heStateType)"
  HE :: "string \<rightharpoonup> heStateType"
  SFCIFAddr :: "string \<rightharpoonup> sfcInterfaceAddressStateType"

record l2CNPEntityCacheType =
  EEs :: "string \<rightharpoonup> ExternalEntity"
  HEs :: "string \<rightharpoonup> HostEntity"
  SFCs :: "string \<rightharpoonup> SfcEntity"
  SysParms :: SystemParameters

text \<open>
  Modelled from the spec: the persisted ID bindings and their accessors
  (\<^verbatim>\<open>DatastoreHEIDsRetrieve\<close>, \<^verbatim>\<open>DatastoreHE2EEIDsCreate\<close>, ...) are not in the source
  at hand. The spec (section 3, "Persisted ID bindings") gives four tables in their own
  store namespace: \<open>HEIDs[he]\<close>, \<open>HE2EEIDs[he, ee]\<close>, \<open>HE2HEIDs[src-he, dst-he]\<close> and
  \<open>SFCIDs[sfc, container, port]\<close>. A retrieve is a lookup in its table; a create
  persists the binding under its key and returns the key and the record, or fails with
  the store.
\<close>

record SFCIDs =
  ids_IpId :: uint32
  ids_MacAddrId :: uint32
  ids_MemifId :: uint32
  ids_VethId :: uint32

text \<open>
  Modelled from the spec: \<^verbatim>\<open>utils.ArpEntryKey\<close> is not in the source at hand; section 6
  gives the key as \<open><switch>/<arp-prefix>/<outgoing-if>/<ip>\<close>, kept here as its three
  variable parts.
\<close>

datatype arpKey = ArpEntryKey string string string

text \<open>
  A write that reached the key-value store: through the agent's transaction client
  \<^verbatim>\<open>NewRemoteClientTxn(label, ...).Put().X(obj).Send().ReceiveReply()\<close>, which derives
  the key from the agent label and the object, or through \<^verbatim>\<open>cnpd.db.Put(key, obj)\<close>.
\<close>

datatype storeWrite =
    TxnPut string resource
  | DbPut arpKey ArpTableEntry

text \<open>
  The store as the driver sees it: the writes that succeeded, oldest first; the ID
  tables; and \<open>kv_faults\<close>, the outcomes of the store requests still to come
  (\<open>True\<close>: the request returns an error; once the list is used up every request
  succeeds).
\<close>

record keyval =
  kv_puts :: "storeWrite list"
  kv_faults :: "bool list"
  kv_HEIDs :: "string \<rightharpoonup> uint32"
  kv_HE2EEIDs :: "(string \<times> string) \<rightharpoonup> uint32"
  kv_HE2HEIDs :: "(string \<times> string) \<rightharpoonup> uint32"
  kv_SFCIDs :: "(string \<times> string \<times> string) \<rightharpoonup> SFCIDs"

text \<open>
  Modelled from the spec: \<^verbatim>\<open>reconcileCacheType\<close> and the hooks \<^verbatim>\<open>reconcileInterface\<close>,
  \<^verbatim>\<open>reconcileBridgeDomain\<close>, \<^verbatim>\<open>reconcileStaticRoute\<close>, \<^verbatim>\<open>reconcileLinuxInterface\<close> are not
  in the source at hand. Section 4.F: in reconcile mode "writes are instead appended to
  an in-memory after set keyed by the full store key". The buffer keeps every capture in
  order with the switch key it was made under; the record stored under a key is the last
  capture for it (a bridge domain is captured again, with its members so far, on every
  association). The ID maps are the ones the driver itself fills.
\<close>

record reconcileCacheType =
  rc_resources :: "(string \<times> resource) list"
  rc_heIDs :: "string \<rightharpoonup> uint32"
  rc_he2eeIDs :: "(string \<times> string) \<rightharpoonup> uint32"
  rc_he2heIDs :: "(string \<times> string) \<rightharpoonup> uint32"
  rc_sfcIDs :: "(string \<times> string \<times> string) \<rightharpoonup> SFCIDs"

text \<open>The calls made to the external-entity driver, oldest first.\<close>

datatype extEntityCall =
    SfcCtlrL2WireExternalEntityToHostEntity ExternalEntity HostEntity uint32 StaticRoute
  | SfcCtlrL2WireExternalEntityInternals ExternalEntity

text \<open>
  The package \<^verbatim>\<open>controller/utils/ipam\<close> is not in the source at hand and no claim is
  about it: its state is the type parameter \<open>'i\<close> and the three functions the driver
  calls are a parameter of every operation that reaches them.
\<close>

record 'i ipamApi =
  AllocateFromSubnet :: "string \<Rightarrow> 'i \<Rightarrow> (string + string \<times> uint32) \<times> 'i"
  SetIpIDInSubnet :: "string \<Rightarrow> uint32 \<Rightarrow> 'i \<Rightarrow> (string + string) \<times> 'i"
  SetIpAddrIfInsideSubnet :: "string \<Rightarrow> string \<Rightarrow> 'i \<Rightarrow> 'i"

record 'i sfcCtlrL2CNPDriver =
  db :: keyval
  l2CNPEntityCache :: l2CNPEntityCacheType
  l2CNPStateCache :: l2CNPStateCacheType
  reconcileAfter :: reconcileCacheType
  reconcileInProgress :: bool
  seq :: sequencer
  bdHeap :: "BridgeDomain list"
  extEntityCalls :: "extEntityCall list"
  ipamState :: 'i

type_synonym ('a, 'i) engineOp =
  "'i sfcCtlrL2CNPDriver \<Rightarrow> (error + 'a) \<times> 'i sfcCtlrL2CNPDriver"

text \<open>Go's zero values, as a map read of a missing key returns them.\<close>

definition zeroHostEntity :: HostEntity where
  "zeroHostEntity = \<lparr>he_Name = [], he_EthIfName = [], he_EthIpv4 = [], he_EthIpv6 = [],
     he_LoopbackMacAddr = [], he_LoopbackIpv4 = [], he_LoopbackIpv6 = [],
     he_VxlanTunnelIpv4 = [], he_CreateVxlanStaticRoute = False, he_Mtu = 0,
     he_RxMode = RX_MODE_UNKNOWN\<rparr>"

definition zeroExternalEntity :: ExternalEntity where
  "zeroExternalEntity = \<lparr>ee_Name = [], ee_MgmntIpAddress = [], ee_MgmntPort = 0,
     ee_BasicAuthUser = [], ee_BasicAuthPasswd = [], ee_EeDriverType = EE_DRIVER_TYPE_UNKNOWN,
     ee_HostInterface = None, ee_HostVxlan = None, ee_HostBd = None\<rparr>"

definition zeroSystemParameters :: SystemParameters where
  "zeroSystemParameters = \<lparr>sp_Mtu = 0, sp_StartingVlanId = 0, sp_DefaultStaticRouteWeight = 0,
     sp_DefaultStaticRoutePreference = 0, sp_DynamicBridgeParms = None,
     sp_StaticBridgeParms = None\<rparr>"

definition lookupHE :: "'i sfcCtlrL2CNPDriver \<Rightarrow> string \<Rightarrow> HostEntity" where
  "lookupHE s k = (case HEs (l2CNPEntityCache s) k of None \<Rightarrow> zeroHostEntity | Some he \<Rightarrow> he)"

definition lookupEE :: "'i sfcCtlrL2CNPDriver \<Rightarrow> string \<Rightarrow> ExternalEntity" where
  "lookupEE s k = (case EEs (l2CNPEntityCache s) k of None \<Rightarrow> zeroExternalEntity | Some ee \<Rightarrow> ee)"

text \<open>\<^verbatim>\<open>NewSfcCtlrL2CNPDriver\<close>: empty caches, zero counters, not reconciling.\<close>

definition NewSfcCtlrL2CNPDriver :: "bool list \<Rightarrow> 'i \<Rightarrow> 'i sfcCtlrL2CNPDriver" where
  "NewSfcCtlrL2CNPDriver faults ipam0 =
     \<lparr>db = \<lparr>kv_puts = [], kv_faults = faults, kv_HEIDs = Map.empty, kv_HE2EEIDs = Map.empty,
            kv_HE2HEIDs = Map.empty, kv_SFCIDs = Map.empty\<rparr>,
      l2CNPEntityCache = \<lparr>EEs = Map.empty, HEs = Map.empty, SFCs = Map.empty,
            SysParms = zeroSystemParameters\<rparr>,
      l2CNPStateCache = \<lparr>HEToEEs = Map.empty, HEToHEs = Map.empty, SFCToHEs = Map.empty,
            HE = Map.empty, SFCIFAddr = Map.empty\<rparr>,
      reconcileAfter = \<lparr>rc_resources = [], rc_heIDs = Map.empty, rc_he2eeIDs = Map.empty,
            rc_he2heIDs = Map.empty, rc_sfcIDs = Map.empty\<rparr>,
      reconcileInProgress = False,
      seq = \<lparr>VLanID = 0, MemIfID = 0, MacInstanceID = 0, VethID = 0\<rparr>,
      bdHeap = [],
      extEntityCalls = [],
      ipamState = ipam0\<rparr>"


subsection \<open>Pure helpers\<close>

text \<open>\<^verbatim>\<open>strings.Split(s, "/")\<close>: always at least one piece.\<close>

fun splitSlash :: "string \<Rightarrow> string list" where
  "splitSlash [] = [[]]"
| "splitSlash (c # cs) =
     (if c = CHR ''/'' then [] # splitSlash cs
      else (case splitSlash cs of [] \<Rightarrow> [[c]] | x # xs \<Rightarrow> (c # x) # xs))"

definition stripSlashAndSubnetIpv4Address :: "string \<Rightarrow> string" where
  "stripSlashAndSubnetIpv4Address ipAndSubnetStr =
     (case splitSlash ipAndSubnetStr of [] \<Rightarrow> [] | x # _ \<Rightarrow> x)"

definition replaceSlashesWithUScores :: "string \<Rightarrow> string" where
  "replaceSlashesWithUScores slashesString =
     (case splitSlash slashesString of
        [] \<Rightarrow> []
      | x # xs \<Rightarrow> foldl (\<lambda>UScoresString t. UScoresString @ ''_'' @ t) x xs)"

definition hexDigitUpper :: "nat \<Rightarrow> char" where
  "hexDigitUpper d = ''0123456789ABCDEF'' ! d"

fun hexUpper :: "nat \<Rightarrow> string" where
  "hexUpper n =
     (if n < 16 then [hexDigitUpper n] else hexUpper (n div 16) @ [hexDigitUpper (n mod 16)])"

text \<open>\<^verbatim>\<open>fmt.Sprintf("%02X", v)\<close>: upper-case hexadecimal, padded with zeros to two digits.\<close>

definition sprintf02X :: "64 word \<Rightarrow> string" where
  "sprintf02X v = (let ds = hexUpper (unat v) in replicate (2 - length ds) CHR ''0'' @ ds)"

definition macOctetsOf :: "uint32 \<Rightarrow> 64 word list" where
  "macOctetsOf macInstanceID32 =
     (let macInstanceID = (ucast macInstanceID32 :: 64 word) in
      [0x02,
       0xFF AND (drop_bit (8 * 4) macInstanceID),
       0xFF AND (drop_bit (8 * 3) macInstanceID),
       0xFF AND (drop_bit (8 * 2) macInstanceID),
       0xFF AND (drop_bit (8 * 1) macInstanceID),
       0xFF AND (drop_bit (8 * 0) macInstanceID)])"

definition formatMacAddress :: "uint32 \<Rightarrow> string" where
  "formatMacAddress macInstanceID32 =
     (let macOctets = macOctetsOf macInstanceID32 in
      foldl (\<lambda>macOctetString i. macOctetString @ sprintf02X (macOctets ! i) @ '':'') [] [0..<5]
        @ sprintf02X (macOctets ! 5))"

definition decDigit :: "nat \<Rightarrow> char" where
  "decDigit d = ''0123456789'' ! d"

text \<open>\<^verbatim>\<open>strconv.Itoa\<close> on a value that is not negative.\<close>

fun itoa :: "nat \<Rightarrow> string" where
  "itoa n = (if n < 10 then [decDigit n] else itoa (n div 10) @ [decDigit (n mod 10)])"

definition base36Digit :: "nat \<Rightarrow> char" where
  "base36Digit d = ''0123456789abcdefghijklmnopqrstuvwxyz'' ! d"

text \<open>\<^verbatim>\<open>strconv.FormatUint(v, 36)\<close>.\<close>

fun formatUint36 :: "nat \<Rightarrow> string" where
  "formatUint36 n =
     (if n < 36 then [base36Digit n] else formatUint36 (n div 36) @ [base36Digit (n mod 36)])"

text \<open>
  \<^verbatim>\<open>fmt.Sprintf("%c", str[i])\<close>: the byte is taken as a code point and printed in UTF-8, so
  a byte from 0x80 on comes out as two bytes.
\<close>

definition sprintfC :: "char \<Rightarrow> string" where
  "sprintfC c =
     (let b = (of_char c :: nat) in
      if b < 128 then [c] else [char_of (192 + b div 64), char_of (128 + b mod 64)])"

definition stringFirstNLastM :: "nat \<Rightarrow> nat \<Rightarrow> string \<Rightarrow> string" where
  "stringFirstNLastM n m str =
     (if length str \<le> n + m then str
      else concat (map (\<lambda>i. sprintfC (str ! i)) [0..<n])
         @ concat (map (\<lambda>i. sprintfC (str ! (length str - m + i))) [0..<m]))"

definition constructBaseHostName :: "string \<Rightarrow> string \<Rightarrow> string \<Rightarrow> string" where
  "constructBaseHostName container port v =
     (let (pb, pe) =
            (if length container = 4 then (3, 3)
             else if length container = 3 then (3, 4)
             else if length container = 2 then (4, 4)
             else if length container = 1 then (4, 5)
             else (2::nat, 3::nat));
          (cb, ce) =
            (if length port = 4 then (3, 3)
             else if length port = 3 then (3, 4)
             else if length port = 2 then (4, 4)
             else if length port = 1 then (4, 5)
             else (2::nat, 3::nat));
          (cb, ce) =
            (if length v = 2 then (cb + 1, ce)
             else if length v = 1 then (cb + 1, ce + 1)
             else (cb, ce))
      in stringFirstNLastM cb ce container @ ''_'' @ stringFirstNLastM pb pe port)"

definition rxModeControllerToInterface :: "RxModeType \<Rightarrow> IfRxMode option" where
  "rxModeControllerToInterface contrtollerRxMode =
     (case contrtollerRxMode of
        RX_MODE_INTERRUPT \<Rightarrow> Some INTERRUPT
      | RX_MODE_POLLING \<Rightarrow> Some POLLING
      | RX_MODE_UNKNOWN \<Rightarrow> None)"

definition constructIpv4AndV6AddressArray :: "string \<Rightarrow> string \<Rightarrow> string list" where
  "constructIpv4AndV6AddressArray ipv4 ipv6 =
     (if ipv4 \<noteq> [] \<or> ipv6 \<noteq> [] then
        (let ipAddrArray = (if ipv4 \<noteq> [] then [ipv4] else [])
         in if ipv6 \<noteq> [] then (if ipAddrArray = [] then [ipv6] else ipAddrArray @ [ipv6])
            else ipAddrArray)
      else [])"

definition getMtu :: "uint32 \<Rightarrow> 'i sfcCtlrL2CNPDriver \<Rightarrow> uint32" where
  "getMtu mtu s = (if mtu = 0 then sp_Mtu (SysParms (l2CNPEntityCache s)) else mtu)"


subsection \<open>Store gateway\<close>

text \<open>A request to the store: takes the next outcome off \<open>kv_faults\<close>.\<close>

definition kvRequest :: "keyval \<Rightarrow> bool \<times> keyval" where
  "kvRequest kv =
     (case kv_faults kv of [] \<Rightarrow> (False, kv) | f # fs \<Rightarrow> (f, kv\<lparr>kv_faults := fs\<rparr>))"

definition kvPut :: "storeWrite \<Rightarrow> 'i sfcCtlrL2CNPDriver \<Rightarrow> error option \<times> 'i sfcCtlrL2CNPDriver" where
  "kvPut w s =
     (case kvRequest (db s) of
        (True, kv) \<Rightarrow> (Some StoreError, s\<lparr>db := kv\<rparr>)
      | (False, kv) \<Rightarrow> (None, s\<lparr>db := kv\<lparr>kv_puts := kv_puts kv @ [w]\<rparr>\<rparr>))"

definition reconcileCapture :: "string \<Rightarrow> resource \<Rightarrow> 'i sfcCtlrL2CNPDriver \<Rightarrow> 'i sfcCtlrL2CNPDriver" where
  "reconcileCapture etcdPrefix r s =
     s\<lparr>reconcileAfter := (reconcileAfter s)
          \<lparr>rc_resources := rc_resources (reconcileAfter s) @ [(etcdPrefix, r)]\<rparr>\<rparr>"

definition reconcileInterface :: "string \<Rightarrow> Interface \<Rightarrow> 'i sfcCtlrL2CNPDriver \<Rightarrow> 'i sfcCtlrL2CNPDriver" where
  "reconcileInterface etcdPrefix iface = reconcileCapture etcdPrefix (ResInterface iface)"

definition reconcileBridgeDomain :: "string \<Rightarrow> BridgeDomain \<Rightarrow> 'i sfcCtlrL2CNPDriver \<Rightarrow> 'i sfcCtlrL2CNPDriver" where
  "reconcileBridgeDomain etcdPrefix bd = reconcileCapture etcdPrefix (ResBridgeDomain bd)"

definition reconcileStaticRoute :: "string \<Rightarrow> StaticRoute \<Rightarrow> 'i sfcCtlrL2CNPDriver \<Rightarrow> 'i sfcCtlrL2CNPDriver" where
  "reconcileStaticRoute etcdPrefix sr = reconcileCapture etcdPrefix (ResStaticRoute sr)"

definition reconcileLinuxInterface :: "string \<Rightarrow> string \<Rightarrow> LinuxInterface \<Rightarrow> 'i sfcCtlrL2CNPDriver \<Rightarrow> 'i sfcCtlrL2CNPDriver" where
  "reconcileLinuxInterface etcdPrefix ifname linuxif =
     reconcileCapture etcdPrefix (ResLinuxInterface linuxif)"

subsection \<open>Persisted ID bindings\<close>

definition DatastoreHEIDsRetrieve :: "string \<Rightarrow> 'i sfcCtlrL2CNPDriver \<Rightarrow> uint32 option" where
  "DatastoreHEIDsRetrieve heName s = kv_HEIDs (db s) heName"

definition DatastoreHEIDsCreate :: "string \<Rightarrow> uint32 \<Rightarrow> (string \<times> uint32, 'i) engineOp" where
  "DatastoreHEIDsCreate heName loopbackMacAddrID s =
     (case kvRequest (db s) of
        (True, kv) \<Rightarrow> (Inl StoreError, s\<lparr>db := kv\<rparr>)
      | (False, kv) \<Rightarrow>
          (Inr (heName, loopbackMacAddrID),
           s\<lparr>db := kv\<lparr>kv_HEIDs := (kv_HEIDs kv)(heName \<mapsto> loopbackMacAddrID)\<rparr>\<rparr>))"

definition DatastoreHE2EEIDsRetrieve :: "string \<Rightarrow> string \<Rightarrow> 'i sfcCtlrL2CNPDriver \<Rightarrow> uint32 option" where
  "DatastoreHE2EEIDsRetrieve heName eeName s = kv_HE2EEIDs (db s) (heName, eeName)"

definition DatastoreHE2EEIDsCreate :: "string \<Rightarrow> string \<Rightarrow> uint32 \<Rightarrow> ((string \<times> string) \<times> uint32, 'i) engineOp" where
  "DatastoreHE2EEIDsCreate heName eeName vlanID s =
     (case kvRequest (db s) of
        (True, kv) \<Rightarrow> (Inl StoreError, s\<lparr>db := kv\<rparr>)
      | (False, kv) \<Rightarrow>
          (Inr ((heName, eeName), vlanID),
           s\<lparr>db := kv\<lparr>kv_HE2EEIDs := (kv_HE2EEIDs kv)((heName, eeName) \<mapsto> vlanID)\<rparr>\<rparr>))"

definition DatastoreHE2HEIDsRetrieve :: "string \<Rightarrow> string \<Rightarrow> 'i sfcCtlrL2CNPDriver \<Rightarrow> uint32 option" where
  "DatastoreHE2HEIDsRetrieve shName dhName s = kv_HE2HEIDs (db s) (shName, dhName)"

definition DatastoreHE2HEIDsCreate :: "string \<Rightarrow> string \<Rightarrow> uint32 \<Rightarrow> ((string \<times> string) \<times> uint32, 'i) engineOp" where
  "DatastoreHE2HEIDsCreate shName dhName vlanID s =
     (case kvRequest (db s) of
        (True, kv) \<Rightarrow> (Inl StoreError, s\<lparr>db := kv\<rparr>)
      | (False, kv) \<Rightarrow>
          (Inr ((shName, dhName), vlanID),
           s\<lparr>db := kv\<lparr>kv_HE2HEIDs := (kv_HE2HEIDs kv)((shName, dhName) \<mapsto> vlanID)\<rparr>\<rparr>))"

definition DatastoreSFCIDsRetrieve :: "string \<Rightarrow> string \<Rightarrow> string \<Rightarrow> 'i sfcCtlrL2CNPDriver \<Rightarrow> SFCIDs option" where
  "DatastoreSFCIDsRetrieve sfcName container port s = kv_SFCIDs (db s) (sfcName, container, port)"

definition DatastoreSFCIDsCreate :: "string \<Rightarrow> string \<Rightarrow> string \<Rightarrow> uint32 \<Rightarrow> uint32 \<Rightarrow> uint32 \<Rightarrow> uint32
    \<Rightarrow> ((string \<times> string \<times> string) \<times> SFCIDs, 'i) engineOp" where
  "DatastoreSFCIDsCreate sfcName container port ipID macAddrID memifID vethID s =
     (let sfcID = \<lparr>ids_IpId = ipID, ids_MacAddrId = macAddrID, ids_MemifId = memifID,
                    ids_VethId = vethID\<rparr>
      in case kvRequest (db s) of
           (True, kv) \<Rightarrow> (Inl StoreError, s\<lparr>db := kv\<rparr>)
         | (False, kv) \<Rightarrow>
             (Inr ((sfcName, container, port), sfcID),
              s\<lparr>db := kv\<lparr>kv_SFCIDs := (kv_SFCIDs kv)((sfcName, container, port) \<mapsto> sfcID)\<rparr>\<rparr>))"


subsection \<open>Resource creation\<close>

text \<open>
  Each function builds its record, then either hands it to the reconcile hook (when
  \<open>reconcileInProgress\<close>) or puts it to the store, as its source does. The three
  functions at the end have no reconcile branch in the source: for the ARP and the L2-FIB
  entry it is commented out, for the cross-connect it was never written.
\<close>

definition bridgedDomainCreateWithIfs :: "string \<Rightarrow> string \<Rightarrow> BDInterface list \<Rightarrow> BDParms option
    \<Rightarrow> (nat, 'i) engineOp" where
  "bridgedDomainCreateWithIfs etcdVppSwitchKey bdName ifs bdParms s =
     (case bdParms of
        None \<Rightarrow> (Inl NilPointerPanic, s)
      | Some p \<Rightarrow>
         (let bd = \<lparr>bd_Name = bdName, bd_Flood = bdp_Flood p,
                     bd_UnknownUnicastFlood = bdp_UnknownUnicastFlood p,
                     bd_Forward = bdp_Forward p, bd_Learn = bdp_Learn p,
                     bd_ArpTermination = bdp_ArpTermination p, bd_MacAge = bdp_MacAge p,
                     bd_Interfaces = ifs\<rparr>;
              ptr = length (bdHeap s);
              s1 = s\<lparr>bdHeap := bdHeap s @ [bd]\<rparr>
          in if reconcileInProgress s1 then (Inr ptr, reconcileBridgeDomain etcdVppSwitchKey bd s1)
             else (case kvPut (TxnPut etcdVppSwitchKey (ResBridgeDomain bd)) s1 of
                     (Some err, s2) \<Rightarrow> (Inl err, s2)
                   | (None, s2) \<Rightarrow> (Inr ptr, s2))))"

text \<open>
  The two loops of \<^verbatim>\<open>bridgedDomainAssociateWithIfs\<close>: an interface is appended unless an
  entry of the bridge, as it is by then, has its name.
\<close>

fun associateIfs :: "BDInterface list \<Rightarrow> BDInterface list \<Rightarrow> BDInterface list" where
  "associateIfs bdInterfaces [] = bdInterfaces"
| "associateIfs bdInterfaces (iface # ifs) =
     associateIfs
       (if list_ex (\<lambda>bi. bi_Name bi = bi_Name iface) bdInterfaces then bdInterfaces
        else bdInterfaces @ [iface])
       ifs"

definition bridgedDomainAssociateWithIfs :: "string \<Rightarrow> nat option \<Rightarrow> BDInterface list
    \<Rightarrow> (unit, 'i) engineOp" where
  "bridgedDomainAssociateWithIfs etcdVppSwitchKey bdPtr ifs s =
     (case bdPtr of
        None \<Rightarrow> (Inl NilPointerPanic, s)
      | Some ptr \<Rightarrow>
         (if length (bdHeap s) \<le> ptr then (Inl NilPointerPanic, s)
          else
            (let bd0 = bdHeap s ! ptr;
                 bd = bd0\<lparr>bd_Interfaces := associateIfs (bd_Interfaces bd0) ifs\<rparr>;
                 s1 = s\<lparr>bdHeap := (bdHeap s)[ptr := bd]\<rparr>
             in if reconcileInProgress s1 then (Inr (), reconcileBridgeDomain etcdVppSwitchKey bd s1)
                else (case kvPut (TxnPut etcdVppSwitchKey (ResBridgeDomain bd)) s1 of
                        (Some err, s2) \<Rightarrow> (Inl err, s2)
                      | (None, s2) \<Rightarrow> (Inr (), s2)))))"

definition vxLanCreate :: "string \<Rightarrow> string \<Rightarrow> uint32 \<Rightarrow> string \<Rightarrow> string \<Rightarrow> (Interface, 'i) engineOp" where
  "vxLanCreate etcdVppSwitchKey ifname vni srcStr dstStr s =
     (let src = stripSlashAndSubnetIpv4Address srcStr;
          dst = stripSlashAndSubnetIpv4Address dstStr;
          iface = \<lparr>if_Name = ifname, if_Type = VXLAN_TUNNEL, if_Enabled = True,
                    if_PhysAddress = [], if_Mtu = 0, if_IpAddresses = [],
                    if_RxModeSettings = None,
                    if_Vxlan = Some \<lparr>vx_SrcAddress = src, vx_DstAddress = dst, vx_Vni = vni\<rparr>,
                    if_Memif = None, if_Afpacket = None\<rparr>
      in if reconcileInProgress s then (Inr iface, reconcileInterface etcdVppSwitchKey iface s)
         else (case kvPut (TxnPut etcdVppSwitchKey (ResInterface iface)) s of
                 (Some err, s1) \<Rightarrow> (Inl err, s1)
               | (None, s1) \<Rightarrow> (Inr iface, s1)))"

definition memIfCreate :: "string \<Rightarrow> string \<Rightarrow> uint32 \<Rightarrow> bool \<Rightarrow> string \<Rightarrow> string \<Rightarrow> string \<Rightarrow> string
    \<Rightarrow> uint32 \<Rightarrow> RxModeType \<Rightarrow> (Interface, 'i) engineOp" where
  "memIfCreate etcdPrefix memIfName memifID isMaster masterContainer ipv4 macAddress ipv6 mtu rxMode s =
     (let memIf = \<lparr>if_Name = memIfName, if_Type = MEMORY_INTERFACE, if_Enabled = True,
                    if_PhysAddress = macAddress, if_Mtu = mtu,
                    if_IpAddresses = constructIpv4AndV6AddressArray ipv4 ipv6,
                    if_RxModeSettings = rxModeControllerToInterface rxMode,
                    if_Vxlan = None,
                    if_Memif = Some \<lparr>mi_Id = memifID, mi_Master = isMaster,
                       mi_SocketFilename = ''/tmp/memif_'' @ masterContainer @ ''.sock''\<rparr>,
                    if_Afpacket = None\<rparr>
      in if reconcileInProgress s then (Inr memIf, reconcileInterface etcdPrefix memIf s)
         else (case kvPut (TxnPut etcdPrefix (ResInterface memIf)) s of
                 (Some err, s1) \<Rightarrow> (Inl err, s1)
               | (None, s1) \<Rightarrow> (Inr memIf, s1)))"

definition createEthernet :: "string \<Rightarrow> string \<Rightarrow> string \<Rightarrow> string \<Rightarrow> string \<Rightarrow> uint32 \<Rightarrow> RxModeType
    \<Rightarrow> (unit, 'i) engineOp" where
  "createEthernet etcdPrefix ifname ipv4 macAddr ipv6 mtu rxMode s =
     (let iface = \<lparr>if_Name = ifname, if_Type = ETHERNET_CSMACD, if_Enabled = True,
                    if_PhysAddress = macAddr, if_Mtu = mtu,
                    if_IpAddresses = constructIpv4AndV6AddressArray ipv4 ipv6,
                    if_RxModeSettings = rxModeControllerToInterface rxMode,
                    if_Vxlan = None, if_Memif = None, if_Afpacket = None\<rparr>
      in if reconcileInProgress s then (Inr (), reconcileInterface etcdPrefix iface s)
         else (case kvPut (TxnPut etcdPrefix (ResInterface iface)) s of
                 (Some err, s1) \<Rightarrow> (Inl err, s1)
               | (None, s1) \<Rightarrow> (Inr (), s1)))"

definition afPacketCreate :: "string \<Rightarrow> string \<Rightarrow> string \<Rightarrow> string \<Rightarrow> string \<Rightarrow> string \<Rightarrow> uint32
    \<Rightarrow> RxModeType \<Rightarrow> (Interface, 'i) engineOp" where
  "afPacketCreate etcdPrefix ifName hostIfName ipv4 macAddress ipv6 mtu rxMode s =
     (let afPacketIf = \<lparr>if_Name = ifName, if_Type = AF_PACKET_INTERFACE, if_Enabled = True,
                    if_PhysAddress = macAddress, if_Mtu = mtu,
                    if_IpAddresses = constructIpv4AndV6AddressArray ipv4 ipv6,
                    if_RxModeSettings = rxModeControllerToInterface rxMode,
                    if_Vxlan = None, if_Memif = None, if_Afpacket = Some hostIfName\<rparr>
      in if reconcileInProgress s then (Inr afPacketIf, reconcileInterface etcdPrefix afPacketIf s)
         else (case kvPut (TxnPut etcdPrefix (ResInterface afPacketIf)) s of
                 (Some err, s1) \<Rightarrow> (Inl err, s1)
               | (None, s1) \<Rightarrow> (Inr afPacketIf, s1)))"

definition createLoopback :: "string \<Rightarrow> string \<Rightarrow> string \<Rightarrow> string \<Rightarrow> string \<Rightarrow> uint32 \<Rightarrow> RxModeType
    \<Rightarrow> (unit, 'i) engineOp" where
  "createLoopback etcdPrefix ifname physAddr ipv4 ipv6 mtu rxMode s =
     (let iface = \<lparr>if_Name = ifname, if_Type = SOFTWARE_LOOPBACK, if_Enabled = True,
                    if_PhysAddress = physAddr, if_Mtu = mtu,
                    if_IpAddresses = constructIpv4AndV6AddressArray ipv4 ipv6,
                    if_RxModeSettings = rxModeControllerToInterface rxMode,
                    if_Vxlan = None, if_Memif = None, if_Afpacket = None\<rparr>
      in if reconcileInProgress s then (Inr (), reconcileInterface etcdPrefix iface s)
         else (case kvPut (TxnPut etcdPrefix (ResInterface iface)) s of
                 (Some err, s1) \<Rightarrow> (Inl err, s1)
               | (None, s1) \<Rightarrow> (Inr (), s1)))"

definition vEthIfCreate :: "string \<Rightarrow> string \<Rightarrow> string \<Rightarrow> string \<Rightarrow> string \<Rightarrow> string \<Rightarrow> string \<Rightarrow> string
    \<Rightarrow> uint32 \<Rightarrow> (unit, 'i) engineOp" where
  "vEthIfCreate etcdPrefix ifname hostIfName peerIfName container physAddr ipv4 ipv6 mtu s =
     (let linuxif = \<lparr>li_Name = ifname, li_Enabled = True, li_PhysAddress = physAddr,
                      li_HostIfName = hostIfName,
                      li_IpAddresses = constructIpv4AndV6AddressArray ipv4 ipv6,
                      li_Mtu = mtu, li_Microservice = container, li_PeerIfName = peerIfName\<rparr>
      in if reconcileInProgress s then (Inr (), reconcileLinuxInterface etcdPrefix ifname linuxif s)
         else (case kvPut (TxnPut etcdPrefix (ResLinuxInterface linuxif)) s of
                 (Some err, s1) \<Rightarrow> (Inl err, s1)
               | (None, s1) \<Rightarrow> (Inr (), s1)))"

definition createStaticRoute :: "uint32 \<Rightarrow> string \<Rightarrow> string \<Rightarrow> string \<Rightarrow> string \<Rightarrow> string \<Rightarrow> uint32
    \<Rightarrow> uint32 \<Rightarrow> (StaticRoute, 'i) engineOp" where
  "createStaticRoute vrfID etcdPrefix description destIpv4AddrStr netHopIpv4Addr outGoingIf weight pref s =
     (let sr = \<lparr>sr_VrfId = vrfID, sr_Description = description, sr_DstIpAddr = destIpv4AddrStr,
                 sr_NextHopAddr = stripSlashAndSubnetIpv4Address netHopIpv4Addr,
                 sr_Weight = weight, sr_OutgoingInterface = outGoingIf, sr_Preference = pref\<rparr>
      in if reconcileInProgress s then (Inr sr, reconcileStaticRoute etcdPrefix sr s)
         else (case kvPut (TxnPut etcdPrefix (ResStaticRoute sr)) s of
                 (Some err, s1) \<Rightarrow> (Inl err, s1)
               | (None, s1) \<Rightarrow> (Inr sr, s1)))"

definition createStaticArpEntry :: "string \<Rightarrow> string \<Rightarrow> string \<Rightarrow> string \<Rightarrow> (ArpTableEntry, 'i) engineOp" where
  "createStaticArpEntry etcdPrefix destIPAddress physAddress outGoingIf s =
     (let ae = \<lparr>arp_Interface = outGoingIf, arp_Static = True, arp_IpAddress = destIPAddress,
                 arp_PhysAddress = physAddress\<rparr>;
          key = ArpEntryKey etcdPrefix outGoingIf destIPAddress
      in case kvPut (DbPut key ae) s of
           (Some err, s1) \<Rightarrow> (Inl err, s1)
         | (None, s1) \<Rightarrow> (Inr ae, s1))"

definition createXConnect :: "string \<Rightarrow> string \<Rightarrow> string \<Rightarrow> (unit, 'i) engineOp" where
  "createXConnect etcdPrefix rxIf txIf s =
     (let xconn = \<lparr>xc_ReceiveInterface = rxIf, xc_TransmitInterface = txIf\<rparr>
      in case kvPut (TxnPut etcdPrefix (ResXConnect xconn)) s of
           (Some err, s1) \<Rightarrow> (Inl err, s1)
         | (None, s1) \<Rightarrow> (Inr (), s1))"

definition createXConnectPair :: "string \<Rightarrow> string \<Rightarrow> string \<Rightarrow> (unit, 'i) engineOp" where
  "createXConnectPair etcdPrefix if1 if2 s =
     (case createXConnect etcdPrefix if1 if2 s of
        (Inl err, s1) \<Rightarrow> (Inl err, s1)
      | (Inr _, s1) \<Rightarrow>
         (case createXConnect etcdPrefix if2 if1 s1 of
            (Inl err, s2) \<Rightarrow> (Inl err, s2)
          | (Inr _, s2) \<Rightarrow> (Inr (), s2)))"

definition createL2FibEntry :: "string \<Rightarrow> string \<Rightarrow> string \<Rightarrow> string \<Rightarrow> (FibTableEntry, 'i) engineOp" where
  "createL2FibEntry etcdPrefix bdName destMacAddr outGoingIf s =
     (let l2fib = \<lparr>fib_BridgeDomain = bdName, fib_PhysAddress = destMacAddr,
                    fib_Action = FORWARD, fib_OutgoingInterface = outGoingIf,
                    fib_StaticConfig = True\<rparr>
      in case kvPut (TxnPut etcdPrefix (ResFib l2fib)) s of
           (Some err, s1) \<Rightarrow> (Inl err, s1)
         | (None, s1) \<Rightarrow> (Inr l2fib, s1))"

definition setSfcInterfaceIPAndMac :: "string \<Rightarrow> string \<Rightarrow> string \<Rightarrow> string \<Rightarrow> 'i sfcCtlrL2CNPDriver
    \<Rightarrow> 'i sfcCtlrL2CNPDriver" where
  "setSfcInterfaceIPAndMac container port ip mac s =
     s\<lparr>l2CNPStateCache := (l2CNPStateCache s)
          \<lparr>SFCIFAddr := (SFCIFAddr (l2CNPStateCache s))
             (container @ ''/'' @ port \<mapsto> \<lparr>ifa_ipAddress = ip, ifa_macAddress = mac\<rparr>)\<rparr>\<rparr>"

definition GetSfcInterfaceIPAndMac :: "string \<Rightarrow> string \<Rightarrow> 'i sfcCtlrL2CNPDriver \<Rightarrow> (string \<times> string) option" where
  "GetSfcInterfaceIPAndMac container port s =
     (case SFCIFAddr (l2CNPStateCache s) (container @ ''/'' @ port) of
        Some sfcIFAddr \<Rightarrow>
          Some (stripSlashAndSubnetIpv4Address (ifa_ipAddress sfcIFAddr), ifa_macAddress sfcIFAddr)
      | None \<Rightarrow> None)"


subsection \<open>Cache reads and writes\<close>

definition setHE :: "string \<Rightarrow> HostEntity \<Rightarrow> 'i sfcCtlrL2CNPDriver \<Rightarrow> 'i sfcCtlrL2CNPDriver" where
  "setHE k he s =
     s\<lparr>l2CNPEntityCache := (l2CNPEntityCache s)\<lparr>HEs := (HEs (l2CNPEntityCache s))(k \<mapsto> he)\<rparr>\<rparr>"

definition setEE :: "string \<Rightarrow> ExternalEntity \<Rightarrow> 'i sfcCtlrL2CNPDriver \<Rightarrow> 'i sfcCtlrL2CNPDriver" where
  "setEE k ee s =
     s\<lparr>l2CNPEntityCache := (l2CNPEntityCache s)\<lparr>EEs := (EEs (l2CNPEntityCache s))(k \<mapsto> ee)\<rparr>\<rparr>"

definition setSFC :: "string \<Rightarrow> SfcEntity \<Rightarrow> 'i sfcCtlrL2CNPDriver \<Rightarrow> 'i sfcCtlrL2CNPDriver" where
  "setSFC k sfc s =
     s\<lparr>l2CNPEntityCache := (l2CNPEntityCache s)\<lparr>SFCs := (SFCs (l2CNPEntityCache s))(k \<mapsto> sfc)\<rparr>\<rparr>"

definition getHEToEEState :: "string \<Rightarrow> string \<Rightarrow> 'i sfcCtlrL2CNPDriver \<Rightarrow> heToEEStateType option" where
  "getHEToEEState heName eeName s =
     (case HEToEEs (l2CNPStateCache s) heName of None \<Rightarrow> None | Some eeMap \<Rightarrow> eeMap eeName)"

definition getHEToHEState :: "string \<Rightarrow> string \<Rightarrow> 'i sfcCtlrL2CNPDriver \<Rightarrow> heToHEStateType option" where
  "getHEToHEState shName dhName s =
     (case HEToHEs (l2CNPStateCache s) shName of None \<Rightarrow> None | Some heMap \<Rightarrow> heMap dhName)"

text \<open>A write through the pointer held in slot \<open>[heName][eeName]\<close>, or the insertion of a slot.\<close>

definition setHEToEEState :: "string \<Rightarrow> string \<Rightarrow> heToEEStateType \<Rightarrow> 'i sfcCtlrL2CNPDriver
    \<Rightarrow> 'i sfcCtlrL2CNPDriver" where
  "setHEToEEState heName eeName st s =
     (let eeMap = (case HEToEEs (l2CNPStateCache s) heName of None \<Rightarrow> Map.empty | Some m \<Rightarrow> m)
      in s\<lparr>l2CNPStateCache := (l2CNPStateCache s)
            \<lparr>HEToEEs := (HEToEEs (l2CNPStateCache s))(heName \<mapsto> eeMap(eeName \<mapsto> st))\<rparr>\<rparr>)"

definition setHEToHEState :: "string \<Rightarrow> string \<Rightarrow> heToHEStateType \<Rightarrow> 'i sfcCtlrL2CNPDriver
    \<Rightarrow> 'i sfcCtlrL2CNPDriver" where
  "setHEToHEState shName dhName st s =
     (let heMap = (case HEToHEs (l2CNPStateCache s) shName of None \<Rightarrow> Map.empty | Some m \<Rightarrow> m)
      in s\<lparr>l2CNPStateCache := (l2CNPStateCache s)
            \<lparr>HEToHEs := (HEToHEs (l2CNPStateCache s))(shName \<mapsto> heMap(dhName \<mapsto> st))\<rparr>\<rparr>)"

definition setHEState :: "string \<Rightarrow> heStateType \<Rightarrow> 'i sfcCtlrL2CNPDriver \<Rightarrow> 'i sfcCtlrL2CNPDriver" where
  "setHEState heName st s =
     s\<lparr>l2CNPStateCache := (l2CNPStateCache s)\<lparr>HE := (HE (l2CNPStateCache s))(heName \<mapsto> st)\<rparr>\<rparr>"

definition setSFCToHEState :: "string \<Rightarrow> string \<Rightarrow> heStateType \<Rightarrow> 'i sfcCtlrL2CNPDriver
    \<Rightarrow> 'i sfcCtlrL2CNPDriver" where
  "setSFCToHEState sfcName heName st s =
     (let heMap = (case SFCToHEs (l2CNPStateCache s) sfcName of None \<Rightarrow> Map.empty | Some m \<Rightarrow> m)
      in s\<lparr>l2CNPStateCache := (l2CNPStateCache s)
            \<lparr>SFCToHEs := (SFCToHEs (l2CNPStateCache s))(sfcName \<mapsto> heMap(heName \<mapsto> st))\<rparr>\<rparr>)"

text \<open>\<^verbatim>\<open>cnpd.seq.X++\<close> followed by a read of \<^verbatim>\<open>cnpd.seq.X\<close>; the counters are uint32 and wrap.\<close>

definition nextVLanID :: "'i sfcCtlrL2CNPDriver \<Rightarrow> uint32 \<times> 'i sfcCtlrL2CNPDriver" where
  "nextVLanID s = (VLanID (seq s) + 1, s\<lparr>seq := (seq s)\<lparr>VLanID := VLanID (seq s) + 1\<rparr>\<rparr>)"

definition nextMemIfID :: "'i sfcCtlrL2CNPDriver \<Rightarrow> uint32 \<times> 'i sfcCtlrL2CNPDriver" where
  "nextMemIfID s = (MemIfID (seq s) + 1, s\<lparr>seq := (seq s)\<lparr>MemIfID := MemIfID (seq s) + 1\<rparr>\<rparr>)"

definition nextMacInstanceID :: "'i sfcCtlrL2CNPDriver \<Rightarrow> uint32 \<times> 'i sfcCtlrL2CNPDriver" where
  "nextMacInstanceID s =
     (MacInstanceID (seq s) + 1, s\<lparr>seq := (seq s)\<lparr>MacInstanceID := MacInstanceID (seq s) + 1\<rparr>\<rparr>)"

definition nextVethID :: "'i sfcCtlrL2CNPDriver \<Rightarrow> uint32 \<times> 'i sfcCtlrL2CNPDriver" where
  "nextVethID s = (VethID (seq s) + 1, s\<lparr>seq := (seq s)\<lparr>VethID := VethID (seq s) + 1\<rparr>\<rparr>)"

subsection \<open>System parameters, host pairs, host to external entity\<close>

definition SetSystemParameters :: "SystemParameters \<Rightarrow> (unit, 'i) engineOp" where
  "SetSystemParameters sp s =
     (let s1 = s\<lparr>l2CNPEntityCache := (l2CNPEntityCache s)\<lparr>SysParms := sp\<rparr>\<rparr>;
          s2 = (if VLanID (seq s1) = 0
                then s1\<lparr>seq := (seq s1)
                        \<lparr>VLanID := sp_StartingVlanId (SysParms (l2CNPEntityCache s1)) - 1\<rparr>\<rparr>
                else s1)
      in (Inr (), s2))"

definition WireHostEntityToDestinationHostEntity :: "HostEntity \<Rightarrow> HostEntity \<Rightarrow> (unit, 'i) engineOp" where
  "WireHostEntityToDestinationHostEntity sh dh s =
     (let s1 = setHE (he_Name sh) sh s;
          s2 = setHE (he_Name dh) dh s1;
          s3 = (case HEToHEs (l2CNPStateCache s2) (he_Name sh) of
                  None \<Rightarrow> s2\<lparr>l2CNPStateCache := (l2CNPStateCache s2)
                            \<lparr>HEToHEs := (HEToHEs (l2CNPStateCache s2))(he_Name sh \<mapsto> Map.empty)\<rparr>\<rparr>
                | Some _ \<Rightarrow> s2)
      in case getHEToHEState (he_Name sh) (he_Name dh) s3 of
           Some _ \<Rightarrow> (Inr (), s3)
         | None \<Rightarrow>
             (Inr (), setHEToHEState (he_Name sh) (he_Name dh)
                        \<lparr>heToHE_vlanIf = None, heToHE_bd = None, heToHE_l3Route = None\<rparr> s3))"

definition wireExternalEntityToHostEntity :: "ExternalEntity \<Rightarrow> HostEntity \<Rightarrow> (unit, 'i) engineOp" where
  "wireExternalEntityToHostEntity ee he s =
     (case HEToEEs (l2CNPStateCache s) (he_Name he) of
        None \<Rightarrow> (Inr (), s)
      | Some heToEEMap \<Rightarrow>
         (case heToEEMap (ee_Name ee) of
            None \<Rightarrow> (Inr (), s)
          | Some heToEEState \<Rightarrow>
             (case heToEE_vlanIf heToEEState of
                None \<Rightarrow> (Inl NilPointerPanic, s)
              | Some vlanIf \<Rightarrow>
                 (case if_Vxlan vlanIf of
                    None \<Rightarrow> (Inl NilPointerPanic, s)
                  | Some vxlan \<Rightarrow>
                     (let tmpVlanid = vx_Vni vxlan;
                          description = ''IF_STATIC_ROUTE_E2H_'' @ he_Name he
                      in case ee_HostInterface ee of
                           None \<Rightarrow> (Inl NilPointerPanic, s)
                         | Some hostInterface \<Rightarrow>
                            (case createStaticRoute 0 (ee_Name ee) description
                                    (he_VxlanTunnelIpv4 he) (he_EthIpv4 he) (hi_IfName hostInterface)
                                    (sp_DefaultStaticRouteWeight (SysParms (l2CNPEntityCache s)))
                                    (sp_DefaultStaticRoutePreference (SysParms (l2CNPEntityCache s))) s of
                               (Inl err, s1) \<Rightarrow> (Inl err, s1)
                             | (Inr sr, s1) \<Rightarrow>
                                 (Inr (), s1\<lparr>extEntityCalls := extEntityCalls s1 @
                                    [SfcCtlrL2WireExternalEntityToHostEntity ee he tmpVlanid sr]\<rparr>)))))))"

definition WireHostEntityToExternalEntity :: "HostEntity \<Rightarrow> ExternalEntity \<Rightarrow> (unit, 'i) engineOp" where
  "WireHostEntityToExternalEntity he ee s =
     (let s1 = setHE (he_Name he) he s;
          s2 = setEE (ee_Name ee) ee s1
      in if ee_HostInterface ee = None \<or> ee_HostVxlan ee = None
         then (Inl InvalidExternalEntityConfig, s2)
         else
           (let s3 = (case HEToEEs (l2CNPStateCache s2) (he_Name he) of
                        None \<Rightarrow> s2\<lparr>l2CNPStateCache := (l2CNPStateCache s2)
                                  \<lparr>HEToEEs := (HEToEEs (l2CNPStateCache s2))(he_Name he \<mapsto> Map.empty)\<rparr>\<rparr>
                      | Some _ \<Rightarrow> s2)
            in case getHEToEEState (he_Name he) (ee_Name ee) s3 of
                 Some _ \<Rightarrow> (Inr (), s3)
               | None \<Rightarrow>
                   (Inr (), setHEToEEState (he_Name he) (ee_Name ee)
                              \<lparr>heToEE_vlanIf = None, heToEE_bd = None, heToEE_l3Route = None\<rparr> s3)))"

definition WireInternalsForExternalEntity :: "ExternalEntity \<Rightarrow> (unit, 'i) engineOp" where
  "WireInternalsForExternalEntity ee s =
     (Inr (), s\<lparr>extEntityCalls := extEntityCalls s @ [SfcCtlrL2WireExternalEntityInternals ee]\<rparr>)"

text \<open>
  \<^verbatim>\<open>WireInternalsForHostEntity\<close>. Where a bridge domain cannot be created the source
  logs \<^verbatim>\<open>bd.Name\<close> of the nil pointer it got back, which panics: that holds at every call
  of \<^verbatim>\<open>bridgedDomainCreateWithIfs\<close> in the driver.
\<close>

definition wireHostLoopback :: "HostEntity \<Rightarrow> (uint32, 'i) engineOp" where
  \<comment> \<open>the loopback block of \<^verbatim>\<open>WireInternalsForHostEntity\<close>; returns \<^verbatim>\<open>loopbackMacAddrID\<close>\<close>
  "wireHostLoopback he s =
     (if he_LoopbackIpv4 he \<noteq> [] \<or> he_LoopbackIpv6 he \<noteq> [] then
        (let (loopbackMacAddress, loopbackMacAddrID, s1) =
               (if he_LoopbackMacAddr he = [] then
                  (case DatastoreHEIDsRetrieve (he_Name he) s of
                     None \<Rightarrow> (let (n, t) = nextMacInstanceID s in (formatMacAddress n, n, t))
                   | Some heID \<Rightarrow>
                       (if heID = 0
                        then (let (n, t) = nextMacInstanceID s in (formatMacAddress n, n, t))
                        else (formatMacAddress heID, heID, s)))
                else (he_LoopbackMacAddr he, 0, s));
             mtu = getMtu (he_Mtu he) s1;
             loopIfName = ''IF_LOOPBACK_H_'' @ he_Name he
         in case createLoopback (he_Name he) loopIfName loopbackMacAddress
                   (he_LoopbackIpv4 he) (he_LoopbackIpv6 he) mtu (he_RxMode he) s1 of
              (Inl err, s2) \<Rightarrow> (Inl err, s2)
            | (Inr _, s2) \<Rightarrow> (Inr loopbackMacAddrID, s2))
      else (Inr 0, s))"

definition wireHostBridges :: "HostEntity \<Rightarrow> uint32 \<Rightarrow> (unit, 'i) engineOp" where
  \<comment> \<open>the rest of \<^verbatim>\<open>WireInternalsForHostEntity\<close>: the two default bridges, the ID binding\<close>
  "wireHostBridges he loopbackMacAddrID s =
     (case bridgedDomainCreateWithIfs (he_Name he) (''BD_INTERNAL_EW_'' @ he_Name he) []
             (sp_DynamicBridgeParms (SysParms (l2CNPEntityCache s))) s of
        (Inl _, s1) \<Rightarrow> (Inl NilPointerPanic, s1)
      | (Inr bd, s1) \<Rightarrow>
         (let s2 = setHEState (he_Name he) \<lparr>ewBD = Some bd, ewBDL2Fib = None\<rparr> s1
          in case bridgedDomainCreateWithIfs (he_Name he) (''BD_INTERNAL_EW_L2FIB_'' @ he_Name he) []
                    (sp_StaticBridgeParms (SysParms (l2CNPEntityCache s2))) s2 of
               (Inl _, s3) \<Rightarrow> (Inl NilPointerPanic, s3)
             | (Inr bd2, s3) \<Rightarrow>
                (let s4 = setHEState (he_Name he) \<lparr>ewBD = Some bd, ewBDL2Fib = Some bd2\<rparr> s3
                 in case DatastoreHEIDsCreate (he_Name he) loopbackMacAddrID s4 of
                      (Inl err, s5) \<Rightarrow> (Inl err, s5)
                    | (Inr (key, heID), s5) \<Rightarrow>
                        (Inr (),
                         if reconcileInProgress s5
                         then s5\<lparr>reconcileAfter := (reconcileAfter s5)
                                \<lparr>rc_heIDs := (rc_heIDs (reconcileAfter s5))(key \<mapsto> heID)\<rparr>\<rparr>
                         else s5))))"

definition WireInternalsForHostEntity :: "HostEntity \<Rightarrow> (unit, 'i) engineOp" where
  "WireInternalsForHostEntity he s =
     (let s1 = setHE (he_Name he) he s
      in case HE (l2CNPStateCache s1) (he_Name he) of
           Some _ \<Rightarrow> (Inr (), s1)
         | None \<Rightarrow>
            (let s2 = setHEState (he_Name he) \<lparr>ewBD = None, ewBDL2Fib = None\<rparr> s1;
                 mtu = getMtu (he_Mtu he) s2
             in case (if he_EthIfName he \<noteq> []
                      then createEthernet (he_Name he) (he_EthIfName he) (he_EthIpv4 he) []
                             (he_EthIpv6 he) mtu (he_RxMode he) s2
                      else (Inr (), s2)) of
                  (Inl err, s3) \<Rightarrow> (Inl err, s3)
                | (Inr _, s3) \<Rightarrow>
                   (case wireHostLoopback he s3 of
                      (Inl err, s4) \<Rightarrow> (Inl err, s4)
                    | (Inr loopbackMacAddrID, s4) \<Rightarrow> wireHostBridges he loopbackMacAddrID s4)))"


subsection \<open>Ensuring the VXLAN tunnel and the bridge of an edge\<close>

text \<open>
  \<^verbatim>\<open>createVxLANAndBridgeToExtEntity\<close> is three \<^verbatim>\<open>if\<close> blocks in a row, each guarded by one
  field of the edge's cache slot being nil; each block is a definition here. A block
  takes the struct the slot \<open>[hostName][eeName]\<close> points to, writes through to the slot
  and returns the struct as it then is; it returns \<open>Inl\<close> where the source returns an
  error (or panics) from inside it.
\<close>

definition vlanIDOrAllocate :: "uint32 \<Rightarrow> uint32 option \<Rightarrow> 'i sfcCtlrL2CNPDriver
    \<Rightarrow> uint32 \<times> 'i sfcCtlrL2CNPDriver" where
  \<comment> \<open>\<^verbatim>\<open>if vlanID == 0 { id, _ := <retrieve>; if id == nil || id.VlanId == 0
      { cnpd.seq.VLanID++; vlanID = cnpd.seq.VLanID } else { vlanID = id.VlanId } }\<close>,
      with the result of the retrieve call as \<open>persisted\<close>\<close>
  "vlanIDOrAllocate vlanID0 persisted s =
     (if vlanID0 = 0 then
        (case persisted of
           None \<Rightarrow> nextVLanID s
         | Some he2eeID \<Rightarrow> (if he2eeID = 0 then nextVLanID s else (he2eeID, s)))
      else (vlanID0, s))"

definition createVxLANAndBridgeToExtEntity_vlanIf :: "string \<Rightarrow> string \<Rightarrow> uint32
    \<Rightarrow> heToEEStateType \<Rightarrow> (heToEEStateType, 'i) engineOp" where
  "createVxLANAndBridgeToExtEntity_vlanIf hostName eeName vlanID0 heToEEState s =
     (let he = lookupHE s hostName;
          ee = lookupEE s eeName;
          ifName = ''IF_VXLAN_H2E_'' @ he_Name he @ ''_'' @ ee_Name ee;
          (vlanID, s1) =
            vlanIDOrAllocate vlanID0 (DatastoreHE2EEIDsRetrieve (he_Name he) (ee_Name ee) s) s
      in case ee_HostVxlan ee of
           None \<Rightarrow> (Inl NilPointerPanic, s1)
         | Some hostVxlan \<Rightarrow>
            (case vxLanCreate (he_Name he) ifName vlanID (he_VxlanTunnelIpv4 he)
                    (hv_SourceIpv4 hostVxlan) s1 of
               (Inl err, s2) \<Rightarrow> (Inl err, s2)
             | (Inr vlanIf, s2) \<Rightarrow>
                (let st = heToEEState\<lparr>heToEE_vlanIf := Some vlanIf\<rparr>;
                     s3 = setHEToEEState hostName eeName st s2
                 in case DatastoreHE2EEIDsCreate (he_Name he) (ee_Name ee) vlanID s3 of
                      (Inl _, s4) \<Rightarrow> (Inr st, s4)
                    | (Inr (key, he2eeID), s4) \<Rightarrow>
                        (Inr st,
                         if reconcileInProgress s4
                         then s4\<lparr>reconcileAfter := (reconcileAfter s4)
                                \<lparr>rc_he2eeIDs := (rc_he2eeIDs (reconcileAfter s4))(key \<mapsto> he2eeID)\<rparr>\<rparr>
                         else s4))))"

definition createVxLANAndBridgeToExtEntity_l3Route :: "string \<Rightarrow> string
    \<Rightarrow> heToEEStateType \<Rightarrow> (heToEEStateType, 'i) engineOp" where
  "createVxLANAndBridgeToExtEntity_l3Route hostName eeName heToEEState s =
     (let he = lookupHE s hostName;
          ee = lookupEE s eeName
      in if he_CreateVxlanStaticRoute he then
           (let description = ''IF_STATIC_ROUTE_H2E_'' @ ee_Name ee
            in case ee_HostVxlan ee of
                 None \<Rightarrow> (Inl NilPointerPanic, s)
               | Some hostVxlan \<Rightarrow>
                  (case ee_HostInterface ee of
                     None \<Rightarrow> (Inl NilPointerPanic, s)
                   | Some hostInterface \<Rightarrow>
                      (case createStaticRoute 0 (he_Name he) description (hv_SourceIpv4 hostVxlan)
                              (hi_Ipv4Addr hostInterface) (he_EthIfName he)
                              (sp_DefaultStaticRouteWeight (SysParms (l2CNPEntityCache s)))
                              (sp_DefaultStaticRoutePreference (SysParms (l2CNPEntityCache s))) s of
                         (Inl err, s1) \<Rightarrow> (Inl err, s1)
                       | (Inr sr, s1) \<Rightarrow>
                           (let st = heToEEState\<lparr>heToEE_l3Route := Some sr\<rparr>
                            in (Inr st, setHEToEEState hostName eeName st s1)))))
         else (Inr heToEEState, s))"

definition createVxLANAndBridgeToExtEntity_bd :: "string \<Rightarrow> string
    \<Rightarrow> heToEEStateType \<Rightarrow> (heToEEStateType, 'i) engineOp" where
  "createVxLANAndBridgeToExtEntity_bd hostName eeName heToEEState s =
     (let he = lookupHE s hostName;
          ee = lookupEE s eeName;
          bdName = ''BD_H2E_'' @ he_Name he @ ''_'' @ ee_Name ee
      in case heToEE_vlanIf heToEEState of
           None \<Rightarrow> (Inl NilPointerPanic, s)
         | Some vlanIf \<Rightarrow>
            (case bridgedDomainCreateWithIfs (he_Name he) bdName [BDInterface (if_Name vlanIf)]
                    (sp_DynamicBridgeParms (SysParms (l2CNPEntityCache s))) s of
               (Inl _, s1) \<Rightarrow> (Inl NilPointerPanic, s1)
             | (Inr bd, s1) \<Rightarrow>
                (let st = heToEEState\<lparr>heToEE_bd := Some bd\<rparr>;
                     s2 = setHEToEEState hostName eeName st s1
                 in case wireExternalEntityToHostEntity ee he s2 of
                      (Inl err, s3) \<Rightarrow> (if isPanic err then (Inl err, s3) else (Inr st, s3))
                    | (Inr _, s3) \<Rightarrow> (Inr st, s3))))"

definition createVxLANAndBridgeToExtEntity :: "SfcEntity \<Rightarrow> string \<Rightarrow> string \<Rightarrow> uint32
    \<Rightarrow> (nat option, 'i) engineOp" where
  "createVxLANAndBridgeToExtEntity sfc hostName eeName vlanID s =
     (case HEToEEs (l2CNPStateCache s) hostName of
        None \<Rightarrow> (Inl (HostNotFound hostName (sfc_Name sfc)), s)
      | Some heToEEMap \<Rightarrow>
         (case heToEEMap eeName of
            None \<Rightarrow> (Inl (HostNotWired hostName eeName (sfc_Name sfc)), s)
          | Some st0 \<Rightarrow>
             (case (if heToEE_vlanIf st0 = None
                    then createVxLANAndBridgeToExtEntity_vlanIf hostName eeName vlanID st0 s
                    else (Inr st0, s)) of
                (Inl err, s1) \<Rightarrow> (Inl err, s1)
              | (Inr st1, s1) \<Rightarrow>
                 (case (if heToEE_l3Route st1 = None
                        then createVxLANAndBridgeToExtEntity_l3Route hostName eeName st1 s1
                        else (Inr st1, s1)) of
                    (Inl err, s2) \<Rightarrow> (Inl err, s2)
                  | (Inr st2, s2) \<Rightarrow>
                     (case (if heToEE_bd st2 = None
                            then createVxLANAndBridgeToExtEntity_bd hostName eeName st2 s2
                            else (Inr st2, s2)) of
                        (Inl err, s3) \<Rightarrow> (Inl err, s3)
                      | (Inr st3, s3) \<Rightarrow> (Inr (heToEE_bd st3), s3))))))"

text \<open>
  \<^verbatim>\<open>createVxLANAndBridgeToDestHost\<close>, the same three blocks for a host pair. The lookup of
  the persisted id is \<^verbatim>\<open>DatastoreHE2EEIDsRetrieve(sh.Name, dh.Name)\<close> in the source, the
  write is \<^verbatim>\<open>DatastoreHE2HEIDsCreate\<close>; no external-entity call follows the bridge.
\<close>

definition createVxLANAndBridgeToDestHost_vlanIf :: "string \<Rightarrow> string \<Rightarrow> uint32
    \<Rightarrow> heToHEStateType \<Rightarrow> (heToHEStateType, 'i) engineOp" where
  "createVxLANAndBridgeToDestHost_vlanIf shName dhName vlanID0 heToHEState s =
     (let sh = lookupHE s shName;
          dh = lookupHE s dhName;
          ifName = ''IF_VXLAN_H2H_'' @ he_Name sh @ ''_'' @ he_Name dh;
          (vlanID, s1) =
            vlanIDOrAllocate vlanID0 (DatastoreHE2EEIDsRetrieve (he_Name sh) (he_Name dh) s) s
      in case vxLanCreate (he_Name sh) ifName vlanID (he_VxlanTunnelIpv4 sh)
                (he_VxlanTunnelIpv4 dh) s1 of
           (Inl err, s2) \<Rightarrow> (Inl err, s2)
         | (Inr vlanIf, s2) \<Rightarrow>
            (let st = heToHEState\<lparr>heToHE_vlanIf := Some vlanIf\<rparr>;
                 s3 = setHEToHEState shName dhName st s2
             in case DatastoreHE2HEIDsCreate (he_Name sh) (he_Name dh) vlanID s3 of
                  (Inl _, s4) \<Rightarrow> (Inr st, s4)
                | (Inr (key, sh2dhID), s4) \<Rightarrow>
                    (Inr st,
                     if reconcileInProgress s4
                     then s4\<lparr>reconcileAfter := (reconcileAfter s4)
                            \<lparr>rc_he2heIDs := (rc_he2heIDs (reconcileAfter s4))(key \<mapsto> sh2dhID)\<rparr>\<rparr>
                     else s4)))"

definition createVxLANAndBridgeToDestHost_l3Route :: "string \<Rightarrow> string
    \<Rightarrow> heToHEStateType \<Rightarrow> (heToHEStateType, 'i) engineOp" where
  "createVxLANAndBridgeToDestHost_l3Route shName dhName heToHEState s =
     (let sh = lookupHE s shName;
          dh = lookupHE s dhName
      in if he_CreateVxlanStaticRoute sh then
           (let description = ''IF_STATIC_ROUTE_H2H_'' @ he_Name dh
            in case createStaticRoute 0 (he_Name sh) description (he_VxlanTunnelIpv4 dh)
                      (he_EthIpv4 dh) (he_EthIfName sh)
                      (sp_DefaultStaticRouteWeight (SysParms (l2CNPEntityCache s)))
                      (sp_DefaultStaticRoutePreference (SysParms (l2CNPEntityCache s))) s of
                 (Inl err, s1) \<Rightarrow> (Inl err, s1)
               | (Inr sr, s1) \<Rightarrow>
                   (let st = heToHEState\<lparr>heToHE_l3Route := Some sr\<rparr>
                    in (Inr st, setHEToHEState shName dhName st s1)))
         else (Inr heToHEState, s))"

definition createVxLANAndBridgeToDestHost_bd :: "string \<Rightarrow> string
    \<Rightarrow> heToHEStateType \<Rightarrow> (heToHEStateType, 'i) engineOp" where
  "createVxLANAndBridgeToDestHost_bd shName dhName heToHEState s =
     (let sh = lookupHE s shName;
          dh = lookupHE s dhName;
          bdName = ''BD_H2H_'' @ he_Name sh @ ''_'' @ he_Name dh
      in case heToHE_vlanIf heToHEState of
           None \<Rightarrow> (Inl NilPointerPanic, s)
         | Some vlanIf \<Rightarrow>
            (case bridgedDomainCreateWithIfs (he_Name sh) bdName [BDInterface (if_Name vlanIf)]
                    (sp_DynamicBridgeParms (SysParms (l2CNPEntityCache s))) s of
               (Inl _, s1) \<Rightarrow> (Inl NilPointerPanic, s1)
             | (Inr bd, s1) \<Rightarrow>
                 (let st = heToHEState\<lparr>heToHE_bd := Some bd\<rparr>
                  in (Inr st, setHEToHEState shName dhName st s1))))"

definition createVxLANAndBridgeToDestHost :: "SfcEntity \<Rightarrow> string \<Rightarrow> string \<Rightarrow> uint32
    \<Rightarrow> (nat option, 'i) engineOp" where
  "createVxLANAndBridgeToDestHost sfc shName dhName vlanID s =
     (case HEToHEs (l2CNPStateCache s) shName of
        None \<Rightarrow> (Inl (HostNotFound shName (sfc_Name sfc)), s)
      | Some heToHEMap \<Rightarrow>
         (case heToHEMap dhName of
            None \<Rightarrow> (Inl (HostNotWired shName dhName (sfc_Name sfc)), s)
          | Some st0 \<Rightarrow>
             (case (if heToHE_vlanIf st0 = None
                    then createVxLANAndBridgeToDestHost_vlanIf shName dhName vlanID st0 s
                    else (Inr st0, s)) of
                (Inl err, s1) \<Rightarrow> (Inl err, s1)
              | (Inr st1, s1) \<Rightarrow>
                 (case (if heToHE_l3Route st1 = None
                        then createVxLANAndBridgeToDestHost_l3Route shName dhName st1 s1
                        else (Inr st1, s1)) of
                    (Inl err, s2) \<Rightarrow> (Inl err, s2)
                  | (Inr st2, s2) \<Rightarrow>
                     (case (if heToHE_bd st2 = None
                            then createVxLANAndBridgeToDestHost_bd shName dhName st2 s2
                            else (Inr st2, s2)) of
                        (Inl err, s3) \<Rightarrow> (Inl err, s3)
                      | (Inr st3, s3) \<Rightarrow> (Inr (heToHE_bd st3), s3))))))"


subsection \<open>Interface pairs of a container\<close>

text \<open>A \<^verbatim>\<open>for ... range\<close> loop that returns at the first error.\<close>

fun forEach :: "('a \<Rightarrow> (unit, 'i) engineOp) \<Rightarrow> 'a list \<Rightarrow> (unit, 'i) engineOp" where
  "forEach body [] s = (Inr (), s)"
| "forEach body (x # xs) s =
     (case body x s of
        (Inl err, s1) \<Rightarrow> (Inl err, s1)
      | (Inr _, s1) \<Rightarrow> forEach body xs s1)"

definition recordSfcIDs :: "(string \<times> string \<times> string) \<Rightarrow> SFCIDs \<Rightarrow> 'i sfcCtlrL2CNPDriver
    \<Rightarrow> 'i sfcCtlrL2CNPDriver" where
  \<comment> \<open>\<^verbatim>\<open>if err == nil && cnpd.reconcileInProgress { cnpd.reconcileAfter.sfcIDs[key] = *sfcID }\<close>\<close>
  "recordSfcIDs key sfcID s =
     (if reconcileInProgress s
      then s\<lparr>reconcileAfter := (reconcileAfter s)
             \<lparr>rc_sfcIDs := (rc_sfcIDs (reconcileAfter s))(key \<mapsto> sfcID)\<rparr>\<rparr>
      else s)"

definition createMemIfPair_ipv4 :: "'i ipamApi \<Rightarrow> SfcEntity \<Rightarrow> SfcElement \<Rightarrow> SFCIDs option \<Rightarrow> bool
    \<Rightarrow> (string \<times> uint32, 'i) engineOp" where
  \<comment> \<open>the address block of \<^verbatim>\<open>createMemIfPair\<close>; returns \<^verbatim>\<open>ipv4Address\<close> and \<^verbatim>\<open>ipID\<close>\<close>
  "createMemIfPair_ipv4 ipam sfc vnfChainElement sfcID generateAddresses s =
     (if el_Ipv4Addr vnfChainElement = [] then
        (if generateAddresses then
           (if sfc_SfcIpv4Prefix sfc \<noteq> [] then
              (if (case sfcID of None \<Rightarrow> True | Some i \<Rightarrow> ids_IpId i = 0) then
                 (case AllocateFromSubnet ipam (sfc_SfcIpv4Prefix sfc) (ipamState s) of
                    (Inl msg, i1) \<Rightarrow> (Inl (IpamError msg), s\<lparr>ipamState := i1\<rparr>)
                  | (Inr (ipv4Address, ipID), i1) \<Rightarrow> (Inr (ipv4Address, ipID), s\<lparr>ipamState := i1\<rparr>))
               else
                 (case SetIpIDInSubnet ipam (sfc_SfcIpv4Prefix sfc)
                         (case sfcID of Some i \<Rightarrow> ids_IpId i | None \<Rightarrow> 0) (ipamState s) of
                    (Inl msg, i1) \<Rightarrow> (Inl (IpamError msg), s\<lparr>ipamState := i1\<rparr>)
                  | (Inr ipv4Address, i1) \<Rightarrow>
                      (Inr (ipv4Address, (case sfcID of Some i \<Rightarrow> ids_IpId i | None \<Rightarrow> 0)),
                       s\<lparr>ipamState := i1\<rparr>)))
            else (Inr ([], 0), s))
         else (Inr ([], 0), s))
      else
        (let strs = splitSlash (el_Ipv4Addr vnfChainElement);
             ipv4Address = (if length strs = 2 then el_Ipv4Addr vnfChainElement
                            else el_Ipv4Addr vnfChainElement @ ''/24'')
         in (Inr (ipv4Address, 0),
             if sfc_SfcIpv4Prefix sfc \<noteq> []
             then s\<lparr>ipamState := SetIpAddrIfInsideSubnet ipam (sfc_SfcIpv4Prefix sfc)
                                     (stripSlashAndSubnetIpv4Address (el_Ipv4Addr vnfChainElement))
                                     (ipamState s)\<rparr>
             else s)))"

definition allocMacAddress :: "SFCIDs option \<Rightarrow> 'i sfcCtlrL2CNPDriver
    \<Rightarrow> string \<times> uint32 \<times> 'i sfcCtlrL2CNPDriver" where
  \<comment> \<open>\<^verbatim>\<open>if sfcID == nil || sfcID.MacAddrId == 0 { cnpd.seq.MacInstanceID++ ... } else { ... }\<close>\<close>
  "allocMacAddress sfcID s =
     (case sfcID of
        None \<Rightarrow> (let (n, t) = nextMacInstanceID s in (formatMacAddress n, n, t))
      | Some i \<Rightarrow>
          (if ids_MacAddrId i = 0
           then (let (n, t) = nextMacInstanceID s in (formatMacAddress n, n, t))
           else (formatMacAddress (ids_MacAddrId i), ids_MacAddrId i, s)))"

definition createMemIfPair :: "'i ipamApi \<Rightarrow> SfcEntity \<Rightarrow> string \<Rightarrow> SfcElement \<Rightarrow> bool
    \<Rightarrow> (string, 'i) engineOp" where
  "createMemIfPair ipam sfc hostName vnfChainElement generateAddresses s =
     (let sfcID = DatastoreSFCIDsRetrieve (sfc_Name sfc) (el_Container vnfChainElement)
                    (el_PortLabel vnfChainElement) s;
          (memifID, s1) =
            (case sfcID of
               None \<Rightarrow> nextMemIfID s
             | Some i \<Rightarrow> (if ids_MemifId i = 0 then nextMemIfID s else (ids_MemifId i, s)))
      in case createMemIfPair_ipv4 ipam sfc vnfChainElement sfcID generateAddresses s1 of
           (Inl err, s2) \<Rightarrow> (Inl err, s2)
         | (Inr (ipv4Address, ipID), s2) \<Rightarrow>
            (let (macAddress, macAddrID, s3) =
                   (if el_MacAddr vnfChainElement = [] then
                      (if generateAddresses then allocMacAddress sfcID s2 else ([], 0, s2))
                    else (el_MacAddr vnfChainElement, 0, s2));
                 mtu = getMtu (el_Mtu vnfChainElement) s3;
                 rxMode = el_RxMode vnfChainElement
             in case memIfCreate (el_Container vnfChainElement) (el_PortLabel vnfChainElement)
                       memifID False (el_EtcdVppSwitchKey vnfChainElement) ipv4Address macAddress
                       (el_Ipv6Addr vnfChainElement) mtu rxMode s3 of
                  (Inl err, s4) \<Rightarrow> (Inl err, s4)
                | (Inr _, s4) \<Rightarrow>
                   (let memIfName = ''IF_MEMIF_VSWITCH_'' @ el_Container vnfChainElement @ ''_''
                                      @ el_PortLabel vnfChainElement
                    in case memIfCreate (el_EtcdVppSwitchKey vnfChainElement) memIfName memifID True
                              (el_EtcdVppSwitchKey vnfChainElement) [] [] [] mtu rxMode s4 of
                         (Inl _, s5) \<Rightarrow> (Inl NilPointerPanic, s5)
                       | (Inr _, s5) \<Rightarrow>
                          (case DatastoreSFCIDsCreate (sfc_Name sfc) (el_Container vnfChainElement)
                                  (el_PortLabel vnfChainElement) ipID macAddrID memifID 0 s5 of
                             (Inl err, s6) \<Rightarrow>
                               (Inl err, setSfcInterfaceIPAndMac (el_Container vnfChainElement)
                                           (el_PortLabel vnfChainElement) ipv4Address macAddress s6)
                           | (Inr (key, newID), s6) \<Rightarrow>
                               (Inr memIfName,
                                setSfcInterfaceIPAndMac (el_Container vnfChainElement)
                                  (el_PortLabel vnfChainElement) ipv4Address macAddress
                                  (recordSfcIDs key newID s6))))))"

definition createMemIfPairAndAddToBridge :: "'i ipamApi \<Rightarrow> SfcEntity \<Rightarrow> string \<Rightarrow> nat option
    \<Rightarrow> SfcElement \<Rightarrow> bool \<Rightarrow> (string, 'i) engineOp" where
  "createMemIfPairAndAddToBridge ipam sfc hostName bd vnfChainElement generateAddresses s =
     (case createMemIfPair ipam sfc hostName vnfChainElement generateAddresses s of
        (Inl err, s1) \<Rightarrow> (Inl err, s1)
      | (Inr memIfName, s1) \<Rightarrow>
         (case bridgedDomainAssociateWithIfs (el_EtcdVppSwitchKey vnfChainElement) bd
                 [BDInterface memIfName] s1 of
            (Inl err, s2) \<Rightarrow> (Inl err, s2)
          | (Inr _, s2) \<Rightarrow> (Inr memIfName, s2)))"

definition createAFPacketVEthPair_ipv4 :: "'i ipamApi \<Rightarrow> SfcEntity \<Rightarrow> SfcElement \<Rightarrow> SFCIDs option
    \<Rightarrow> (string \<times> uint32, 'i) engineOp" where
  \<comment> \<open>the address block of \<^verbatim>\<open>createAFPacketVEthPair\<close>\<close>
  "createAFPacketVEthPair_ipv4 ipam sfc vnfChainElement sfcID s =
     (if el_Ipv4Addr vnfChainElement = [] then
        (if sfc_SfcIpv4Prefix sfc \<noteq> [] then
           (if (case sfcID of None \<Rightarrow> True | Some i \<Rightarrow> ids_IpId i = 0) then
              (case AllocateFromSubnet ipam (sfc_SfcIpv4Prefix sfc) (ipamState s) of
                 (Inl msg, i1) \<Rightarrow> (Inl (IpamError msg), s\<lparr>ipamState := i1\<rparr>)
               | (Inr (ipv4Address, ipID), i1) \<Rightarrow> (Inr (ipv4Address, ipID), s\<lparr>ipamState := i1\<rparr>))
            else
              (case SetIpIDInSubnet ipam (sfc_SfcIpv4Prefix sfc)
                      (case sfcID of Some i \<Rightarrow> ids_IpId i | None \<Rightarrow> 0) (ipamState s) of
                 (Inl msg, i1) \<Rightarrow> (Inl (IpamError msg), s\<lparr>ipamState := i1\<rparr>)
               | (Inr ipv4Address, i1) \<Rightarrow>
                   (Inr (ipv4Address, (case sfcID of Some i \<Rightarrow> ids_IpId i | None \<Rightarrow> 0)),
                    s\<lparr>ipamState := i1\<rparr>)))
         else (Inr ([], 0), s))
      else
        (let strs = splitSlash (el_Ipv4Addr vnfChainElement);
             ipv4Address = (if length strs = 2 then el_Ipv4Addr vnfChainElement
                            else el_Ipv4Addr vnfChainElement @ ''/24'')
         in (Inr (ipv4Address, 0),
             if sfc_SfcIpv4Prefix sfc \<noteq> []
             then s\<lparr>ipamState := SetIpAddrIfInsideSubnet ipam (sfc_SfcIpv4Prefix sfc)
                                     (stripSlashAndSubnetIpv4Address (el_Ipv4Addr vnfChainElement))
                                     (ipamState s)\<rparr>
             else s)))"

definition createAFPacketVEthPair_ifs :: "SfcElement \<Rightarrow> uint32 \<Rightarrow> string \<Rightarrow> string
    \<Rightarrow> (string, 'i) engineOp" where
  \<comment> \<open>the veth pair and the af-packet interfaces of \<^verbatim>\<open>createAFPacketVEthPair\<close>; returns
      \<^verbatim>\<open>afPktIf2.Name\<close>\<close>
  "createAFPacketVEthPair_ifs vnfChainElement vethID ipv4Address macAddress s =
     (let ipv6Address = el_Ipv6Addr vnfChainElement;
          mtu = getMtu (el_Mtu vnfChainElement) s;
          rxMode = el_RxMode vnfChainElement;
          veth1Name = ''IF_VETH_VNF_'' @ el_Container vnfChainElement @ ''_''
                        @ el_PortLabel vnfChainElement;
          veth2Name = ''IF_VETH_VSWITCH_'' @ el_Container vnfChainElement @ ''_''
                        @ el_PortLabel vnfChainElement;
          host1Name = el_PortLabel vnfChainElement;
          vethIDStr = formatUint36 (unat vethID);
          baseHostName = constructBaseHostName (el_Container vnfChainElement)
                           (el_PortLabel vnfChainElement) vethIDStr;
          host2Name = baseHostName @ ''_'' @ vethIDStr;
          ipv4AddrForVEth = (if el_Type vnfChainElement = VPP_CONTAINER_AFP then [] else ipv4Address);
          ipv6AddrForVEth = (if el_Type vnfChainElement = VPP_CONTAINER_AFP then [] else ipv6Address)
      in case vEthIfCreate (el_EtcdVppSwitchKey vnfChainElement) veth1Name host1Name veth2Name
                (el_Container vnfChainElement) macAddress ipv4AddrForVEth ipv6AddrForVEth mtu s of
           (Inl err, s1) \<Rightarrow> (Inl err, s1)
         | (Inr _, s1) \<Rightarrow>
            (case vEthIfCreate (el_EtcdVppSwitchKey vnfChainElement) veth2Name host2Name veth1Name
                    (el_EtcdVppSwitchKey vnfChainElement) [] [] [] mtu s1 of
               (Inl err, s2) \<Rightarrow> (Inl err, s2)
             | (Inr _, s2) \<Rightarrow>
                (case (if el_Type vnfChainElement = VPP_CONTAINER_AFP
                       then (case afPacketCreate (el_Container vnfChainElement)
                                    (el_PortLabel vnfChainElement) host1Name ipv4Address macAddress
                                    ipv6Address mtu rxMode s2 of
                               (Inl _, s3) \<Rightarrow> (Inl NilPointerPanic, s3)
                             | (Inr _, s3) \<Rightarrow> (Inr (), s3))
                       else (Inr (), s2)) of
                   (Inl err, s3) \<Rightarrow> (Inl err, s3)
                 | (Inr _, s3) \<Rightarrow>
                    (let afPktName = ''IF_AFPIF_VSWITCH_'' @ el_Container vnfChainElement @ ''_''
                                       @ el_PortLabel vnfChainElement
                     in case afPacketCreate (el_EtcdVppSwitchKey vnfChainElement) afPktName host2Name
                               [] [] [] mtu rxMode s3 of
                          (Inl _, s4) \<Rightarrow> (Inl NilPointerPanic, s4)
                        | (Inr afPktIf2, s4) \<Rightarrow> (Inr (if_Name afPktIf2), s4)))))"

definition createAFPacketVEthPair :: "'i ipamApi \<Rightarrow> SfcEntity \<Rightarrow> SfcElement \<Rightarrow> (string, 'i) engineOp" where
  "createAFPacketVEthPair ipam sfc vnfChainElement s =
     (let sfcID = DatastoreSFCIDsRetrieve (sfc_Name sfc) (el_Container vnfChainElement)
                    (el_PortLabel vnfChainElement) s;
          (vethID, s1) =
            (case sfcID of
               None \<Rightarrow> nextVethID s
             | Some i \<Rightarrow> (if ids_VethId i = 0 then nextVethID s else (ids_VethId i, s)))
      in case createAFPacketVEthPair_ipv4 ipam sfc vnfChainElement sfcID s1 of
           (Inl err, s2) \<Rightarrow> (Inl err, s2)
         | (Inr (ipv4Address, ipID), s2) \<Rightarrow>
            (let (macAddress, macAddrID, s3) =
                   (if el_MacAddr vnfChainElement = [] then allocMacAddress sfcID s2
                    else (el_MacAddr vnfChainElement, 0, s2))
             in case createAFPacketVEthPair_ifs vnfChainElement vethID ipv4Address macAddress s3 of
                  (Inl err, s4) \<Rightarrow> (Inl err, s4)
                | (Inr afPktIf2Name, s4) \<Rightarrow>
                   (let s5 = (case DatastoreSFCIDsCreate (sfc_Name sfc) (el_Container vnfChainElement)
                                     (el_PortLabel vnfChainElement) ipID macAddrID 0 vethID s4 of
                                (Inl _, t) \<Rightarrow> t
                              | (Inr (key, newID), t) \<Rightarrow> recordSfcIDs key newID t)
                    in (Inr afPktIf2Name,
                        setSfcInterfaceIPAndMac (el_Container vnfChainElement)
                          (el_PortLabel vnfChainElement) ipv4Address macAddress s5))))"

definition createAFPacketVEthPairAndAddToBridge :: "'i ipamApi \<Rightarrow> SfcEntity \<Rightarrow> nat option
    \<Rightarrow> SfcElement \<Rightarrow> (string, 'i) engineOp" where
  "createAFPacketVEthPairAndAddToBridge ipam sfc bd vnfChainElement s =
     (case createAFPacketVEthPair ipam sfc vnfChainElement s of
        (Inl err, s1) \<Rightarrow> (Inl err, s1)
      | (Inr afPktIfName, s1) \<Rightarrow>
         (case bridgedDomainAssociateWithIfs (el_EtcdVppSwitchKey vnfChainElement) bd
                 [BDInterface afPktIfName] s1 of
            (Inl err, s2) \<Rightarrow> (Inl err, s2)
          | (Inr _, s2) \<Rightarrow> (Inr afPktIfName, s2)))"

definition createInterContainerMemIfPair :: "string \<Rightarrow> string \<Rightarrow> string \<Rightarrow> string \<Rightarrow> string \<Rightarrow> uint32
    \<Rightarrow> RxModeType \<Rightarrow> uint32 \<Rightarrow> (unit, 'i) engineOp" where
  "createInterContainerMemIfPair sfcName vnf1Container vnf1Port vnf2Container vnf2Port mtu rxMode memIFID s =
     (case memIfCreate vnf1Container vnf1Port memIFID True vnf1Container [] [] [] mtu rxMode s of
        (Inl err, s1) \<Rightarrow> (Inl err, s1)
      | (Inr _, s1) \<Rightarrow>
         (case memIfCreate vnf2Container vnf2Port memIFID False vnf1Container [] [] [] mtu rxMode s1 of
            (Inl err, s2) \<Rightarrow> (Inl err, s2)
          | (Inr _, s2) \<Rightarrow> (Inr (), s2)))"

text \<open>
  One round of the loop of \<^verbatim>\<open>createOneOrMoreInterContainerMemIfPairs\<close>, for the counter value
  \<open>repeatCount\<close>. \<^verbatim>\<open>int(repeatCount)\<close> is taken on a 64-bit platform, where it is never
  negative.
\<close>

definition interContainerRound :: "string \<Rightarrow> SfcElement \<Rightarrow> SfcElement \<Rightarrow> uint32 \<Rightarrow> uint32
    \<Rightarrow> (unit, 'i) engineOp" where
  "interContainerRound sfcName vnfElement1 vnfElement2 vnfRepeatCount repeatCount s =
     (let mtu = getMtu (el_Mtu vnfElement1) s;
          rxMode = el_RxMode vnfElement1;
          container1Name = (if repeatCount = 0 then el_Container vnfElement1
                            else ''vnfx-'' @ itoa (unat (repeatCount - 1)));
          vnf1Port = el_PortLabel vnfElement1;
          container2Name = (if repeatCount = vnfRepeatCount then el_Container vnfElement2
                            else ''vnfx-'' @ itoa (unat repeatCount));
          vnf2Port = el_PortLabel vnfElement2;
          (memifID, s1) =
            (case DatastoreSFCIDsRetrieve sfcName container1Name vnf1Port s of
               None \<Rightarrow> nextMemIfID s
             | Some i \<Rightarrow> (if ids_MemifId i = 0 then nextMemIfID s else (ids_MemifId i, s)))
      in case createInterContainerMemIfPair sfcName container1Name vnf1Port container2Name vnf2Port
                mtu rxMode memifID s1 of
           (Inl err, s2) \<Rightarrow> (Inl err, s2)
         | (Inr _, s2) \<Rightarrow>
            (case DatastoreSFCIDsCreate sfcName container1Name vnf1Port 0 0 memifID 0 s2 of
               (Inl _, s3) \<Rightarrow> (Inr (), s3)
             | (Inr (key, newID), s3) \<Rightarrow> (Inr (), recordSfcIDs key newID s3)))"

text \<open>
  \<^verbatim>\<open>for repeatCount := uint32(0); repeatCount <= vnfRepeatCount; repeatCount++\<close>. With
  \<^verbatim>\<open>vnfRepeatCount\<close> at its largest value the condition never fails and the counter wraps
  around, so the loop ends only on an error: the result is an option, \<open>None\<close> for a
  run that never returns.
\<close>

partial_function (option) interContainerLoop :: "string \<Rightarrow> SfcElement \<Rightarrow> SfcElement \<Rightarrow> uint32
    \<Rightarrow> uint32 \<Rightarrow> 'i sfcCtlrL2CNPDriver \<Rightarrow> ((error + unit) \<times> 'i sfcCtlrL2CNPDriver) option" where
  "interContainerLoop sfcName vnfElement1 vnfElement2 vnfRepeatCount repeatCount s =
     (if repeatCount \<le> vnfRepeatCount then
        (case interContainerRound sfcName vnfElement1 vnfElement2 vnfRepeatCount repeatCount s of
           (Inl err, s1) \<Rightarrow> Some (Inl err, s1)
         | (Inr _, s1) \<Rightarrow>
             interContainerLoop sfcName vnfElement1 vnfElement2 vnfRepeatCount (repeatCount + 1) s1)
      else Some (Inr (), s))"

definition createOneOrMoreInterContainerMemIfPairs :: "string \<Rightarrow> SfcElement \<Rightarrow> SfcElement \<Rightarrow> uint32
    \<Rightarrow> 'i sfcCtlrL2CNPDriver \<Rightarrow> ((error + unit) \<times> 'i sfcCtlrL2CNPDriver) option" where
  "createOneOrMoreInterContainerMemIfPairs sfcName vnfElement1 vnfElement2 vnfRepeatCount s =
     interContainerLoop sfcName vnfElement1 vnfElement2 vnfRepeatCount 0 s"


subsection \<open>Wiring a chain\<close>

definition isAfpElement :: "SfcElementType \<Rightarrow> bool" where
  "isAfpElement t = (t = VPP_CONTAINER_AFP \<or> t = NON_VPP_CONTAINER_AFP)"

definition isMemifElement :: "SfcElementType \<Rightarrow> bool" where
  "isMemifElement t = (t = VPP_CONTAINER_MEMIF \<or> t = NON_VPP_CONTAINER_MEMIF)"

text \<open>
  \<^verbatim>\<open>for _, macAddr := range e.L2FibMacs { createL2FibEntry(key, bd.Name, macAddr, ifName) }\<close>:
  \<^verbatim>\<open>bd.Name\<close> is read through the pointer in every round.
\<close>

definition createL2FibEntries :: "string \<Rightarrow> nat option \<Rightarrow> string list \<Rightarrow> string \<Rightarrow> (unit, 'i) engineOp" where
  "createL2FibEntries etcdPrefix bd macs ifName =
     forEach (\<lambda>macAddr s.
        (case bd of
           None \<Rightarrow> (Inl NilPointerPanic, s)
         | Some ptr \<Rightarrow>
            (if length (bdHeap s) \<le> ptr then (Inl NilPointerPanic, s)
             else (case createL2FibEntry etcdPrefix (bd_Name (bdHeap s ! ptr)) macAddr ifName s of
                     (Inl err, s1) \<Rightarrow> (Inl err, s1)
                   | (Inr _, s1) \<Rightarrow> (Inr (), s1))))) macs"

definition createVRFEntries :: "string \<Rightarrow> SfcElement \<Rightarrow> string \<Rightarrow> string \<Rightarrow> (unit, 'i) engineOp" where
  "createVRFEntries etcdVppSwitchKey sfcEntityElement ifaceName defaultDescription s =
     (case forEach (\<lambda>l3VRFRoute t.
              (let weight = (if vr_Weight l3VRFRoute = 0
                             then sp_DefaultStaticRouteWeight (SysParms (l2CNPEntityCache t))
                             else vr_Weight l3VRFRoute);
                   pref = (if vr_Preference l3VRFRoute = 0
                           then sp_DefaultStaticRoutePreference (SysParms (l2CNPEntityCache t))
                           else vr_Preference l3VRFRoute);
                   vrfDescription = (if vr_Description l3VRFRoute \<noteq> [] then vr_Description l3VRFRoute
                                     else defaultDescription)
               in case createStaticRoute (vr_VrfId l3VRFRoute) etcdVppSwitchKey vrfDescription
                         (vr_DstIpAddr l3VRFRoute) (vr_NextHopAddr l3VRFRoute) ifaceName weight pref t of
                    (Inl err, t1) \<Rightarrow> (Inl err, t1)
                  | (Inr _, t1) \<Rightarrow> (Inr (), t1)))
            (el_L3VrfRoutes sfcEntityElement) s of
        (Inl err, s1) \<Rightarrow> (Inl err, s1)
      | (Inr _, s1) \<Rightarrow>
          forEach (\<lambda>l3VRFArpEntry t.
              (case createStaticArpEntry etcdVppSwitchKey (l3a_IpAddress l3VRFArpEntry)
                      (l3a_PhysAddress l3VRFArpEntry) ifaceName t of
                 (Inl err, t1) \<Rightarrow> (Inl err, t1)
               | (Inr _, t1) \<Rightarrow> (Inr (), t1)))
            (el_L3ArpEntries sfcEntityElement) s1)"

subsubsection \<open>North-south over VXLAN\<close>

text \<open>
  The first loop of \<^verbatim>\<open>wireSfcNorthSouthVXLANElements\<close>: it counts the external-entity and
  the host-entity elements and returns at the first one that is one too many or is not
  in its entity cache. The accumulator is \<^verbatim>\<open>(eeCount, eeName, eeSfcElement, dhCount, dhName,
  dhSfcElement)\<close>.
\<close>

type_synonym nsScan = "nat \<times> string \<times> SfcElement option \<times> nat \<times> string \<times> SfcElement option"

fun nsVxlanScan :: "l2CNPEntityCacheType \<Rightarrow> string \<Rightarrow> SfcElement list \<Rightarrow> nsScan \<Rightarrow> error + nsScan" where
  "nsVxlanScan cache sfcName [] acc = Inr acc"
| "nsVxlanScan cache sfcName (e # es) (eeCount, eeName, eeSfcElement, dhCount, dhName, dhSfcElement) =
     (if el_Type e = EXTERNAL_ENTITY then
        (if eeCount + 1 > 1 then Inl (OnlyOneEEAllowed sfcName)
         else if EEs cache (el_Container e) = None then Inl (EENotFound (el_Container e) sfcName)
         else nsVxlanScan cache sfcName es
                (eeCount + 1, el_Container e, Some e, dhCount, dhName, dhSfcElement))
      else if el_Type e = HOST_ENTITY then
        (if dhCount + 1 > 1 then Inl (OnlyOneDestHostAllowed sfcName)
         else if HEs cache (el_Container e) = None then Inl (DestHostNotFound (el_Container e) sfcName)
         else nsVxlanScan cache sfcName es
                (eeCount, eeName, eeSfcElement, dhCount + 1, el_Container e, Some e))
      else nsVxlanScan cache sfcName es
             (eeCount, eeName, eeSfcElement, dhCount, dhName, dhSfcElement))"

definition nsVxlanBridge :: "SfcEntity \<Rightarrow> nsScan \<Rightarrow> SfcElement \<Rightarrow> (nat option, 'i) engineOp" where
  \<comment> \<open>\<^verbatim>\<open>if eeCount != 0 { createVxLANAndBridgeToExtEntity(..) } else { ..ToDestHost(..) }\<close>\<close>
  "nsVxlanBridge sfc scan sfcEntityElement s =
     (case scan of (eeCount, eeName, eeSfcElement, dhCount, dhName, dhSfcElement) \<Rightarrow>
        (if eeCount \<noteq> 0 then
           (case eeSfcElement of
              None \<Rightarrow> (Inl NilPointerPanic, s)
            | Some eeEl \<Rightarrow>
                createVxLANAndBridgeToExtEntity sfc (el_EtcdVppSwitchKey sfcEntityElement) eeName
                  (el_VlanId eeEl) s)
         else
           (case dhSfcElement of
              None \<Rightarrow> (Inl NilPointerPanic, s)
            | Some dhEl \<Rightarrow>
                createVxLANAndBridgeToDestHost sfc (el_EtcdVppSwitchKey sfcEntityElement) dhName
                  (el_VlanId dhEl) s)))"

definition nsVxlanWireElement :: "'i ipamApi \<Rightarrow> SfcEntity \<Rightarrow> nsScan \<Rightarrow> SfcElement \<Rightarrow> (unit, 'i) engineOp" where
  \<comment> \<open>the body of the second loop of \<^verbatim>\<open>wireSfcNorthSouthVXLANElements\<close>\<close>
  "nsVxlanWireElement ipam sfc scan sfcEntityElement s =
     (if isAfpElement (el_Type sfcEntityElement) then
        (case nsVxlanBridge sfc scan sfcEntityElement s of
           (Inl err, s1) \<Rightarrow> (Inl err, s1)
         | (Inr bd, s1) \<Rightarrow>
            (case createAFPacketVEthPairAndAddToBridge ipam sfc bd sfcEntityElement s1 of
               (Inl err, s2) \<Rightarrow> (Inl err, s2)
             | (Inr _, s2) \<Rightarrow> (Inr (), s2)))
      else if isMemifElement (el_Type sfcEntityElement) then
        (case nsVxlanBridge sfc scan sfcEntityElement s of
           (Inl err, s1) \<Rightarrow> (Inl err, s1)
         | (Inr bd, s1) \<Rightarrow>
            (case createMemIfPairAndAddToBridge ipam sfc (el_EtcdVppSwitchKey sfcEntityElement) bd
                    sfcEntityElement False s1 of
               (Inl err, s2) \<Rightarrow> (Inl err, s2)
             | (Inr _, s2) \<Rightarrow> (Inr (), s2)))
      else (Inr (), s))"

definition wireSfcNorthSouthVXLANElements :: "'i ipamApi \<Rightarrow> SfcEntity \<Rightarrow> (unit, 'i) engineOp" where
  "wireSfcNorthSouthVXLANElements ipam sfc s =
     (case nsVxlanScan (l2CNPEntityCache s) (sfc_Name sfc) (sfc_Elements sfc)
             (0, [], None, 0, [], None) of
        Inl err \<Rightarrow> (Inl err, s)
      | Inr (eeCount, eeName, eeSfcElement, dhCount, dhName, dhSfcElement) \<Rightarrow>
          (if eeCount = 0 \<and> dhCount = 0 then (Inl (NoEEOrDHSpecified (sfc_Name sfc)), s)
           else forEach (nsVxlanWireElement ipam sfc
                           (eeCount, eeName, eeSfcElement, dhCount, dhName, dhSfcElement))
                  (sfc_Elements sfc) s))"


subsubsection \<open>North-south over a NIC\<close>

fun nsNicScan :: "string \<Rightarrow> SfcElement list \<Rightarrow> nat \<times> SfcElement option
    \<Rightarrow> error + nat \<times> SfcElement option" where
  "nsNicScan sfcName [] acc = Inr acc"
| "nsNicScan sfcName (e # es) (heCount, he) =
     (if el_Type e = HOST_ENTITY then
        (if heCount + 1 > 1 then Inl (OnlyOneHEAllowed sfcName)
         else nsNicScan sfcName es (heCount + 1, Some e))
      else nsNicScan sfcName es (heCount, he))"

definition nsNicHostSetup :: "SfcEntity \<Rightarrow> SfcElement \<Rightarrow> (nat option, 'i) engineOp" where
  \<comment> \<open>the NIC, then the bridge with its L2-FIB entries (\<^verbatim>\<open>SFC_NS_NIC_BD\<close>) or the VRF entries
      (\<^verbatim>\<open>SFC_NS_NIC_VRF\<close>) of the host element; returns the pointer \<^verbatim>\<open>bd\<close>\<close>
  "nsNicHostSetup sfc he s =
     (let mtu = getMtu (el_Mtu he) s
      in case createEthernet (el_Container he) (el_PortLabel he) [] (el_MacAddr he)
                (el_Ipv6Addr he) mtu (el_RxMode he) s of
           (Inl err, s1) \<Rightarrow> (Inl err, s1)
         | (Inr _, s1) \<Rightarrow>
            (case (if sfc_Type sfc = SFC_NS_NIC_BD then
                     (let bdParms = (if sfc_BdParms sfc = None
                                     then sp_StaticBridgeParms (SysParms (l2CNPEntityCache s1))
                                     else sfc_BdParms sfc);
                          bdName = ''BD_INTERNAL_NS_'' @ replaceSlashesWithUScores (el_PortLabel he)
                      in case bridgedDomainCreateWithIfs (el_Container he) bdName
                                [BDInterface (el_PortLabel he)] bdParms s1 of
                           (Inl _, s2) \<Rightarrow> (Inl NilPointerPanic, s2)
                         | (Inr bd, s2) \<Rightarrow>
                            (case createL2FibEntries (el_Container he) (Some bd) (el_L2FibMacs he)
                                    (el_PortLabel he) s2 of
                               (Inl err, s3) \<Rightarrow> (Inl err, s3)
                             | (Inr _, s3) \<Rightarrow> (Inr (Some bd), s3)))
                   else (Inr None, s1)) of
               (Inl err, s3) \<Rightarrow> (Inl err, s3)
             | (Inr bd, s3) \<Rightarrow>
                (if sfc_Type sfc = SFC_NS_NIC_VRF then
                   (case createVRFEntries (el_Container he) he (el_PortLabel he)
                           (''VRF_'' @ sfc_Name sfc @ ''_'' @ el_Container he @ ''_'' @ el_PortLabel he) s3 of
                      (Inl err, s4) \<Rightarrow> (Inl err, s4)
                    | (Inr _, s4) \<Rightarrow> (Inr bd, s4))
                 else (Inr bd, s3))))"

definition nsNicWireElement :: "'i ipamApi \<Rightarrow> SfcEntity \<Rightarrow> SfcElement \<Rightarrow> nat option \<Rightarrow> SfcElement
    \<Rightarrow> (unit, 'i) engineOp" where
  \<comment> \<open>the body of the second loop of \<^verbatim>\<open>wireSfcNorthSouthNICElements\<close>\<close>
  "nsNicWireElement ipam sfc he bd sfcEntityElement s =
     (if isAfpElement (el_Type sfcEntityElement) \<or> isMemifElement (el_Type sfcEntityElement) then
        (if sfc_Type sfc = SFC_NS_NIC_BD then
           (case (if isAfpElement (el_Type sfcEntityElement)
                  then createAFPacketVEthPairAndAddToBridge ipam sfc bd sfcEntityElement s
                  else createMemIfPairAndAddToBridge ipam sfc (el_EtcdVppSwitchKey sfcEntityElement)
                         bd sfcEntityElement False s) of
              (Inl err, s1) \<Rightarrow> (Inl err, s1)
            | (Inr ifName, s1) \<Rightarrow>
                createL2FibEntries (el_EtcdVppSwitchKey sfcEntityElement) bd
                  (el_L2FibMacs sfcEntityElement) ifName s1)
         else if sfc_Type sfc = SFC_NS_NIC_VRF then
           (case createAFPacketVEthPair ipam sfc sfcEntityElement s of
              (Inl err, s1) \<Rightarrow> (Inl err, s1)
            | (Inr afIfName, s1) \<Rightarrow>
                createVRFEntries (el_EtcdVppSwitchKey sfcEntityElement) sfcEntityElement afIfName
                  (''VRF_'' @ sfc_Name sfc @ ''_'' @ el_Container sfcEntityElement @ ''_''
                     @ el_PortLabel sfcEntityElement) s1)
         else
           (case (if isAfpElement (el_Type sfcEntityElement)
                  then createAFPacketVEthPair ipam sfc sfcEntityElement s
                  else createMemIfPair ipam sfc (el_EtcdVppSwitchKey sfcEntityElement)
                         sfcEntityElement False s) of
              (Inl err, s1) \<Rightarrow> (Inl err, s1)
            | (Inr ifName, s1) \<Rightarrow>
                createXConnectPair (el_EtcdVppSwitchKey sfcEntityElement) (el_PortLabel he) ifName s1))
      else (Inr (), s))"

definition wireSfcNorthSouthNICElements :: "'i ipamApi \<Rightarrow> SfcEntity \<Rightarrow> (unit, 'i) engineOp" where
  "wireSfcNorthSouthNICElements ipam sfc s =
     (case nsNicScan (sfc_Name sfc) (sfc_Elements sfc) (0, None) of
        Inl err \<Rightarrow> (Inl err, s)
      | Inr (heCount, heEl) \<Rightarrow>
         (if heCount = 0 then (Inl (NoHESpecified (sfc_Name sfc)), s)
          else
            (case heEl of
               None \<Rightarrow> (Inl NilPointerPanic, s)
             | Some he \<Rightarrow>
                (case nsNicHostSetup sfc he s of
                   (Inl err, s1) \<Rightarrow> (Inl err, s1)
                 | (Inr bd, s1) \<Rightarrow>
                     forEach (nsNicWireElement ipam sfc he bd) (sfc_Elements sfc) s1))))"

subsubsection \<open>East-west\<close>

definition ewSelectBridge :: "SfcEntity \<Rightarrow> SfcElement \<Rightarrow> (nat option, 'i) engineOp" where
  \<comment> \<open>which bridge an element of an \<^verbatim>\<open>SFC_EW_BD\<close> or \<^verbatim>\<open>SFC_EW_BD_L2FIB\<close> chain joins\<close>
  "ewSelectBridge sfc sfcEntityElement s =
     (case HE (l2CNPStateCache s) (el_EtcdVppSwitchKey sfcEntityElement) of
        None \<Rightarrow> (Inl (CannotFindHostBridge (el_EtcdVppSwitchKey sfcEntityElement) (sfc_Name sfc)), s)
      | Some heState \<Rightarrow>
         (if sfc_Type sfc = SFC_EW_BD then (Inr (ewBD heState), s)
          else if sfc_BdParms sfc = None then (Inr (ewBDL2Fib heState), s)
          else
            (let s1 = (case SFCToHEs (l2CNPStateCache s) (sfc_Name sfc) of
                         None \<Rightarrow> s\<lparr>l2CNPStateCache := (l2CNPStateCache s)
                                  \<lparr>SFCToHEs := (SFCToHEs (l2CNPStateCache s))(sfc_Name sfc \<mapsto> Map.empty)\<rparr>\<rparr>
                       | Some _ \<Rightarrow> s)
             in case (case SFCToHEs (l2CNPStateCache s1) (sfc_Name sfc) of
                        None \<Rightarrow> None
                      | Some sfcToHEMap \<Rightarrow> sfcToHEMap (el_EtcdVppSwitchKey sfcEntityElement)) of
                  Some sfcHeState \<Rightarrow> (Inr (ewBDL2Fib sfcHeState), s1)
                | None \<Rightarrow>
                   (let bdName = ''BD_INTERNAL_EW_'' @ sfc_Name sfc @ ''_''
                                   @ el_EtcdVppSwitchKey sfcEntityElement
                    in case bridgedDomainCreateWithIfs (el_EtcdVppSwitchKey sfcEntityElement) bdName []
                              (sfc_BdParms sfc) s1 of
                         (Inl _, s2) \<Rightarrow> (Inl NilPointerPanic, s2)
                       | (Inr bd, s2) \<Rightarrow>
                           (Inr (Some bd),
                            setSFCToHEState (sfc_Name sfc) (el_EtcdVppSwitchKey sfcEntityElement)
                              \<lparr>ewBD = None, ewBDL2Fib = Some bd\<rparr> s2)))))"

definition ewJoinBridge :: "'i ipamApi \<Rightarrow> SfcEntity \<Rightarrow> SfcElement \<Rightarrow> (unit, 'i) engineOp" where
  \<comment> \<open>an element of a bridge-domain chain: pick the bridge, create the pair and join it,
      then the element's L2-FIB entries\<close>
  "ewJoinBridge ipam sfc sfcEntityElement s =
     (case ewSelectBridge sfc sfcEntityElement s of
        (Inl err, s1) \<Rightarrow> (Inl err, s1)
      | (Inr bd, s1) \<Rightarrow>
         (case (if isAfpElement (el_Type sfcEntityElement)
                then createAFPacketVEthPairAndAddToBridge ipam sfc bd sfcEntityElement s1
                else createMemIfPairAndAddToBridge ipam sfc (el_EtcdVppSwitchKey sfcEntityElement)
                       bd sfcEntityElement True s1) of
            (Inl err, s2) \<Rightarrow> (Inl err, s2)
          | (Inr ifName, s2) \<Rightarrow>
              createL2FibEntries (el_EtcdVppSwitchKey sfcEntityElement) bd
                (el_L2FibMacs sfcEntityElement) ifName s2))"

definition ewCrossConnect :: "'i ipamApi \<Rightarrow> SfcEntity \<Rightarrow> SfcElement \<Rightarrow> string \<Rightarrow> (string, 'i) engineOp" where
  \<comment> \<open>the cross-connect branch: create the pair; with an interface carried over from the
      element before, cross-connect the two and clear the carry, else carry this one.
      Returns \<^verbatim>\<open>prevMemIfName\<close>.\<close>
  "ewCrossConnect ipam sfc sfcEntityElement prevMemIfName s =
     (case (if isAfpElement (el_Type sfcEntityElement)
            then createAFPacketVEthPair ipam sfc sfcEntityElement s
            else createMemIfPair ipam sfc (el_EtcdVppSwitchKey sfcEntityElement)
                   sfcEntityElement False s) of
        (Inl err, s1) \<Rightarrow> (Inl err, s1)
      | (Inr ifName, s1) \<Rightarrow>
         (if prevMemIfName \<noteq> [] then
            (case createXConnectPair (el_EtcdVppSwitchKey sfcEntityElement) ifName prevMemIfName s1 of
               (Inl err, s2) \<Rightarrow> (Inl err, s2)
             | (Inr _, s2) \<Rightarrow> (Inr [], s2))
          else (Inr ifName, s1)))"

definition elementAt :: "SfcEntity \<Rightarrow> nat \<Rightarrow> error + SfcElement" where
  \<comment> \<open>\<^verbatim>\<open>sfc.Elements[i]\<close>, which panics past the end\<close>
  "elementAt sfc i =
     (if i < length (sfc_Elements sfc) then Inr (sfc_Elements sfc ! i) else Inl IndexOutOfRangePanic)"

definition ewWireElement :: "'i ipamApi \<Rightarrow> SfcEntity \<Rightarrow> nat \<Rightarrow> SfcElement \<Rightarrow> string
    \<Rightarrow> 'i sfcCtlrL2CNPDriver \<Rightarrow> ((error + string) \<times> 'i sfcCtlrL2CNPDriver) option" where
  \<comment> \<open>the body of the loop of \<^verbatim>\<open>wireSfcEastWestElements\<close> for the element at index \<open>i\<close>;
      returns \<^verbatim>\<open>prevMemIfName\<close>\<close>
  "ewWireElement ipam sfc i sfcEntityElement prevMemIfName s =
     (if el_Type sfcEntityElement = EXTERNAL_ENTITY then
        Some (Inl (ExternalEntityNotAllowedInEW (sfc_Name sfc)), s)
      else if isAfpElement (el_Type sfcEntityElement) then
        (if sfc_Type sfc = SFC_EW_BD \<or> sfc_Type sfc = SFC_EW_BD_L2FIB then
           (case ewJoinBridge ipam sfc sfcEntityElement s of
              (Inl err, s1) \<Rightarrow> Some (Inl err, s1)
            | (Inr _, s1) \<Rightarrow> Some (Inr prevMemIfName, s1))
         else Some (ewCrossConnect ipam sfc sfcEntityElement prevMemIfName s))
      else if isMemifElement (el_Type sfcEntityElement) then
        (if sfc_Type sfc = SFC_EW_MEMIF then
           (if i mod 2 = 0 then
              (case elementAt sfc i of
                 Inl err \<Rightarrow> Some (Inl err, s)
               | Inr e1 \<Rightarrow>
                  (case elementAt sfc (i + 1) of
                     Inl err \<Rightarrow> Some (Inl err, s)
                   | Inr e2 \<Rightarrow>
                      (case createOneOrMoreInterContainerMemIfPairs (sfc_Name sfc) e1 e2
                              (sfc_VnfRepeatCount sfc) s of
                         None \<Rightarrow> None
                       | Some (Inl err, s1) \<Rightarrow> Some (Inl err, s1)
                       | Some (Inr _, s1) \<Rightarrow> Some (Inr prevMemIfName, s1))))
            else Some (Inr prevMemIfName, s))
         else if sfc_Type sfc = SFC_EW_BD \<or> sfc_Type sfc = SFC_EW_BD_L2FIB then
           (case ewJoinBridge ipam sfc sfcEntityElement s of
              (Inl err, s1) \<Rightarrow> Some (Inl err, s1)
            | (Inr _, s1) \<Rightarrow> Some (Inr prevMemIfName, s1))
         else Some (ewCrossConnect ipam sfc sfcEntityElement prevMemIfName s))
      else Some (Inr prevMemIfName, s))"

fun ewLoop :: "'i ipamApi \<Rightarrow> SfcEntity \<Rightarrow> nat \<Rightarrow> SfcElement list \<Rightarrow> string
    \<Rightarrow> 'i sfcCtlrL2CNPDriver \<Rightarrow> ((error + unit) \<times> 'i sfcCtlrL2CNPDriver) option" where
  "ewLoop ipam sfc i [] prevMemIfName s = Some (Inr (), s)"
| "ewLoop ipam sfc i (e # es) prevMemIfName s =
     (case ewWireElement ipam sfc i e prevMemIfName s of
        None \<Rightarrow> None
      | Some (Inl err, s1) \<Rightarrow> Some (Inl err, s1)
      | Some (Inr prev1, s1) \<Rightarrow> ewLoop ipam sfc (Suc i) es prev1 s1)"

definition wireSfcEastWestElements :: "'i ipamApi \<Rightarrow> SfcEntity
    \<Rightarrow> 'i sfcCtlrL2CNPDriver \<Rightarrow> ((error + unit) \<times> 'i sfcCtlrL2CNPDriver) option" where
  "wireSfcEastWestElements ipam sfc s =
     (if sfc_Type sfc = SFC_EW_MEMIF \<and> length (sfc_Elements sfc) mod 2 \<noteq> 0
      then Some (Inl (EWMemifNeedsPairs (sfc_Name sfc)), s)
      else ewLoop ipam sfc 0 (sfc_Elements sfc) [] s)"

subsubsection \<open>Dispatch\<close>

definition WireSfcEntity :: "'i ipamApi \<Rightarrow> SfcEntity
    \<Rightarrow> 'i sfcCtlrL2CNPDriver \<Rightarrow> ((error + unit) \<times> 'i sfcCtlrL2CNPDriver) option" where
  "WireSfcEntity ipam sfc s =
     (if sfc_Type sfc = SFC_NS_VXLAN then
        Some (wireSfcNorthSouthVXLANElements ipam sfc (setSFC (sfc_Name sfc) sfc s))
      else if sfc_Type sfc = SFC_NS_NIC_BD \<or> sfc_Type sfc = SFC_NS_NIC_VRF
              \<or> sfc_Type sfc = SFC_NS_NIC_L2XCONN then
        Some (wireSfcNorthSouthNICElements ipam sfc (setSFC (sfc_Name sfc) sfc s))
      else if sfc_Type sfc = SFC_EW_MEMIF \<or> sfc_Type sfc = SFC_EW_BD
              \<or> sfc_Type sfc = SFC_EW_BD_L2FIB \<or> sfc_Type sfc = SFC_EW_L2XCONN then
        wireSfcEastWestElements ipam sfc (setSFC (sfc_Name sfc) sfc s)
      else Some (Inl (UnknownEntityType (sfc_Type sfc)), s))"

section \<open>Notions used to state the properties\<close>

text \<open>A byte as two upper-case hexadecimal digits, and byte \<open>k\<close> of an id, counted from
  the least significant one.\<close>

definition hexByte :: "nat \<Rightarrow> string" where
  "hexByte b = [hexDigitUpper (b div 16), hexDigitUpper (b mod 16)]"

definition beByte :: "uint32 \<Rightarrow> nat \<Rightarrow> nat" where
  "beByte x k = unat x div 256 ^ k mod 256"

text \<open>The system parameters with the defaults of the spec (section 6) and a given starting
  VLAN id; a new driver whose store never fails; an IPAM that is never reached.\<close>

definition sysParmsWith :: "uint32 \<Rightarrow> SystemParameters" where
  "sysParmsWith startingVlanId =
     \<lparr>sp_Mtu = 1500, sp_StartingVlanId = startingVlanId, sp_DefaultStaticRouteWeight = 5,
      sp_DefaultStaticRoutePreference = 0,
      sp_DynamicBridgeParms = Some \<lparr>bdp_Flood = True, bdp_UnknownUnicastFlood = True,
         bdp_Forward = True, bdp_Learn = True, bdp_ArpTermination = False, bdp_MacAge = 0\<rparr>,
      sp_StaticBridgeParms = Some \<lparr>bdp_Flood = False, bdp_UnknownUnicastFlood = False,
         bdp_Forward = True, bdp_Learn = False, bdp_ArpTermination = False, bdp_MacAge = 0\<rparr>\<rparr>"

definition newDriver :: "unit sfcCtlrL2CNPDriver" where
  "newDriver = NewSfcCtlrL2CNPDriver [] ()"

definition noIpam :: "unit ipamApi" where
  "noIpam = \<lparr>AllocateFromSubnet = (\<lambda>prefix i. (Inl [], i)),
              SetIpIDInSubnet = (\<lambda>prefix ipID i. (Inl [], i)),
              SetIpAddrIfInsideSubnet = (\<lambda>prefix addr i. i)\<rparr>"

definition hostNamed :: "string \<Rightarrow> HostEntity" where
  "hostNamed n = zeroHostEntity\<lparr>he_Name := n, he_VxlanTunnelIpv4 := ''10.0.20.1/24''\<rparr>"

definition extEntityNamed :: "string \<Rightarrow> ExternalEntity" where
  "extEntityNamed n = zeroExternalEntity\<lparr>ee_Name := n,
     ee_HostInterface := Some \<lparr>hi_IfName = ''GigabitEthernet2'', hi_Ipv4Addr = ''8.42.0.1''\<rparr>,
     ee_HostVxlan := Some \<lparr>hv_IfName = ''nve1'', hv_SourceIpv4 = ''8.42.0.2''\<rparr>\<rparr>"

text \<open>A run of \<^verbatim>\<open>SetSystemParameters\<close> calls, one after the other.\<close>

definition setSystemParametersAll :: "SystemParameters list \<Rightarrow> 'i sfcCtlrL2CNPDriver
    \<Rightarrow> 'i sfcCtlrL2CNPDriver" where
  "setSystemParametersAll sps s = foldl (\<lambda>t sp. snd (SetSystemParameters sp t)) s sps"

text \<open>Nothing of the driver but its caches differs between two states: the store, the
  reconcile buffer and mode, the counters, the bridge domains, the calls to the
  external-entity driver and the IPAM state are the same.\<close>

definition onlyCachesChanged :: "'i sfcCtlrL2CNPDriver \<Rightarrow> 'i sfcCtlrL2CNPDriver \<Rightarrow> bool" where
  "onlyCachesChanged s s' =
     (db s' = db s \<and> reconcileAfter s' = reconcileAfter s
      \<and> reconcileInProgress s' = reconcileInProgress s \<and> seq s' = seq s
      \<and> bdHeap s' = bdHeap s \<and> extEntityCalls s' = extEntityCalls s
      \<and> ipamState s' = ipamState s)"

text \<open>An edge recorded with all three sub-resources nil.\<close>

definition emptyHEToHE :: heToHEStateType where
  "emptyHEToHE = \<lparr>heToHE_vlanIf = None, heToHE_bd = None, heToHE_l3Route = None\<rparr>"

definition emptyHEToEE :: heToEEStateType where
  "emptyHEToEE = \<lparr>heToEE_vlanIf = None, heToEE_bd = None, heToEE_l3Route = None\<rparr>"




text \<open>From \<open>s\<close> to \<open>s'\<close> a resource was captured in the reconcile buffer and the store
  was not touched; from \<open>s\<close> to \<open>s'\<close> a write reached the store and nothing was captured.\<close>

definition capturedOnly :: "'i sfcCtlrL2CNPDriver \<Rightarrow> 'i sfcCtlrL2CNPDriver \<Rightarrow> string \<Rightarrow> resource \<Rightarrow> bool" where
  "capturedOnly s s' etcdPrefix r =
     (db s' = db s
      \<and> rc_resources (reconcileAfter s') = rc_resources (reconcileAfter s) @ [(etcdPrefix, r)])"

definition putToStoreOnly :: "'i sfcCtlrL2CNPDriver \<Rightarrow> 'i sfcCtlrL2CNPDriver \<Rightarrow> storeWrite \<Rightarrow> bool" where
  "putToStoreOnly s s' w =
     (reconcileAfter s' = reconcileAfter s \<and> kv_puts (db s') = kv_puts (db s) @ [w])"

text \<open>A store request made from \<open>s\<close> failed: nothing was written and nothing captured.\<close>

definition storeRequestFailed :: "'i sfcCtlrL2CNPDriver \<Rightarrow> 'i sfcCtlrL2CNPDriver \<Rightarrow> bool" where
  "storeRequestFailed s s' =
     (reconcileAfter s' = reconcileAfter s \<and> kv_puts (db s') = kv_puts (db s)
      \<and> (\<exists>fs. kv_faults (db s) = True # fs))"

text \<open>A new driver that the reconciler has put in reconcile mode.\<close>

definition reconcilingDriver :: "unit sfcCtlrL2CNPDriver" where
  "reconcilingDriver = newDriver\<lparr>reconcileInProgress := True\<rparr>"

text \<open>A driver started over a store that already holds the binding
  \<open>HE2HEIDs[h1, h2] = 6000\<close> from an earlier run, with the default system parameters set
  and the pair \<open>(h1, h2)\<close> wired; and a north-south VXLAN chain from a container on
  \<open>h1\<close> to the host \<open>h2\<close> that supplies no \<open>vlan_id\<close>.\<close>

definition restartedDriver :: "unit sfcCtlrL2CNPDriver" where
  "restartedDriver =
     snd (WireHostEntityToDestinationHostEntity (hostNamed ''h1'') (hostNamed ''h2'')
       (snd (SetSystemParameters (sysParmsWith 5000)
         (newDriver\<lparr>db := (db newDriver)\<lparr>kv_HE2HEIDs := [(''h1'', ''h2'') \<mapsto> 6000]\<rparr>\<rparr>))))"

definition elementOf :: "SfcElementType \<Rightarrow> string \<Rightarrow> string \<Rightarrow> string \<Rightarrow> SfcElement" where
  "elementOf t container port switchKey =
     \<lparr>el_Container = container, el_PortLabel = port, el_EtcdVppSwitchKey = switchKey,
      el_Ipv4Addr = [], el_MacAddr = [], el_Type = t, el_VlanId = 0, el_Mtu = 0,
      el_RxMode = RX_MODE_UNKNOWN, el_L2FibMacs = [], el_Ipv6Addr = [], el_L3VrfRoutes = [],
      el_L3ArpEntries = []\<rparr>"

definition sfcOf :: "SfcType \<Rightarrow> string \<Rightarrow> SfcElement list \<Rightarrow> SfcEntity" where
  "sfcOf t n els =
     \<lparr>sfc_Name = n, sfc_Description = [], sfc_Type = t, sfc_SfcIpv4Prefix = [],
      sfc_VnfRepeatCount = 0, sfc_BdParms = None, sfc_Elements = els\<rparr>"

definition h1ToH2Sfc :: SfcEntity where
  "h1ToH2Sfc = sfcOf SFC_NS_VXLAN ''sfc1''
     [elementOf HOST_ENTITY ''h2'' [] [],
      elementOf NON_VPP_CONTAINER_MEMIF ''c1'' ''p1'' ''h1'']"

text \<open>The VNI of the tunnel interface an edge holds, and the VNI handed to the
  external-entity driver in a call.\<close>

definition heToHEVni :: "heToHEStateType option \<Rightarrow> uint32 option" where
  "heToHEVni st =
     (case st of
        None \<Rightarrow> None
      | Some x \<Rightarrow> (case heToHE_vlanIf x of None \<Rightarrow> None | Some i \<Rightarrow> map_option vx_Vni (if_Vxlan i)))"

definition heToEEVni :: "heToEEStateType option \<Rightarrow> uint32 option" where
  "heToEEVni st =
     (case st of
        None \<Rightarrow> None
      | Some x \<Rightarrow> (case heToEE_vlanIf x of None \<Rightarrow> None | Some i \<Rightarrow> map_option vx_Vni (if_Vxlan i)))"

definition callVni :: "extEntityCall \<Rightarrow> uint32 option" where
  "callVni c =
     (case c of
        SfcCtlrL2WireExternalEntityToHostEntity ee he vni sr \<Rightarrow> Some vni
      | SfcCtlrL2WireExternalEntityInternals ee \<Rightarrow> None)"

text \<open>A driver over a store with the given outcomes of its requests, with the default
  system parameters set and the host \<open>h1\<close> wired to the external entity \<open>ee1\<close>; and a
  north-south VXLAN chain from a container on \<open>h1\<close> to \<open>ee1\<close>.\<close>

definition h1WiredToEe1 :: "bool list \<Rightarrow> unit sfcCtlrL2CNPDriver" where
  "h1WiredToEe1 faults =
     snd (WireHostEntityToExternalEntity (hostNamed ''h1'') (extEntityNamed ''ee1'')
       (snd (SetSystemParameters (sysParmsWith 5000) (NewSfcCtlrL2CNPDriver faults ()))))"

definition h1ToEe1Sfc :: SfcEntity where
  "h1ToEe1Sfc = sfcOf SFC_NS_VXLAN ''sfc1''
     [elementOf EXTERNAL_ENTITY ''ee1'' [] [],
      elementOf NON_VPP_CONTAINER_MEMIF ''c1'' ''p1'' ''h1'']"

text \<open>A driver started over a store that already holds the binding
  \<open>HE2EEIDs[h1, ee1] = 6000\<close> from an earlier run, with the default system parameters
  set and the host \<open>h1\<close> wired to the external entity \<open>ee1\<close>.\<close>

definition restartedDriverEe1 :: "unit sfcCtlrL2CNPDriver" where
  "restartedDriverEe1 =
     snd (WireHostEntityToExternalEntity (hostNamed ''h1'') (extEntityNamed ''ee1'')
       (snd (SetSystemParameters (sysParmsWith 5000)
         (newDriver\<lparr>db := (db newDriver)\<lparr>kv_HE2EEIDs := [(''h1'', ''ee1'') \<mapsto> 6000]\<rparr>\<rparr>))))"

text \<open>The conditions under which a north-south VXLAN chain is rejected, as the spec lists
  them: more than one external-entity element, more than one host-entity element,
  neither of the two, or such an element whose name is not in its entity cache.\<close>

definition externalEntityElements :: "SfcElement list \<Rightarrow> SfcElement list" where
  "externalEntityElements els = filter (\<lambda>e. el_Type e = EXTERNAL_ENTITY) els"

definition hostEntityElements :: "SfcElement list \<Rightarrow> SfcElement list" where
  "hostEntityElements els = filter (\<lambda>e. el_Type e = HOST_ENTITY) els"

definition nsVxlanRejected :: "l2CNPEntityCacheType \<Rightarrow> SfcElement list \<Rightarrow> bool" where
  "nsVxlanRejected cache els =
     (1 < length (externalEntityElements els)
      \<or> 1 < length (hostEntityElements els)
      \<or> (externalEntityElements els = [] \<and> hostEntityElements els = [])
      \<or> list_ex (\<lambda>e. EEs cache (el_Container e) = None) (externalEntityElements els)
      \<or> list_ex (\<lambda>e. HEs cache (el_Container e) = None) (hostEntityElements els))"

text \<open>The end points of an accepted chain, as the second loop of
  \<^verbatim>\<open>wireSfcNorthSouthVXLANElements\<close> uses them: the number of external-entity elements,
  the name and the element of the last one, and the same for the host-entity
  elements.\<close>

definition nsVxlanEndpoints :: "SfcElement list \<Rightarrow> nsScan" where
  "nsVxlanEndpoints els =
     (let ees = externalEntityElements els; dhs = hostEntityElements els
      in (length ees, (if ees = [] then [] else el_Container (last ees)),
          (if ees = [] then None else Some (last ees)),
          length dhs, (if dhs = [] then [] else el_Container (last dhs)),
          (if dhs = [] then None else Some (last dhs))))"

definition isContainerElement :: "SfcElement \<Rightarrow> bool" where
  "isContainerElement e = (isAfpElement (el_Type e) \<or> isMemifElement (el_Type e))"

text \<open>A north-south VXLAN chain from a container on the host \<open>h9\<close>, which was never
  wired, to the external entity \<open>ee1\<close>.\<close>

definition h9ToEe1Sfc :: SfcEntity where
  "h9ToEe1Sfc = sfcOf SFC_NS_VXLAN ''sfc1''
     [elementOf EXTERNAL_ENTITY ''ee1'' [] [],
      elementOf NON_VPP_CONTAINER_MEMIF ''c1'' ''p1'' ''h9'']"

definition ee1OnlySfc :: SfcEntity where
  "ee1OnlySfc = sfcOf SFC_NS_VXLAN ''sfc1'' [elementOf EXTERNAL_ENTITY ''ee1'' [] []]"





text \<open>A map of edges with the slot \<open>[a][b]\<close> added, holding \<open>fresh\<close>, unless the slot is
  there already.\<close>

definition withEdge :: "(string \<rightharpoonup> (string \<rightharpoonup> 'a)) \<Rightarrow> string \<Rightarrow> string \<Rightarrow> 'a
    \<Rightarrow> (string \<rightharpoonup> (string \<rightharpoonup> 'a))" where
  "withEdge edges a b fresh =
     (case edges a of
        None \<Rightarrow> edges(a \<mapsto> [b \<mapsto> fresh])
      | Some m \<Rightarrow> (case m b of None \<Rightarrow> edges(a \<mapsto> m(b \<mapsto> fresh)) | Some st \<Rightarrow> edges))"

text \<open>The external entity \<open>ee1\<close> without its host VXLAN.\<close>

definition ee1WithoutHostVxlan :: ExternalEntity where
  "ee1WithoutHostVxlan = (extEntityNamed ''ee1'')\<lparr>ee_HostVxlan := None\<rparr>"

section \<open>Properties\<close>

text \<open>The definitions unfolded to run the driver on a given input.\<close>

lemmas eval_defs =
  newDriver_def NewSfcCtlrL2CNPDriver_def sysParmsWith_def hostNamed_def extEntityNamed_def
  zeroHostEntity_def zeroExternalEntity_def zeroSystemParameters_def
  SetSystemParameters_def WireHostEntityToDestinationHostEntity_def WireHostEntityToExternalEntity_def
  setHE_def setEE_def setSFC_def getHEToEEState_def getHEToHEState_def setHEToEEState_def
  setHEToHEState_def setHEState_def setSFCToHEState_def
  lookupHE_def lookupEE_def nextVLanID_def nextMemIfID_def nextMacInstanceID_def nextVethID_def
  vlanIDOrAllocate_def
  kvPut_def kvRequest_def reconcileCapture_def reconcileInterface_def reconcileBridgeDomain_def
  reconcileStaticRoute_def reconcileLinuxInterface_def
  DatastoreHE2EEIDsRetrieve_def DatastoreHE2EEIDsCreate_def DatastoreHE2HEIDsRetrieve_def
  DatastoreHE2HEIDsCreate_def DatastoreSFCIDsRetrieve_def DatastoreSFCIDsCreate_def
  DatastoreHEIDsRetrieve_def DatastoreHEIDsCreate_def
  vxLanCreate_def createStaticRoute_def bridgedDomainCreateWithIfs_def bridgedDomainAssociateWithIfs_def
  stripSlashAndSubnetIpv4Address_def
  createVxLANAndBridgeToDestHost_def createVxLANAndBridgeToDestHost_vlanIf_def
  createVxLANAndBridgeToDestHost_l3Route_def createVxLANAndBridgeToDestHost_bd_def
  createVxLANAndBridgeToExtEntity_def createVxLANAndBridgeToExtEntity_vlanIf_def
  createVxLANAndBridgeToExtEntity_l3Route_def createVxLANAndBridgeToExtEntity_bd_def
  wireExternalEntityToHostEntity_def isPanic_def
  WireSfcEntity_def wireSfcNorthSouthVXLANElements_def nsVxlanWireElement_def nsVxlanBridge_def
  isAfpElement_def isMemifElement_def createMemIfPairAndAddToBridge_def createMemIfPair_def
  createMemIfPair_ipv4_def allocMacAddress_def memIfCreate_def getMtu_def recordSfcIDs_def
  setSfcInterfaceIPAndMac_def constructIpv4AndV6AddressArray_def rxModeControllerToInterface_def
  createAFPacketVEthPairAndAddToBridge_def createAFPacketVEthPair_def createAFPacketVEthPair_ipv4_def
  createAFPacketVEthPair_ifs_def vEthIfCreate_def afPacketCreate_def
  sfcOf_def elementOf_def noIpam_def

subsection \<open>The MAC address of an instance id\<close>

lemma octet_unat:
  "unat (0xFF AND drop_bit n (ucast (x::uint32) :: 64 word)) = unat x div 2 ^ n mod 256"
proof -
  have "(0xFF :: 64 word) = mask 8" by (simp add: mask_eq_exp_minus_1)
  then have "unat (0xFF AND drop_bit n (ucast x :: 64 word)) = unat (take_bit 8 (drop_bit n (ucast x :: 64 word)))"
    by (simp add: take_bit_eq_mask and.commute)
  also have "\<dots> = take_bit 8 (drop_bit n (unat (ucast x :: 64 word)))"
    by (simp add: unat_drop_bit_eq unsigned_take_bit_eq)
  also have "unat (ucast x :: 64 word) = unat x"
  proof -
    have "unat x < 2 ^ 32" using unsigned_less [of x, where ?'a = nat] by simp
    then have "unat x < 2 ^ 64" by simp
    then show ?thesis by (simp add: unsigned_ucast_eq take_bit_nat_eq_self)
  qed
  finally show ?thesis by (simp add: take_bit_eq_mod drop_bit_eq_div)
qed

lemma sprintf02X_byte: "unat v < 256 \<Longrightarrow> sprintf02X v = hexByte (unat v)"
proof -
  assume b: "unat v < 256"
  show ?thesis
  proof (cases "unat v < 16")
    case True
    then show ?thesis by (simp add: sprintf02X_def hexByte_def hexDigitUpper_def)
  next
    case False
    with b have "unat v div 16 < 16" by simp
    with False show ?thesis by (simp add: sprintf02X_def hexByte_def Let_def)
  qed
qed

lemma formatMacAddress_bytes: "formatMacAddress x = ''02:'' @ hexByte (beByte x 4) @ '':'' @ hexByte (beByte x 3) @ '':''
     @ hexByte (beByte x 2) @ '':'' @ hexByte (beByte x 1) @ '':'' @ hexByte (beByte x 0)"
proof -
  have b: "\<And>n. unat (0xFF AND drop_bit n (ucast x :: 64 word)) < 256"
    by (simp add: octet_unat)
  have two: "sprintf02X 2 = ''02''"
    by (simp add: sprintf02X_def hexDigitUpper_def)
  have s: "\<And>n. sprintf02X (0xFF AND drop_bit n (ucast x :: 64 word)) = hexByte (unat x div 2 ^ n mod 256)"
    using sprintf02X_byte [OF b] by (simp add: octet_unat)
  have l: "macOctetsOf x ! 0 = 2" "macOctetsOf x ! 1 = 0xFF AND drop_bit 32 (ucast x)"
    "macOctetsOf x ! 2 = 0xFF AND drop_bit 24 (ucast x)" "macOctetsOf x ! 3 = 0xFF AND drop_bit 16 (ucast x)"
    "macOctetsOf x ! 4 = 0xFF AND drop_bit 8 (ucast x)" "macOctetsOf x ! 5 = 0xFF AND drop_bit 0 (ucast x)"
    by (simp_all add: macOctetsOf_def Let_def)
  have u: "[0..<5] = [0, 1, 2, 3, 4::nat]" by (simp add: upt_rec)
  show ?thesis
    unfolding formatMacAddress_def Let_def u
    by (simp only: foldl.simps l s two beByte_def) simp
qed

lemma hexDigit_inj: "a < 16 \<Longrightarrow> b < 16 \<Longrightarrow> hexDigitUpper a = hexDigitUpper b \<Longrightarrow> a = b"
proof -
  assume a: "a < 16" and b: "b < 16" and e: "hexDigitUpper a = hexDigitUpper b"
  have d: "distinct ''0123456789ABCDEF''" by simp
  have "length ''0123456789ABCDEF'' = 16" by simp
  with a b e d show ?thesis unfolding hexDigitUpper_def
    by (metis nth_eq_iff_index_eq)
qed

lemma hexByte_inj: "a < 256 \<Longrightarrow> b < 256 \<Longrightarrow> hexByte a = hexByte b \<Longrightarrow> a = b"
proof -
  assume a: "a < 256" and b: "b < 256" and e: "hexByte a = hexByte b"
  from a b have "a div 16 < 16" "b div 16 < 16" "a mod 16 < 16" "b mod 16 < 16" by simp_all
  moreover from e have "hexDigitUpper (a div 16) = hexDigitUpper (b div 16)"
    "hexDigitUpper (a mod 16) = hexDigitUpper (b mod 16)" by (simp_all add: hexByte_def)
  ultimately have "a div 16 = b div 16" "a mod 16 = b mod 16"
    by (blast intro: hexDigit_inj)+
  then show ?thesis by (metis div_mult_mod_eq)
qed

lemma unat_bytes:
  "unat (z::uint32) = beByte z 0 + 256 * (beByte z 1 + 256 * (beByte z 2 + 256 * beByte z 3))"
proof -
  define n where "n = unat z"
  define a where "a = n div 256"
  define b where "b = a div 256"
  define c where "c = b div 256"
  have "n < 2 ^ 32" unfolding n_def using unsigned_less [of z] by simp
  then have "c < 256" unfolding c_def b_def a_def by simp
  then have c: "c mod 256 = c" by simp
  have n: "n = n mod 256 + 256 * a" unfolding a_def by simp
  have a: "a = a mod 256 + 256 * b" unfolding b_def by simp
  have b: "b = b mod 256 + 256 * c" unfolding c_def by simp
  have p2: "(256::nat) ^ 2 = 256 * 256" and p3: "(256::nat) ^ 3 = 256 * 256 * 256"
    by (simp_all add: power2_eq_square power3_eq_cube)
  have b0: "beByte z 0 = n mod 256" by (simp add: beByte_def n_def)
  have b1: "beByte z 1 = a mod 256" by (simp add: beByte_def n_def a_def)
  have b2: "beByte z 2 = b mod 256"
    unfolding beByte_def p2 b_def a_def n_def by (simp only: div_mult2_eq)
  have b3: "beByte z 3 = c"
    unfolding beByte_def p3 using c unfolding c_def b_def a_def n_def by (simp only: div_mult2_eq)
  show ?thesis unfolding b0 b1 b2 b3 n_def [symmetric] using n a b by presburger
qed

lemma bytes_eq: 
  assumes "\<And>k. k < 4 \<Longrightarrow> beByte x k = beByte y k"
  shows "x = y"
proof -
  have "unat x = unat y" using assms by (simp add: unat_bytes)
  then show ?thesis by (simp add: word_unat_eq_iff)
qed

lemma formatMacAddress_inj: "inj formatMacAddress"
proof (rule injI)
  fix x y assume "formatMacAddress x = formatMacAddress y"
  then have e: "hexByte (beByte x 3) = hexByte (beByte y 3)" "hexByte (beByte x 2) = hexByte (beByte y 2)"
    "hexByte (beByte x 1) = hexByte (beByte y 1)" "hexByte (beByte x 0) = hexByte (beByte y 0)"
    by (simp_all add: formatMacAddress_bytes hexByte_def)
  have lt: "\<And>z k. beByte z k < 256" by (simp add: beByte_def)
  have "\<And>k. k < 4 \<Longrightarrow> beByte x k = beByte y k"
  proof -
    fix k :: nat assume "k < 4"
    then consider "k = 0" | "k = 1" | "k = 2" | "k = 3" by linarith
    then show "beByte x k = beByte y k"
      using e hexByte_inj [OF lt lt] by cases auto
  qed
  then show "x = y" by (rule bytes_eq)
qed

text \<open>
  C9. For every id, \<open>formatMacAddress id\<close> is the string \<open>02:b4:b3:b2:b1:b0\<close> where each
  octet is two upper-case hexadecimal digits and \<open>b4 .. b0\<close> are the bytes of the id, most
  significant first (\<open>b4\<close>, the byte above the 32 bits of the id, is always 00); and the
  function is injective, on all ids and so on the ids from 1 to \<open>2^32 - 1\<close>.
\<close>

theorem C9_formatMacAddress:
  "formatMacAddress macInstanceID =
       ''02:'' @ hexByte (beByte macInstanceID 4) @ '':'' @ hexByte (beByte macInstanceID 3) @ '':''
         @ hexByte (beByte macInstanceID 2) @ '':'' @ hexByte (beByte macInstanceID 1) @ '':''
         @ hexByte (beByte macInstanceID 0)
   \<and> beByte macInstanceID 4 = 0
   \<and> inj formatMacAddress"
proof -
  have "unat macInstanceID < 2 ^ 32"
    using unsigned_less [of macInstanceID, where ?'a = nat] by simp
  then have "beByte macInstanceID 4 = 0" by (simp add: beByte_def)
  then show ?thesis
    using formatMacAddress_bytes [of macInstanceID] formatMacAddress_inj by simp
qed

subsection \<open>Seeding the VLAN counter\<close>

lemma SetSystemParameters_seed:
  "VLanID (seq s) = 0 \<Longrightarrow> VLanID (seq (snd (SetSystemParameters sp s))) = sp_StartingVlanId sp - 1"
  by (simp add: SetSystemParameters_def Let_def)

lemma SetSystemParameters_keep:
  "VLanID (seq s) \<noteq> 0 \<Longrightarrow> seq (snd (SetSystemParameters sp s)) = seq s"
  by (simp add: SetSystemParameters_def Let_def)

lemma setSystemParametersAll_keep:
  "VLanID (seq s) \<noteq> 0 \<Longrightarrow> seq (setSystemParametersAll sps s) = seq s"
proof (induction sps arbitrary: s)
  case Nil
  then show ?case by (simp add: setSystemParametersAll_def)
next
  case (Cons sp sps)
  have k: "seq (snd (SetSystemParameters sp s)) = seq s"
    using Cons.prems by (rule SetSystemParameters_keep)
  then have "VLanID (seq (snd (SetSystemParameters sp s))) \<noteq> 0" using Cons.prems by simp
  from Cons.IH [OF this] k show ?case by (simp add: setSystemParametersAll_def)
qed

text \<open>
  What a call does to the counter, for every state: made while the VLAN counter is 0,
  as it is on a new driver, it sets the counter to \<open>starting_vlan_id - 1\<close> (modulo
  \<open>2^32\<close>); made while the counter is not 0 it leaves all counters as they are. So after
  a first call whose \<open>starting_vlan_id\<close> is not 1, no run of later calls, with whatever
  parameters, changes the counter.
\<close>

lemma SetSystemParameters_counter:
  "fst (SetSystemParameters sp s) = Inr ()
   \<and> (VLanID (seq s) = 0 \<longrightarrow>
         VLanID (seq (snd (SetSystemParameters sp s))) = sp_StartingVlanId sp - 1)
   \<and> (VLanID (seq s) \<noteq> 0 \<longrightarrow> seq (snd (SetSystemParameters sp s)) = seq s)
   \<and> (VLanID (seq s) = 0 \<and> sp_StartingVlanId sp \<noteq> 1 \<longrightarrow>
         VLanID (seq (setSystemParametersAll sps (snd (SetSystemParameters sp s))))
           = sp_StartingVlanId sp - 1)"
proof -
  have "VLanID (seq (setSystemParametersAll sps (snd (SetSystemParameters sp s))))
           = sp_StartingVlanId sp - 1"
    if z: "VLanID (seq s) = 0" and n: "sp_StartingVlanId sp \<noteq> 1"
  proof -
    have v: "VLanID (seq (snd (SetSystemParameters sp s))) = sp_StartingVlanId sp - 1"
      using z by (rule SetSystemParameters_seed)
    with n have "VLanID (seq (snd (SetSystemParameters sp s))) \<noteq> 0" by simp
    from setSystemParametersAll_keep [OF this] v show ?thesis by simp
  qed
  then show ?thesis
    using SetSystemParameters_seed [of s sp] SetSystemParameters_keep [of s sp]
    by (simp add: SetSystemParameters_def Let_def)
qed

text \<open>
  C5. The guard of \<^verbatim>\<open>SetSystemParameters\<close> takes the counter value 0 for ``never set'',
  with the comment \<^verbatim>\<open>only init if this is the first time being set\<close>. On a new driver a
  first call with \<open>starting_vlan_id = 1\<close> seeds the counter to \<open>1 - 1 = 0\<close>, so the
  second call, with \<open>starting_vlan_id = 5000\<close>, finds 0 and seeds the counter again, to
  4999: a later call has changed the counter. A first call with \<open>starting_vlan_id = 5000\<close>,
  for comparison, is not followed by a second seeding.
\<close>

theorem C5_counter_seeded_again_after_starting_id_one:
  "VLanID (seq newDriver) = 0
   \<and> VLanID (seq (snd (SetSystemParameters (sysParmsWith 1) newDriver))) = 0
   \<and> VLanID (seq (snd (SetSystemParameters (sysParmsWith 5000)
                          (snd (SetSystemParameters (sysParmsWith 1) newDriver))))) = 4999
   \<and> VLanID (seq (snd (SetSystemParameters (sysParmsWith 5000) newDriver))) = 4999
   \<and> VLanID (seq (snd (SetSystemParameters (sysParmsWith 1)
                          (snd (SetSystemParameters (sysParmsWith 5000) newDriver))))) = 4999"
  by (simp add: SetSystemParameters_def Let_def newDriver_def NewSfcCtlrL2CNPDriver_def sysParmsWith_def)

subsection \<open>Recording an edge\<close>

lemma h2h_frame:
  "onlyCachesChanged s (snd (WireHostEntityToDestinationHostEntity sh dh s))"
  by (simp add: WireHostEntityToDestinationHostEntity_def Let_def onlyCachesChanged_def
      setHE_def setHEToHEState_def split: option.splits)

lemma h2h_ok: "fst (WireHostEntityToDestinationHostEntity sh dh s) = Inr ()"
  by (simp add: WireHostEntityToDestinationHostEntity_def Let_def split: option.splits)

lemma h2h_others:
  "HEToEEs (l2CNPStateCache (snd (WireHostEntityToDestinationHostEntity sh dh s))) = HEToEEs (l2CNPStateCache s)
   \<and> SFCToHEs (l2CNPStateCache (snd (WireHostEntityToDestinationHostEntity sh dh s))) = SFCToHEs (l2CNPStateCache s)
   \<and> HE (l2CNPStateCache (snd (WireHostEntityToDestinationHostEntity sh dh s))) = HE (l2CNPStateCache s)
   \<and> SFCIFAddr (l2CNPStateCache (snd (WireHostEntityToDestinationHostEntity sh dh s))) = SFCIFAddr (l2CNPStateCache s)"
  by (simp add: WireHostEntityToDestinationHostEntity_def Let_def
      setHE_def setHEToHEState_def split: option.splits)

lemma h2h_edge:
  "getHEToHEState (he_Name sh) (he_Name dh) (snd (WireHostEntityToDestinationHostEntity sh dh s))
     = Some (case getHEToHEState (he_Name sh) (he_Name dh) s of None \<Rightarrow> emptyHEToHE | Some st \<Rightarrow> st)"
  by (simp add: WireHostEntityToDestinationHostEntity_def Let_def emptyHEToHE_def getHEToHEState_def
      setHE_def setHEToHEState_def split: option.splits)

lemma h2h_other_edges:
  "(a, b) \<noteq> (he_Name sh, he_Name dh) \<Longrightarrow>
   getHEToHEState a b (snd (WireHostEntityToDestinationHostEntity sh dh s)) = getHEToHEState a b s"
  by (auto simp add: WireHostEntityToDestinationHostEntity_def Let_def getHEToHEState_def
      setHE_def setHEToHEState_def split: option.splits)

lemma h2h_repeat:
  "WireHostEntityToDestinationHostEntity sh dh (snd (WireHostEntityToDestinationHostEntity sh dh s))
     = (Inr (), snd (WireHostEntityToDestinationHostEntity sh dh s))"
proof -
  obtain s' where s': "s' = snd (WireHostEntityToDestinationHostEntity sh dh s)" by simp
  have e: "getHEToHEState (he_Name sh) (he_Name dh) s' \<noteq> None" unfolding s' by (simp add: h2h_edge)
  have c: "setHE (he_Name dh) dh (setHE (he_Name sh) sh s') = s'"
    unfolding s'
    by (cases "he_Name sh = he_Name dh")
       (simp_all add: WireHostEntityToDestinationHostEntity_def Let_def setHE_def setHEToHEState_def
         fun_upd_twist split: option.splits)
  from e have o: "HEToHEs (l2CNPStateCache s') (he_Name sh) \<noteq> None"
    by (auto simp: getHEToHEState_def split: option.splits)
  show ?thesis unfolding s' [symmetric]
    using e o by (auto simp add: WireHostEntityToDestinationHostEntity_def [of sh dh s'] Let_def c)
qed

lemma h2e_frame:
  "onlyCachesChanged s (snd (WireHostEntityToExternalEntity he ee s))"
  by (simp add: WireHostEntityToExternalEntity_def Let_def onlyCachesChanged_def
      setHE_def setEE_def setHEToEEState_def split: option.splits)

lemma h2e_ok:
  "ee_HostInterface ee \<noteq> None \<Longrightarrow> ee_HostVxlan ee \<noteq> None \<Longrightarrow>
   fst (WireHostEntityToExternalEntity he ee s) = Inr ()"
  by (simp add: WireHostEntityToExternalEntity_def Let_def split: option.splits)

lemma h2e_others:
  "HEToHEs (l2CNPStateCache (snd (WireHostEntityToExternalEntity he ee s))) = HEToHEs (l2CNPStateCache s)
   \<and> SFCToHEs (l2CNPStateCache (snd (WireHostEntityToExternalEntity he ee s))) = SFCToHEs (l2CNPStateCache s)
   \<and> HE (l2CNPStateCache (snd (WireHostEntityToExternalEntity he ee s))) = HE (l2CNPStateCache s)
   \<and> SFCIFAddr (l2CNPStateCache (snd (WireHostEntityToExternalEntity he ee s))) = SFCIFAddr (l2CNPStateCache s)"
  by (simp add: WireHostEntityToExternalEntity_def Let_def
      setHE_def setEE_def setHEToEEState_def split: option.splits)

lemma h2e_edge:
  "ee_HostInterface ee \<noteq> None \<Longrightarrow> ee_HostVxlan ee \<noteq> None \<Longrightarrow>
   getHEToEEState (he_Name he) (ee_Name ee) (snd (WireHostEntityToExternalEntity he ee s))
     = Some (case getHEToEEState (he_Name he) (ee_Name ee) s of None \<Rightarrow> emptyHEToEE | Some st \<Rightarrow> st)"
  by (simp add: WireHostEntityToExternalEntity_def Let_def emptyHEToEE_def getHEToEEState_def
      setHE_def setEE_def setHEToEEState_def split: option.splits)

lemma h2e_other_edges:
  "(a, b) \<noteq> (he_Name he, ee_Name ee) \<Longrightarrow>
   getHEToEEState a b (snd (WireHostEntityToExternalEntity he ee s)) = getHEToEEState a b s"
  by (auto simp add: WireHostEntityToExternalEntity_def Let_def getHEToEEState_def
      setHE_def setEE_def setHEToEEState_def split: option.splits)

lemma h2e_repeat:
  assumes v: "ee_HostInterface ee \<noteq> None" "ee_HostVxlan ee \<noteq> None"
  shows "WireHostEntityToExternalEntity he ee (snd (WireHostEntityToExternalEntity he ee s))
     = (Inr (), snd (WireHostEntityToExternalEntity he ee s))"
proof -
  obtain s' where s': "s' = snd (WireHostEntityToExternalEntity he ee s)" by simp
  have e: "getHEToEEState (he_Name he) (ee_Name ee) s' \<noteq> None"
    unfolding s' using v by (simp add: h2e_edge)
  have c: "setEE (ee_Name ee) ee (setHE (he_Name he) he s') = s'"
    unfolding s' using v
    by (simp add: WireHostEntityToExternalEntity_def Let_def setHE_def setEE_def setHEToEEState_def
         split: option.splits)
  from e have o: "HEToEEs (l2CNPStateCache s') (he_Name he) \<noteq> None"
    by (auto simp: getHEToEEState_def split: option.splits)
  show ?thesis unfolding s' [symmetric]
    using e o v by (auto simp add: WireHostEntityToExternalEntity_def [of he ee s'] Let_def c)
qed

lemma h2h_state:
  "WireHostEntityToDestinationHostEntity sh dh s
     = (Inr (),
        s\<lparr>l2CNPEntityCache := (l2CNPEntityCache s)
             \<lparr>HEs := (HEs (l2CNPEntityCache s))(he_Name sh \<mapsto> sh, he_Name dh \<mapsto> dh)\<rparr>,
          l2CNPStateCache := (l2CNPStateCache s)
             \<lparr>HEToHEs := withEdge (HEToHEs (l2CNPStateCache s)) (he_Name sh) (he_Name dh)
                            emptyHEToHE\<rparr>\<rparr>)"
  by (simp add: WireHostEntityToDestinationHostEntity_def Let_def withEdge_def emptyHEToHE_def
      getHEToHEState_def setHE_def setHEToHEState_def split: option.splits)

lemma h2e_state:
  "ee_HostInterface ee \<noteq> None \<Longrightarrow> ee_HostVxlan ee \<noteq> None \<Longrightarrow>
   WireHostEntityToExternalEntity he ee s
     = (Inr (),
        s\<lparr>l2CNPEntityCache := (l2CNPEntityCache s)
             \<lparr>HEs := (HEs (l2CNPEntityCache s))(he_Name he \<mapsto> he),
              EEs := (EEs (l2CNPEntityCache s))(ee_Name ee \<mapsto> ee)\<rparr>,
          l2CNPStateCache := (l2CNPStateCache s)
             \<lparr>HEToEEs := withEdge (HEToEEs (l2CNPStateCache s)) (he_Name he) (ee_Name ee)
                            emptyHEToEE\<rparr>\<rparr>)"
  by (simp add: WireHostEntityToExternalEntity_def Let_def withEdge_def emptyHEToEE_def
      getHEToEEState_def setHE_def setEE_def setHEToEEState_def split: option.splits)

text \<open>
  C6, as amended. \<^verbatim>\<open>WireHostEntityToDestinationHostEntity\<close> always succeeds, and
  \<^verbatim>\<open>WireHostEntityToExternalEntity\<close> succeeds for an external entity that has its host
  interface and its host VXLAN. The driver they leave is the one they found but for two
  things: the entity cache holds the given entities under their names, and the edge map
  (\<open>HEToHEs\<close>, \<open>HEToEEs\<close>) has the slot of the pair, recorded with its three sub-resources
  nil if it was not there and left as it was if it was. So nothing is written to the
  store or captured in the reconcile buffer, no counter moves, no bridge domain is
  created, no call is made to the external-entity driver, and every other slot and
  every other map of the state cache is as before. A repeated call succeeds and leaves
  the whole driver as the first call left it.
\<close>

theorem C6_wire_pair_records_edge_only:
  "WireHostEntityToDestinationHostEntity sh dh s
     = (Inr (),
        s\<lparr>l2CNPEntityCache := (l2CNPEntityCache s)
             \<lparr>HEs := (HEs (l2CNPEntityCache s))(he_Name sh \<mapsto> sh, he_Name dh \<mapsto> dh)\<rparr>,
          l2CNPStateCache := (l2CNPStateCache s)
             \<lparr>HEToHEs := withEdge (HEToHEs (l2CNPStateCache s)) (he_Name sh) (he_Name dh)
                            emptyHEToHE\<rparr>\<rparr>)
   \<and> onlyCachesChanged s (snd (WireHostEntityToDestinationHostEntity sh dh s))
   \<and> getHEToHEState (he_Name sh) (he_Name dh) (snd (WireHostEntityToDestinationHostEntity sh dh s))
       = Some (case getHEToHEState (he_Name sh) (he_Name dh) s of
                 None \<Rightarrow> emptyHEToHE | Some st \<Rightarrow> st)
   \<and> (\<forall>a b. (a, b) \<noteq> (he_Name sh, he_Name dh) \<longrightarrow>
         getHEToHEState a b (snd (WireHostEntityToDestinationHostEntity sh dh s))
           = getHEToHEState a b s)
   \<and> WireHostEntityToDestinationHostEntity sh dh (snd (WireHostEntityToDestinationHostEntity sh dh s))
       = (Inr (), snd (WireHostEntityToDestinationHostEntity sh dh s))
   \<and> (ee_HostInterface ee \<noteq> None \<and> ee_HostVxlan ee \<noteq> None \<longrightarrow>
         WireHostEntityToExternalEntity he ee s
           = (Inr (),
              s\<lparr>l2CNPEntityCache := (l2CNPEntityCache s)
                   \<lparr>HEs := (HEs (l2CNPEntityCache s))(he_Name he \<mapsto> he),
                    EEs := (EEs (l2CNPEntityCache s))(ee_Name ee \<mapsto> ee)\<rparr>,
                l2CNPStateCache := (l2CNPStateCache s)
                   \<lparr>HEToEEs := withEdge (HEToEEs (l2CNPStateCache s)) (he_Name he) (ee_Name ee)
                                  emptyHEToEE\<rparr>\<rparr>)
       \<and> onlyCachesChanged s (snd (WireHostEntityToExternalEntity he ee s))
       \<and> getHEToEEState (he_Name he) (ee_Name ee) (snd (WireHostEntityToExternalEntity he ee s))
           = Some (case getHEToEEState (he_Name he) (ee_Name ee) s of
                     None \<Rightarrow> emptyHEToEE | Some st \<Rightarrow> st)
       \<and> (\<forall>a b. (a, b) \<noteq> (he_Name he, ee_Name ee) \<longrightarrow>
             getHEToEEState a b (snd (WireHostEntityToExternalEntity he ee s))
               = getHEToEEState a b s)
       \<and> WireHostEntityToExternalEntity he ee (snd (WireHostEntityToExternalEntity he ee s))
           = (Inr (), snd (WireHostEntityToExternalEntity he ee s)))"
  using h2h_state [of sh dh s] h2h_frame [of s sh dh] h2h_edge [of sh dh s]
    h2h_other_edges [of _ _ sh dh s] h2h_repeat [of sh dh s]
    h2e_state [of ee he s] h2e_frame [of s he ee] h2e_other_edges [of _ _ he ee s]
    h2e_edge [of ee he s] h2e_repeat [of ee he s]
  by blast

theorem C6_wire_pair_records_edge_only_witness:
  "ee_HostInterface (extEntityNamed ''ee1'') \<noteq> None \<and> ee_HostVxlan (extEntityNamed ''ee1'') \<noteq> None
   \<and> (''h2'', ''h1'') \<noteq> (he_Name (hostNamed ''h1''), he_Name (hostNamed ''h2''))
   \<and> (''h2'', ''ee1'') \<noteq> (he_Name (hostNamed ''h1''), ee_Name (extEntityNamed ''ee1''))
   \<and> fst (WireHostEntityToExternalEntity (hostNamed ''h1'') (extEntityNamed ''ee1'') newDriver) = Inr ()
   \<and> getHEToEEState ''h1'' ''ee1''
        (snd (WireHostEntityToExternalEntity (hostNamed ''h1'') (extEntityNamed ''ee1'') newDriver))
       = Some emptyHEToEE
   \<and> getHEToHEState ''h1'' ''h2''
        (snd (WireHostEntityToDestinationHostEntity (hostNamed ''h1'') (hostNamed ''h2'') newDriver))
       = Some emptyHEToHE
   \<and> getHEToHEState ''h2'' ''h1''
        (snd (WireHostEntityToDestinationHostEntity (hostNamed ''h1'') (hostNamed ''h2'') newDriver))
       = None
   \<and> getHEToEEState ''h2'' ''ee1''
        (snd (WireHostEntityToExternalEntity (hostNamed ''h1'') (extEntityNamed ''ee1'') newDriver))
       = None
   \<and> kv_puts (db (snd (WireHostEntityToExternalEntity (hostNamed ''h1'') (extEntityNamed ''ee1'') newDriver))) = []
   \<and> WireHostEntityToExternalEntity (hostNamed ''h1'') (extEntityNamed ''ee1'') (h1WiredToEe1 [])
       = (Inr (), h1WiredToEe1 [])"
  using C6_wire_pair_records_edge_only [of "hostNamed ''h1''" "hostNamed ''h2''" newDriver
      "extEntityNamed ''ee1''" "hostNamed ''h1''"]
    C6_wire_pair_records_edge_only [of "hostNamed ''h1''" "hostNamed ''h2''"
      "snd (SetSystemParameters (sysParmsWith 5000) newDriver)"
      "extEntityNamed ''ee1''" "hostNamed ''h1''"]
  by (simp add: h1WiredToEe1_def eval_defs withEdge_def emptyHEToEE_def emptyHEToHE_def
      onlyCachesChanged_def Let_def)

text \<open>
  C6 as stated fails for an external entity without its host VXLAN. The pair
  \<open>(h1, ee1)\<close> is recorded; a repeated call for it that hands in \<open>ee1\<close> without the host
  VXLAN returns an error. On a new driver the same call returns the error and records
  no edge. And a call that succeeds does more than record the edge: the entity cache,
  which held no \<open>h1\<close>, holds it afterwards.
\<close>

theorem C6_invalid_entity_counterexample:
  "getHEToEEState ''h1'' ''ee1'' (h1WiredToEe1 []) = Some emptyHEToEE
   \<and> fst (WireHostEntityToExternalEntity (hostNamed ''h1'') ee1WithoutHostVxlan (h1WiredToEe1 []))
       = Inl InvalidExternalEntityConfig
   \<and> fst (WireHostEntityToExternalEntity (hostNamed ''h1'') ee1WithoutHostVxlan newDriver)
       = Inl InvalidExternalEntityConfig
   \<and> getHEToEEState ''h1'' ''ee1''
        (snd (WireHostEntityToExternalEntity (hostNamed ''h1'') ee1WithoutHostVxlan newDriver)) = None
   \<and> HEs (l2CNPEntityCache newDriver) ''h1'' = None
   \<and> HEs (l2CNPEntityCache (snd (WireHostEntityToDestinationHostEntity (hostNamed ''h1'')
        (hostNamed ''h2'') newDriver))) ''h1'' = Some (hostNamed ''h1'')"
  by (simp add: h1WiredToEe1_def ee1WithoutHostVxlan_def emptyHEToEE_def eval_defs Let_def)

lemma WireHostEntityToExternalEntity_invalid:
  "ee_HostInterface ee = None \<or> ee_HostVxlan ee = None \<Longrightarrow>
     WireHostEntityToExternalEntity he ee s
       = (Inl InvalidExternalEntityConfig, setEE (ee_Name ee) ee (setHE (he_Name he) he s))"
  by (simp add: WireHostEntityToExternalEntity_def Let_def)

text \<open>
  C10. With \<^verbatim>\<open>ee.HostInterface\<close> or \<^verbatim>\<open>ee.HostVxlan\<close> nil,
  \<^verbatim>\<open>WireHostEntityToExternalEntity\<close> returns the error "invalid external entity config";
  the state cache, and with it \<open>HEToEEs\<close>, is what it was, and so is everything outside
  the caches; but the entity caches hold \<open>he\<close> and \<open>ee\<close> under their names, written
  before the check.
\<close>

theorem C10_invalid_external_entity:
  assumes "ee_HostInterface ee = None \<or> ee_HostVxlan ee = None"
  shows "fst (WireHostEntityToExternalEntity he ee s) = Inl InvalidExternalEntityConfig
    \<and> HEToEEs (l2CNPStateCache (snd (WireHostEntityToExternalEntity he ee s)))
        = HEToEEs (l2CNPStateCache s)
    \<and> l2CNPStateCache (snd (WireHostEntityToExternalEntity he ee s)) = l2CNPStateCache s
    \<and> onlyCachesChanged s (snd (WireHostEntityToExternalEntity he ee s))
    \<and> HEs (l2CNPEntityCache (snd (WireHostEntityToExternalEntity he ee s))) (he_Name he) = Some he
    \<and> EEs (l2CNPEntityCache (snd (WireHostEntityToExternalEntity he ee s))) (ee_Name ee) = Some ee"
  using WireHostEntityToExternalEntity_invalid [OF assms, of he s]
  by (simp add: setEE_def setHE_def onlyCachesChanged_def)

theorem C10_invalid_external_entity_witness:
  "(ee_HostInterface ((extEntityNamed ''ee1'')\<lparr>ee_HostVxlan := None\<rparr>) = None
      \<or> ee_HostVxlan ((extEntityNamed ''ee1'')\<lparr>ee_HostVxlan := None\<rparr>) = None)
   \<and> fst (WireHostEntityToExternalEntity (hostNamed ''h1'')
            ((extEntityNamed ''ee1'')\<lparr>ee_HostVxlan := None\<rparr>) newDriver)
        = Inl InvalidExternalEntityConfig
   \<and> getHEToEEState ''h1'' ''ee1'' (snd (WireHostEntityToExternalEntity (hostNamed ''h1'')
            ((extEntityNamed ''ee1'')\<lparr>ee_HostVxlan := None\<rparr>) newDriver)) = None
   \<and> HEs (l2CNPEntityCache (snd (WireHostEntityToExternalEntity (hostNamed ''h1'')
            ((extEntityNamed ''ee1'')\<lparr>ee_HostVxlan := None\<rparr>) newDriver))) ''h1''
        = Some (hostNamed ''h1'')"
  using C10_invalid_external_entity [of "(extEntityNamed ''ee1'')\<lparr>ee_HostVxlan := None\<rparr>"
      "hostNamed ''h1''" newDriver]
  by (simp add: extEntityNamed_def hostNamed_def getHEToEEState_def newDriver_def
      NewSfcCtlrL2CNPDriver_def zeroHostEntity_def)

subsection \<open>Members of a bridge domain\<close>













subsection \<open>Store gateway in reconcile mode\<close>

lemma vxLanCreate_reconcile:
  "reconcileInProgress s \<Longrightarrow>
   \<exists>iface. fst (vxLanCreate k n vni src dst s) = Inr iface
     \<and> capturedOnly s (snd (vxLanCreate k n vni src dst s)) k (ResInterface iface)"
  by (simp add: vxLanCreate_def Let_def reconcileInterface_def reconcileCapture_def capturedOnly_def)

lemma memIfCreate_reconcile:
  "reconcileInProgress s \<Longrightarrow>
   \<exists>iface. fst (memIfCreate k n i m c v4 mac v6 mtu rx s) = Inr iface
     \<and> capturedOnly s (snd (memIfCreate k n i m c v4 mac v6 mtu rx s)) k (ResInterface iface)"
  by (simp add: memIfCreate_def Let_def reconcileInterface_def reconcileCapture_def capturedOnly_def)

lemma createEthernet_reconcile:
  "reconcileInProgress s \<Longrightarrow>
   fst (createEthernet k n v4 mac v6 mtu rx s) = Inr ()
   \<and> (\<exists>iface. capturedOnly s (snd (createEthernet k n v4 mac v6 mtu rx s)) k (ResInterface iface))"
  by (simp add: createEthernet_def Let_def reconcileInterface_def reconcileCapture_def capturedOnly_def)

lemma afPacketCreate_reconcile:
  "reconcileInProgress s \<Longrightarrow>
   \<exists>iface. fst (afPacketCreate k n h v4 mac v6 mtu rx s) = Inr iface
     \<and> capturedOnly s (snd (afPacketCreate k n h v4 mac v6 mtu rx s)) k (ResInterface iface)"
  by (simp add: afPacketCreate_def Let_def reconcileInterface_def reconcileCapture_def capturedOnly_def)

lemma createLoopback_reconcile:
  "reconcileInProgress s \<Longrightarrow>
   fst (createLoopback k n mac v4 v6 mtu rx s) = Inr ()
   \<and> (\<exists>iface. capturedOnly s (snd (createLoopback k n mac v4 v6 mtu rx s)) k (ResInterface iface))"
  by (simp add: createLoopback_def Let_def reconcileInterface_def reconcileCapture_def capturedOnly_def)

lemma vEthIfCreate_reconcile:
  "reconcileInProgress s \<Longrightarrow>
   fst (vEthIfCreate k n h p c mac v4 v6 mtu s) = Inr ()
   \<and> (\<exists>l. capturedOnly s (snd (vEthIfCreate k n h p c mac v4 v6 mtu s)) k (ResLinuxInterface l))"
  by (simp add: vEthIfCreate_def Let_def reconcileLinuxInterface_def reconcileCapture_def capturedOnly_def)

lemma createStaticRoute_reconcile:
  "reconcileInProgress s \<Longrightarrow>
   \<exists>sr. fst (createStaticRoute vrf k d dst nh oif w p s) = Inr sr
     \<and> capturedOnly s (snd (createStaticRoute vrf k d dst nh oif w p s)) k (ResStaticRoute sr)"
  by (simp add: createStaticRoute_def Let_def reconcileStaticRoute_def reconcileCapture_def capturedOnly_def)

lemma bridgedDomainCreateWithIfs_reconcile:
  "reconcileInProgress s \<Longrightarrow>
   \<exists>ptr bd. fst (bridgedDomainCreateWithIfs k n ifs (Some parms) s) = Inr ptr
     \<and> capturedOnly s (snd (bridgedDomainCreateWithIfs k n ifs (Some parms) s)) k (ResBridgeDomain bd)
     \<and> bd_Interfaces bd = ifs"
  by (simp add: bridgedDomainCreateWithIfs_def Let_def reconcileBridgeDomain_def reconcileCapture_def
      capturedOnly_def)

lemma bridgedDomainAssociateWithIfs_reconcile:
  "reconcileInProgress s \<Longrightarrow> ptr < length (bdHeap s) \<Longrightarrow>
   fst (bridgedDomainAssociateWithIfs k (Some ptr) ifs s) = Inr ()
   \<and> (\<exists>bd. capturedOnly s (snd (bridgedDomainAssociateWithIfs k (Some ptr) ifs s)) k (ResBridgeDomain bd))"
  by (simp add: bridgedDomainAssociateWithIfs_def Let_def reconcileBridgeDomain_def reconcileCapture_def
      capturedOnly_def)

lemma createXConnect_any_mode:
  "(case createXConnect k rx tx s of
      (r, s') \<Rightarrow>
        (if r = Inr ()
         then putToStoreOnly s s'
                (TxnPut k (ResXConnect \<lparr>xc_ReceiveInterface = rx, xc_TransmitInterface = tx\<rparr>))
         else r = Inl StoreError \<and> storeRequestFailed s s'))"
  by (simp add: createXConnect_def Let_def kvPut_def kvRequest_def putToStoreOnly_def
      storeRequestFailed_def split: list.splits bool.splits)

lemma createL2FibEntry_any_mode:
  "(case createL2FibEntry k bdn mac oif s of
      (r, s') \<Rightarrow>
        (case r of
           Inr l2fib \<Rightarrow> putToStoreOnly s s' (TxnPut k (ResFib l2fib))
         | Inl err \<Rightarrow> err = StoreError \<and> storeRequestFailed s s'))"
  by (simp add: createL2FibEntry_def Let_def kvPut_def kvRequest_def putToStoreOnly_def
      storeRequestFailed_def split: list.splits bool.splits)

lemma createStaticArpEntry_any_mode:
  "(case createStaticArpEntry k ip mac oif s of
      (r, s') \<Rightarrow>
        (case r of
           Inr ae \<Rightarrow> putToStoreOnly s s' (DbPut (ArpEntryKey k oif ip) ae)
         | Inl err \<Rightarrow> err = StoreError \<and> storeRequestFailed s s'))"
  by (simp add: createStaticArpEntry_def Let_def kvPut_def kvRequest_def putToStoreOnly_def
      storeRequestFailed_def split: list.splits bool.splits)


text \<open>
  C2, as amended. While \<open>reconcileInProgress\<close> is set, the creation of an interface
  (VXLAN tunnel, memif, ethernet, af-packet, loopback), of a linux veth interface, of a
  static route and of a bridge domain, and the association of interfaces with a bridge
  domain, succeed without a request to the store and append the resource to the "after"
  buffer under its switch key. Cross-connects, L2-FIB entries and static ARP entries are
  put to the store in either mode (or fail with the store) and are never captured.
\<close>

theorem C2_reconcile_captures_buffered_kinds:
  "(reconcileInProgress s \<longrightarrow>
      (\<exists>iface. fst (vxLanCreate k n vni src dst s) = Inr iface
         \<and> capturedOnly s (snd (vxLanCreate k n vni src dst s)) k (ResInterface iface))
    \<and> (\<exists>iface. fst (memIfCreate k n memifID isMaster c v4 mac v6 mtu rx s) = Inr iface
         \<and> capturedOnly s (snd (memIfCreate k n memifID isMaster c v4 mac v6 mtu rx s)) k
              (ResInterface iface))
    \<and> fst (createEthernet k n v4 mac v6 mtu rx s) = Inr ()
    \<and> (\<exists>iface. capturedOnly s (snd (createEthernet k n v4 mac v6 mtu rx s)) k (ResInterface iface))
    \<and> (\<exists>iface. fst (afPacketCreate k n hostIf v4 mac v6 mtu rx s) = Inr iface
         \<and> capturedOnly s (snd (afPacketCreate k n hostIf v4 mac v6 mtu rx s)) k (ResInterface iface))
    \<and> fst (createLoopback k n mac v4 v6 mtu rx s) = Inr ()
    \<and> (\<exists>iface. capturedOnly s (snd (createLoopback k n mac v4 v6 mtu rx s)) k (ResInterface iface))
    \<and> fst (vEthIfCreate k n hostIf peer c mac v4 v6 mtu s) = Inr ()
    \<and> (\<exists>l. capturedOnly s (snd (vEthIfCreate k n hostIf peer c mac v4 v6 mtu s)) k
              (ResLinuxInterface l))
    \<and> (\<exists>sr. fst (createStaticRoute vrf k descr dst nh oif w p s) = Inr sr
         \<and> capturedOnly s (snd (createStaticRoute vrf k descr dst nh oif w p s)) k (ResStaticRoute sr))
    \<and> (\<exists>ptr bd. fst (bridgedDomainCreateWithIfs k n ifs (Some parms) s) = Inr ptr
         \<and> capturedOnly s (snd (bridgedDomainCreateWithIfs k n ifs (Some parms) s)) k
              (ResBridgeDomain bd)
         \<and> bd_Interfaces bd = ifs)
    \<and> (bdPtr < length (bdHeap s) \<longrightarrow>
         fst (bridgedDomainAssociateWithIfs k (Some bdPtr) ifs s) = Inr ()
       \<and> (\<exists>bd. capturedOnly s (snd (bridgedDomainAssociateWithIfs k (Some bdPtr) ifs s)) k
              (ResBridgeDomain bd))))
   \<and> (case createXConnect k rxIf txIf s of
        (r, s') \<Rightarrow>
          (if r = Inr ()
           then putToStoreOnly s s'
                  (TxnPut k (ResXConnect \<lparr>xc_ReceiveInterface = rxIf, xc_TransmitInterface = txIf\<rparr>))
           else r = Inl StoreError \<and> storeRequestFailed s s'))
   \<and> (case createL2FibEntry k bdName mac oif s of
        (r, s') \<Rightarrow>
          (case r of
             Inr l2fib \<Rightarrow> putToStoreOnly s s' (TxnPut k (ResFib l2fib))
           | Inl err \<Rightarrow> err = StoreError \<and> storeRequestFailed s s'))
   \<and> (case createStaticArpEntry k dst mac oif s of
        (r, s') \<Rightarrow>
          (case r of
             Inr ae \<Rightarrow> putToStoreOnly s s' (DbPut (ArpEntryKey k oif dst) ae)
           | Inl err \<Rightarrow> err = StoreError \<and> storeRequestFailed s s'))"
  using vxLanCreate_reconcile [of s k n vni src dst]
    memIfCreate_reconcile [of s k n memifID isMaster c v4 mac v6 mtu rx]
    createEthernet_reconcile [of s k n v4 mac v6 mtu rx]
    afPacketCreate_reconcile [of s k n hostIf v4 mac v6 mtu rx]
    createLoopback_reconcile [of s k n mac v4 v6 mtu rx]
    vEthIfCreate_reconcile [of s k n hostIf peer c mac v4 v6 mtu]
    createStaticRoute_reconcile [of s vrf k descr dst nh oif w p]
    bridgedDomainCreateWithIfs_reconcile [of s k n ifs parms]
    bridgedDomainAssociateWithIfs_reconcile [of s bdPtr k ifs]
    createXConnect_any_mode [where k = k and rx = rxIf and tx = txIf and s = s]
    createL2FibEntry_any_mode [where k = k and bdn = bdName and mac = mac and oif = oif and s = s]
    createStaticArpEntry_any_mode [where k = k and ip = dst and mac = mac and oif = oif and s = s]
  by blast

theorem C2_reconcile_captures_buffered_kinds_witness:
  "reconcileInProgress reconcilingDriver
   \<and> kv_puts (db (snd (vxLanCreate ''h1'' ''IF_VXLAN_H2H_h1_h2'' 6000 ''10.0.20.1/24''
                        ''10.0.20.2/24'' reconcilingDriver))) = []
   \<and> map fst (rc_resources (reconcileAfter (snd (vxLanCreate ''h1'' ''IF_VXLAN_H2H_h1_h2'' 6000
                        ''10.0.20.1/24'' ''10.0.20.2/24'' reconcilingDriver)))) = [''h1'']
   \<and> kv_puts (db (snd (createXConnect ''h1'' ''IF_A'' ''IF_B'' reconcilingDriver)))
       = [TxnPut ''h1'' (ResXConnect \<lparr>xc_ReceiveInterface = ''IF_A'', xc_TransmitInterface = ''IF_B''\<rparr>)]"
  using C2_reconcile_captures_buffered_kinds [where s = reconcilingDriver and k = "''h1''"
      and n = "''IF_VXLAN_H2H_h1_h2''" and vni = 6000 and src = "''10.0.20.1/24''"
      and dst = "''10.0.20.2/24''" and rxIf = "''IF_A''" and txIf = "''IF_B''"]
  by (simp add: reconcilingDriver_def newDriver_def NewSfcCtlrL2CNPDriver_def
      vxLanCreate_def reconcileInterface_def reconcileCapture_def
      createXConnect_def Let_def kvPut_def kvRequest_def)

text \<open>
  C2 as stated fails: in reconcile mode a cross-connect, an L2-FIB entry and a static
  ARP entry each go to the store, and the "after" buffer stays empty.
\<close>

theorem C2_unbuffered_kinds_counterexample:
  "reconcileInProgress reconcilingDriver
   \<and> kv_puts (db (snd (createXConnect ''vswitch1'' ''IF_A'' ''IF_B'' reconcilingDriver)))
       = [TxnPut ''vswitch1''
            (ResXConnect \<lparr>xc_ReceiveInterface = ''IF_A'', xc_TransmitInterface = ''IF_B''\<rparr>)]
   \<and> rc_resources (reconcileAfter (snd (createXConnect ''vswitch1'' ''IF_A'' ''IF_B''
                                          reconcilingDriver))) = []
   \<and> kv_puts (db (snd (createL2FibEntry ''vswitch1'' ''BD_INTERNAL_EW_L2FIB_vswitch1''
                        ''02:00:00:00:00:01'' ''IF_A'' reconcilingDriver)))
       = [TxnPut ''vswitch1''
            (ResFib \<lparr>fib_BridgeDomain = ''BD_INTERNAL_EW_L2FIB_vswitch1'',
                     fib_PhysAddress = ''02:00:00:00:00:01'', fib_Action = FORWARD,
                     fib_OutgoingInterface = ''IF_A'', fib_StaticConfig = True\<rparr>)]
   \<and> rc_resources (reconcileAfter (snd (createL2FibEntry ''vswitch1''
        ''BD_INTERNAL_EW_L2FIB_vswitch1'' ''02:00:00:00:00:01'' ''IF_A'' reconcilingDriver))) = []
   \<and> kv_puts (db (snd (createStaticArpEntry ''vswitch1'' ''10.0.1.1'' ''02:00:00:00:00:01''
                        ''IF_A'' reconcilingDriver)))
       = [DbPut (ArpEntryKey ''vswitch1'' ''IF_A'' ''10.0.1.1'')
            \<lparr>arp_Interface = ''IF_A'', arp_Static = True, arp_IpAddress = ''10.0.1.1'',
             arp_PhysAddress = ''02:00:00:00:00:01''\<rparr>]
   \<and> rc_resources (reconcileAfter (snd (createStaticArpEntry ''vswitch1'' ''10.0.1.1''
        ''02:00:00:00:00:01'' ''IF_A'' reconcilingDriver))) = []"
  by (simp add: reconcilingDriver_def newDriver_def NewSfcCtlrL2CNPDriver_def
      createXConnect_def createL2FibEntry_def createStaticArpEntry_def Let_def kvPut_def kvRequest_def)


subsection \<open>The call to the external-entity driver\<close>

lemmas store_defs = kvPut_def kvRequest_def reconcileCapture_def reconcileInterface_def
  reconcileBridgeDomain_def reconcileStaticRoute_def reconcileLinuxInterface_def

lemma vxLanCreate_frame:
  "vxLanCreate k n vni src dst s = (r, s') \<Longrightarrow>
   l2CNPEntityCache s' = l2CNPEntityCache s \<and> l2CNPStateCache s' = l2CNPStateCache s
   \<and> extEntityCalls s' = extEntityCalls s \<and> seq s' = seq s \<and> bdHeap s' = bdHeap s
   \<and> reconcileInProgress s' = reconcileInProgress s"
  by (auto simp: vxLanCreate_def Let_def store_defs split: if_splits list.splits bool.splits)

lemma createStaticRoute_frame:
  "createStaticRoute vrf k d dst nh oif w p s = (r, s') \<Longrightarrow>
   l2CNPEntityCache s' = l2CNPEntityCache s \<and> l2CNPStateCache s' = l2CNPStateCache s
   \<and> extEntityCalls s' = extEntityCalls s \<and> seq s' = seq s \<and> bdHeap s' = bdHeap s
   \<and> reconcileInProgress s' = reconcileInProgress s"
  by (auto simp: createStaticRoute_def Let_def store_defs split: if_splits list.splits bool.splits)

lemma bridgedDomainCreateWithIfs_frame:
  "bridgedDomainCreateWithIfs k n ifs parms s = (r, s') \<Longrightarrow>
   l2CNPEntityCache s' = l2CNPEntityCache s \<and> l2CNPStateCache s' = l2CNPStateCache s
   \<and> extEntityCalls s' = extEntityCalls s \<and> seq s' = seq s
   \<and> reconcileInProgress s' = reconcileInProgress s"
  by (auto simp: bridgedDomainCreateWithIfs_def Let_def store_defs
      split: if_splits list.splits bool.splits option.splits)

lemma DatastoreHE2EEIDsCreate_frame:
  "DatastoreHE2EEIDsCreate h e v s = (r, s') \<Longrightarrow>
   l2CNPEntityCache s' = l2CNPEntityCache s \<and> l2CNPStateCache s' = l2CNPStateCache s
   \<and> extEntityCalls s' = extEntityCalls s \<and> seq s' = seq s \<and> bdHeap s' = bdHeap s
   \<and> reconcileInProgress s' = reconcileInProgress s"
  by (auto simp: DatastoreHE2EEIDsCreate_def Let_def store_defs split: if_splits list.splits bool.splits)


lemma vxLanCreate_snd [simp]:
  "l2CNPEntityCache (snd (vxLanCreate k n vni src dst s)) = l2CNPEntityCache s"
  "l2CNPStateCache (snd (vxLanCreate k n vni src dst s)) = l2CNPStateCache s"
  "extEntityCalls (snd (vxLanCreate k n vni src dst s)) = extEntityCalls s"
  "seq (snd (vxLanCreate k n vni src dst s)) = seq s"
  "bdHeap (snd (vxLanCreate k n vni src dst s)) = bdHeap s"
  "reconcileInProgress (snd (vxLanCreate k n vni src dst s)) = reconcileInProgress s"
  using vxLanCreate_frame [OF surjective_pairing, of k n vni src dst s] by simp_all

lemma createStaticRoute_snd [simp]:
  "l2CNPEntityCache (snd (createStaticRoute vrf k d dst nh oif w p s)) = l2CNPEntityCache s"
  "l2CNPStateCache (snd (createStaticRoute vrf k d dst nh oif w p s)) = l2CNPStateCache s"
  "extEntityCalls (snd (createStaticRoute vrf k d dst nh oif w p s)) = extEntityCalls s"
  "seq (snd (createStaticRoute vrf k d dst nh oif w p s)) = seq s"
  "bdHeap (snd (createStaticRoute vrf k d dst nh oif w p s)) = bdHeap s"
  "reconcileInProgress (snd (createStaticRoute vrf k d dst nh oif w p s)) = reconcileInProgress s"
  using createStaticRoute_frame [OF surjective_pairing, of vrf k d dst nh oif w p s] by simp_all

lemma bridgedDomainCreateWithIfs_snd [simp]:
  "l2CNPEntityCache (snd (bridgedDomainCreateWithIfs k n ifs parms s)) = l2CNPEntityCache s"
  "l2CNPStateCache (snd (bridgedDomainCreateWithIfs k n ifs parms s)) = l2CNPStateCache s"
  "extEntityCalls (snd (bridgedDomainCreateWithIfs k n ifs parms s)) = extEntityCalls s"
  "seq (snd (bridgedDomainCreateWithIfs k n ifs parms s)) = seq s"
  "reconcileInProgress (snd (bridgedDomainCreateWithIfs k n ifs parms s)) = reconcileInProgress s"
  using bridgedDomainCreateWithIfs_frame [OF surjective_pairing, of k n ifs parms s] by simp_all

lemma DatastoreHE2EEIDsCreate_snd [simp]:
  "l2CNPEntityCache (snd (DatastoreHE2EEIDsCreate h e v s)) = l2CNPEntityCache s"
  "l2CNPStateCache (snd (DatastoreHE2EEIDsCreate h e v s)) = l2CNPStateCache s"
  "extEntityCalls (snd (DatastoreHE2EEIDsCreate h e v s)) = extEntityCalls s"
  "seq (snd (DatastoreHE2EEIDsCreate h e v s)) = seq s"
  "bdHeap (snd (DatastoreHE2EEIDsCreate h e v s)) = bdHeap s"
  "reconcileInProgress (snd (DatastoreHE2EEIDsCreate h e v s)) = reconcileInProgress s"
  using DatastoreHE2EEIDsCreate_frame [OF surjective_pairing, of h e v s] by simp_all

lemma setHEToEEState_simps [simp]:
  "l2CNPEntityCache (setHEToEEState h e st s) = l2CNPEntityCache s"
  "extEntityCalls (setHEToEEState h e st s) = extEntityCalls s"
  "seq (setHEToEEState h e st s) = seq s"
  "bdHeap (setHEToEEState h e st s) = bdHeap s"
  "db (setHEToEEState h e st s) = db s"
  "reconcileAfter (setHEToEEState h e st s) = reconcileAfter s"
  "reconcileInProgress (setHEToEEState h e st s) = reconcileInProgress s"
  "getHEToEEState h e (setHEToEEState h e st s) = Some st"
  by (simp_all add: setHEToEEState_def getHEToEEState_def Let_def)

lemma nextVLanID_simps [simp]:
  "l2CNPEntityCache (snd (nextVLanID s)) = l2CNPEntityCache s"
  "l2CNPStateCache (snd (nextVLanID s)) = l2CNPStateCache s"
  "extEntityCalls (snd (nextVLanID s)) = extEntityCalls s"
  "bdHeap (snd (nextVLanID s)) = bdHeap s"
  "db (snd (nextVLanID s)) = db s"
  "reconcileInProgress (snd (nextVLanID s)) = reconcileInProgress s"
  by (simp_all add: nextVLanID_def)

lemma vlanIDOrAllocate_simps [simp]:
  "l2CNPEntityCache (snd (vlanIDOrAllocate v p s)) = l2CNPEntityCache s"
  "l2CNPStateCache (snd (vlanIDOrAllocate v p s)) = l2CNPStateCache s"
  "extEntityCalls (snd (vlanIDOrAllocate v p s)) = extEntityCalls s"
  "bdHeap (snd (vlanIDOrAllocate v p s)) = bdHeap s"
  "db (snd (vlanIDOrAllocate v p s)) = db s"
  "reconcileAfter (snd (vlanIDOrAllocate v p s)) = reconcileAfter s"
  "reconcileInProgress (snd (vlanIDOrAllocate v p s)) = reconcileInProgress s"
  by (simp_all add: vlanIDOrAllocate_def nextVLanID_def split: option.splits)

lemma vlanIf_block_calls:
  "extEntityCalls (snd (createVxLANAndBridgeToExtEntity_vlanIf h e v st s)) = extEntityCalls s"
  by (simp add: createVxLANAndBridgeToExtEntity_vlanIf_def Let_def case_prod_beta
      split: sum.splits option.splits)


lemma vlanIf_block_entity:
  "l2CNPEntityCache (snd (createVxLANAndBridgeToExtEntity_vlanIf h e v st s)) = l2CNPEntityCache s"
  by (simp add: createVxLANAndBridgeToExtEntity_vlanIf_def Let_def case_prod_beta
      split: sum.splits option.splits)

lemma vlanIf_block_result:
  "fst (createVxLANAndBridgeToExtEntity_vlanIf h e v st s) = Inr st' \<Longrightarrow>
   heToEE_bd st' = heToEE_bd st \<and> heToEE_l3Route st' = heToEE_l3Route st
   \<and> getHEToEEState h e (snd (createVxLANAndBridgeToExtEntity_vlanIf h e v st s)) = Some st'"
  by (auto simp add: createVxLANAndBridgeToExtEntity_vlanIf_def Let_def case_prod_beta
      getHEToEEState_def setHEToEEState_def
      split: sum.splits option.splits if_splits)

lemma l3Route_block_calls:
  "extEntityCalls (snd (createVxLANAndBridgeToExtEntity_l3Route h e st s)) = extEntityCalls s"
  by (simp add: createVxLANAndBridgeToExtEntity_l3Route_def Let_def case_prod_beta
      split: sum.splits option.splits)

lemma l3Route_block_entity:
  "l2CNPEntityCache (snd (createVxLANAndBridgeToExtEntity_l3Route h e st s)) = l2CNPEntityCache s"
  by (simp add: createVxLANAndBridgeToExtEntity_l3Route_def Let_def case_prod_beta
      split: sum.splits option.splits)

lemma l3Route_block_result:
  "fst (createVxLANAndBridgeToExtEntity_l3Route h e st s) = Inr st' \<Longrightarrow>
   getHEToEEState h e s = Some st \<Longrightarrow>
   heToEE_bd st' = heToEE_bd st \<and> heToEE_vlanIf st' = heToEE_vlanIf st
   \<and> getHEToEEState h e (snd (createVxLANAndBridgeToExtEntity_l3Route h e st s)) = Some st'"
  by (auto simp add: createVxLANAndBridgeToExtEntity_l3Route_def Let_def case_prod_beta
      getHEToEEState_def setHEToEEState_def
      split: sum.splits option.splits if_splits)

lemma wireEE_state:
  "l2CNPStateCache (snd (wireExternalEntityToHostEntity ee he s)) = l2CNPStateCache s"
  by (simp add: wireExternalEntityToHostEntity_def Let_def case_prod_beta
      split: sum.splits option.splits)

lemma wireEE_calls:
  "extEntityCalls (snd (wireExternalEntityToHostEntity ee he s)) = extEntityCalls s
   \<or> (\<exists>sr vni. extEntityCalls (snd (wireExternalEntityToHostEntity ee he s))
         = extEntityCalls s @ [SfcCtlrL2WireExternalEntityToHostEntity ee he vni sr]
       \<and> heToEEVni (getHEToEEState (he_Name he) (ee_Name ee) s) = Some vni
       \<and> fst (wireExternalEntityToHostEntity ee he s) = Inr ())"
  by (simp add: wireExternalEntityToHostEntity_def Let_def case_prod_beta heToEEVni_def
      getHEToEEState_def split: sum.splits option.splits)


lemma wireEE_entity:
  "l2CNPEntityCache (snd (wireExternalEntityToHostEntity ee he s)) = l2CNPEntityCache s"
  by (simp add: wireExternalEntityToHostEntity_def Let_def case_prod_beta
      split: sum.splits option.splits)

lemma getHEToEEState_cong:
  "l2CNPStateCache s' = l2CNPStateCache s \<Longrightarrow> getHEToEEState a b s' = getHEToEEState a b s"
  by (simp add: getHEToEEState_def)

lemma bd_block_calls:
  "extEntityCalls (snd (createVxLANAndBridgeToExtEntity_bd h e st s)) = extEntityCalls s
   \<or> (\<exists>sr vni bd.
         extEntityCalls (snd (createVxLANAndBridgeToExtEntity_bd h e st s))
           = extEntityCalls s @ [SfcCtlrL2WireExternalEntityToHostEntity (lookupEE s e) (lookupHE s h) vni sr]
       \<and> fst (createVxLANAndBridgeToExtEntity_bd h e st s) = Inr (st\<lparr>heToEE_bd := Some bd\<rparr>)
       \<and> getHEToEEState h e (snd (createVxLANAndBridgeToExtEntity_bd h e st s))
           = Some (st\<lparr>heToEE_bd := Some bd\<rparr>)
       \<and> heToEEVni (getHEToEEState (he_Name (lookupHE s h)) (ee_Name (lookupEE s e))
            (snd (createVxLANAndBridgeToExtEntity_bd h e st s))) = Some vni)"
proof (cases "heToEE_vlanIf st")
  case None
  then show ?thesis by (simp add: createVxLANAndBridgeToExtEntity_bd_def Let_def)
next
  case (Some vlanIf)
  define b where "b = bridgedDomainCreateWithIfs (he_Name (lookupHE s h))
      (''BD_H2E_'' @ he_Name (lookupHE s h) @ ''_'' @ ee_Name (lookupEE s e))
      [BDInterface (if_Name vlanIf)] (sp_DynamicBridgeParms (SysParms (l2CNPEntityCache s))) s"
  show ?thesis
  proof (cases "fst b")
    case (Inl err)
    then show ?thesis
      using Some by (simp add: createVxLANAndBridgeToExtEntity_bd_def Let_def case_prod_beta b_def)
  next
    case (Inr bd)
    define st' where "st' = st\<lparr>heToEE_bd := Some bd\<rparr>"
    define s2 where "s2 = setHEToEEState h e st' (snd b)"
    define w where "w = wireExternalEntityToHostEntity (lookupEE s e) (lookupHE s h) s2"
    have c2: "extEntityCalls s2 = extEntityCalls s" by (simp add: s2_def b_def)
    have slot: "getHEToEEState h e (snd w) = Some st'"
      using getHEToEEState_cong [OF wireEE_state, of h e "lookupEE s e" "lookupHE s h" s2]
      by (simp add: w_def s2_def)
    have any: "\<And>a c. getHEToEEState a c (snd w) = getHEToEEState a c s2"
      unfolding w_def by (rule getHEToEEState_cong [OF wireEE_state])
    have r: "createVxLANAndBridgeToExtEntity_bd h e st s
       = (case w of (Inl err, s3) \<Rightarrow> (if isPanic err then (Inl err, s3) else (Inr st', s3))
                  | (Inr _, s3) \<Rightarrow> (Inr st', s3))"
      using Some Inr
      by (simp add: createVxLANAndBridgeToExtEntity_bd_def Let_def case_prod_beta b_def
          st'_def s2_def w_def split: sum.splits)
    have sw: "snd (createVxLANAndBridgeToExtEntity_bd h e st s) = snd w"
      unfolding r by (simp add: case_prod_beta split: sum.splits)
    from wireEE_calls [of "lookupEE s e" "lookupHE s h" s2]
    show ?thesis
    proof
      assume "extEntityCalls (snd (wireExternalEntityToHostEntity (lookupEE s e) (lookupHE s h) s2))
                = extEntityCalls s2"
      then show ?thesis unfolding sw w_def using c2 by simp
    next
      assume "\<exists>sr vni. extEntityCalls (snd (wireExternalEntityToHostEntity (lookupEE s e) (lookupHE s h) s2))
         = extEntityCalls s2 @ [SfcCtlrL2WireExternalEntityToHostEntity (lookupEE s e) (lookupHE s h) vni sr]
       \<and> heToEEVni (getHEToEEState (he_Name (lookupHE s h)) (ee_Name (lookupEE s e)) s2) = Some vni
       \<and> fst (wireExternalEntityToHostEntity (lookupEE s e) (lookupHE s h) s2) = Inr ()"
      then obtain sr vni where
        c: "extEntityCalls (snd w)
             = extEntityCalls s @ [SfcCtlrL2WireExternalEntityToHostEntity (lookupEE s e) (lookupHE s h) vni sr]"
        and v: "heToEEVni (getHEToEEState (he_Name (lookupHE s h)) (ee_Name (lookupEE s e)) s2) = Some vni"
        and ok: "fst w = Inr ()"
        unfolding w_def [symmetric] c2 by blast
      have f: "fst (createVxLANAndBridgeToExtEntity_bd h e st s) = Inr st'"
        unfolding r using ok by (simp add: case_prod_beta)
      show ?thesis
        unfolding sw using c v f slot any by (auto simp: st'_def)
    qed
  qed
qed


lemma lookup_cong:
  "l2CNPEntityCache s' = l2CNPEntityCache s \<Longrightarrow> lookupHE s' k = lookupHE s k"
  "l2CNPEntityCache s' = l2CNPEntityCache s \<Longrightarrow> lookupEE s' k = lookupEE s k"
  by (simp_all add: lookupHE_def lookupEE_def)

lemma createVxLANAndBridgeToExtEntity_no_slot:
  "getHEToEEState h e s = None \<Longrightarrow>
   isl (fst (createVxLANAndBridgeToExtEntity sfc h e v s))
   \<and> snd (createVxLANAndBridgeToExtEntity sfc h e v s) = s"
proof (cases "HEToEEs (l2CNPStateCache s) h")
  case None
  then show ?thesis by (simp add: createVxLANAndBridgeToExtEntity_def)
next
  case (Some m)
  assume "getHEToEEState h e s = None"
  with Some have "m e = None" by (simp add: getHEToEEState_def)
  with Some show ?thesis by (simp add: createVxLANAndBridgeToExtEntity_def)
qed

lemma createVxLANAndBridgeToExtEntity_calls:
  assumes slot: "getHEToEEState h e s = Some st0"
  shows "extEntityCalls (snd (createVxLANAndBridgeToExtEntity sfc h e v s)) = extEntityCalls s
   \<or> (\<exists>sr vni bd st3.
         extEntityCalls (snd (createVxLANAndBridgeToExtEntity sfc h e v s))
           = extEntityCalls s @ [SfcCtlrL2WireExternalEntityToHostEntity (lookupEE s e) (lookupHE s h) vni sr]
       \<and> heToEE_bd st0 = None
       \<and> fst (createVxLANAndBridgeToExtEntity sfc h e v s) = Inr (Some bd)
       \<and> getHEToEEState h e (snd (createVxLANAndBridgeToExtEntity sfc h e v s)) = Some st3
       \<and> heToEE_bd st3 = Some bd
       \<and> heToEEVni (getHEToEEState (he_Name (lookupHE s h)) (ee_Name (lookupEE s e))
            (snd (createVxLANAndBridgeToExtEntity sfc h e v s))) = Some vni)"
proof -
  define b1 where "b1 = (if heToEE_vlanIf st0 = None
      then createVxLANAndBridgeToExtEntity_vlanIf h e v st0 s else (Inr st0, s))"
  have c1: "extEntityCalls (snd b1) = extEntityCalls s"
    and e1: "l2CNPEntityCache (snd b1) = l2CNPEntityCache s"
    by (simp_all add: b1_def vlanIf_block_calls vlanIf_block_entity)
  have u: "createVxLANAndBridgeToExtEntity sfc h e v s =
     (case b1 of
        (Inl err, s1) \<Rightarrow> (Inl err, s1)
      | (Inr st1, s1) \<Rightarrow>
         (case (if heToEE_l3Route st1 = None
                then createVxLANAndBridgeToExtEntity_l3Route h e st1 s1 else (Inr st1, s1)) of
            (Inl err, s2) \<Rightarrow> (Inl err, s2)
          | (Inr st2, s2) \<Rightarrow>
             (case (if heToEE_bd st2 = None
                    then createVxLANAndBridgeToExtEntity_bd h e st2 s2 else (Inr st2, s2)) of
                (Inl err, s3) \<Rightarrow> (Inl err, s3)
              | (Inr st3, s3) \<Rightarrow> (Inr (heToEE_bd st3), s3))))"
  proof -
    from slot obtain m where m: "HEToEEs (l2CNPStateCache s) h = Some m" "m e = Some st0"
      by (auto simp: getHEToEEState_def split: option.splits)
    show ?thesis
      unfolding createVxLANAndBridgeToExtEntity_def b1_def by (simp only: m option.case)
  qed
  show ?thesis
  proof (cases "fst b1")
    case (Inl err)
    then show ?thesis unfolding u using c1 by (simp add: case_prod_beta)
  next
    case (Inr st1)
    have r1: "heToEE_bd st1 = heToEE_bd st0" and g1: "getHEToEEState h e (snd b1) = Some st1"
      using Inr slot vlanIf_block_result [of h e v st0 s st1]
      by (auto simp: b1_def split: if_splits)
    define b2 where "b2 = (if heToEE_l3Route st1 = None
        then createVxLANAndBridgeToExtEntity_l3Route h e st1 (snd b1) else (Inr st1, snd b1))"
    have c2: "extEntityCalls (snd b2) = extEntityCalls s"
      and e2: "l2CNPEntityCache (snd b2) = l2CNPEntityCache s"
      by (simp_all add: b2_def l3Route_block_calls l3Route_block_entity c1 e1)
    show ?thesis
    proof (cases "fst b2")
      case (Inl err)
      then show ?thesis unfolding u using c2 Inr by (simp add: case_prod_beta b2_def)
    next
      case st2: (Inr st2)
      have r2: "heToEE_bd st2 = heToEE_bd st0" and g2: "getHEToEEState h e (snd b2) = Some st2"
        using st2 g1 r1 l3Route_block_result [of h e st1 "snd b1" st2]
        by (auto simp: b2_def split: if_splits)
      show ?thesis
      proof (cases "heToEE_bd st0")
        case (Some bd0)
        then show ?thesis unfolding u using c2 Inr st2 r2 by (simp add: case_prod_beta b2_def)
      next
        case None
        define b3 where "b3 = createVxLANAndBridgeToExtEntity_bd h e st2 (snd b2)"
        have u3: "createVxLANAndBridgeToExtEntity sfc h e v s =
            (case b3 of (Inl err, s3) \<Rightarrow> (Inl err, s3) | (Inr st3, s3) \<Rightarrow> (Inr (heToEE_bd st3), s3))"
          unfolding u using Inr st2 r2 None by (simp add: case_prod_beta b2_def b3_def)
        have s3: "snd (createVxLANAndBridgeToExtEntity sfc h e v s) = snd b3"
          unfolding u3 by (simp add: case_prod_beta split: sum.splits)
        from bd_block_calls [of h e st2 "snd b2"]
        show ?thesis
        proof
          assume "extEntityCalls (snd (createVxLANAndBridgeToExtEntity_bd h e st2 (snd b2)))
                    = extEntityCalls (snd b2)"
          then show ?thesis unfolding s3 b3_def using c2 by simp
        next
          assume "\<exists>sr vni bd.
             extEntityCalls (snd (createVxLANAndBridgeToExtEntity_bd h e st2 (snd b2)))
               = extEntityCalls (snd b2) @ [SfcCtlrL2WireExternalEntityToHostEntity
                    (lookupEE (snd b2) e) (lookupHE (snd b2) h) vni sr]
           \<and> fst (createVxLANAndBridgeToExtEntity_bd h e st2 (snd b2)) = Inr (st2\<lparr>heToEE_bd := Some bd\<rparr>)
           \<and> getHEToEEState h e (snd (createVxLANAndBridgeToExtEntity_bd h e st2 (snd b2)))
               = Some (st2\<lparr>heToEE_bd := Some bd\<rparr>)
           \<and> heToEEVni (getHEToEEState (he_Name (lookupHE (snd b2) h)) (ee_Name (lookupEE (snd b2) e))
                (snd (createVxLANAndBridgeToExtEntity_bd h e st2 (snd b2)))) = Some vni"
          then obtain sr vni bd where
            a: "extEntityCalls (snd b3) = extEntityCalls s @
                  [SfcCtlrL2WireExternalEntityToHostEntity (lookupEE s e) (lookupHE s h) vni sr]"
            and f: "fst b3 = Inr (st2\<lparr>heToEE_bd := Some bd\<rparr>)"
            and g: "getHEToEEState h e (snd b3) = Some (st2\<lparr>heToEE_bd := Some bd\<rparr>)"
            and n: "heToEEVni (getHEToEEState (he_Name (lookupHE s h)) (ee_Name (lookupEE s e)) (snd b3))
                      = Some vni"
            unfolding b3_def [symmetric] lookup_cong [OF e2] c2 by blast
          have "fst (createVxLANAndBridgeToExtEntity sfc h e v s) = Inr (Some bd)"
            unfolding u3 using f by (simp add: case_prod_beta)
          then show ?thesis unfolding s3 using a g n None by auto
        qed
      qed
    qed
  qed
qed


lemma no_fault_ops:
  assumes "kv_faults (db s) = []"
  shows "kv_faults (db (snd (vxLanCreate k n vni src dst s))) = []"
    and "fst (vxLanCreate k n vni src dst s)
           = Inr \<lparr>if_Name = n, if_Type = VXLAN_TUNNEL, if_Enabled = True,
                    if_PhysAddress = [], if_Mtu = 0, if_IpAddresses = [],
                    if_RxModeSettings = None,
                    if_Vxlan = Some \<lparr>vx_SrcAddress = stripSlashAndSubnetIpv4Address src,
                      vx_DstAddress = stripSlashAndSubnetIpv4Address dst, vx_Vni = vni\<rparr>,
                    if_Memif = None, if_Afpacket = None\<rparr>"
    and "kv_faults (db (snd (createStaticRoute vrf k d dst nh oif w p s))) = []"
    and "fst (createStaticRoute vrf k d dst nh oif w p s)
           = Inr \<lparr>sr_VrfId = vrf, sr_Description = d, sr_DstIpAddr = dst,
                 sr_NextHopAddr = stripSlashAndSubnetIpv4Address nh,
                 sr_Weight = w, sr_OutgoingInterface = oif, sr_Preference = p\<rparr>"
    and "kv_faults (db (snd (bridgedDomainCreateWithIfs k n ifs (Some parms) s))) = []"
    and "fst (bridgedDomainCreateWithIfs k n ifs (Some parms) s) = Inr (length (bdHeap s))"
    and "kv_faults (db (snd (DatastoreHE2EEIDsCreate h e v s))) = []"
  using assms
  by (simp_all add: vxLanCreate_def createStaticRoute_def bridgedDomainCreateWithIfs_def
      DatastoreHE2EEIDsCreate_def Let_def store_defs)

lemma vlanIf_block_ok:
  assumes nf: "kv_faults (db s) = []" and hv: "ee_HostVxlan (lookupEE s e) \<noteq> None"
  shows "\<exists>st'. fst (createVxLANAndBridgeToExtEntity_vlanIf h e v st s) = Inr st'
          \<and> heToEEVni (Some st') \<noteq> None
          \<and> kv_faults (db (snd (createVxLANAndBridgeToExtEntity_vlanIf h e v st s))) = []"
proof -
  obtain hostVxlan where x: "ee_HostVxlan (lookupEE s e) = Some hostVxlan" using hv by auto
  show ?thesis
    using x nf
    by (simp add: createVxLANAndBridgeToExtEntity_vlanIf_def Let_def case_prod_beta no_fault_ops
        heToEEVni_def split: sum.splits)
qed

lemma l3Route_block_ok:
  assumes nf: "kv_faults (db s) = []" and hv: "ee_HostVxlan (lookupEE s e) \<noteq> None"
    and hi: "ee_HostInterface (lookupEE s e) \<noteq> None"
  shows "\<exists>st'. fst (createVxLANAndBridgeToExtEntity_l3Route h e st s) = Inr st'
          \<and> kv_faults (db (snd (createVxLANAndBridgeToExtEntity_l3Route h e st s))) = []"
proof -
  obtain hostVxlan hostInterface where x: "ee_HostVxlan (lookupEE s e) = Some hostVxlan"
    "ee_HostInterface (lookupEE s e) = Some hostInterface" using hv hi by auto
  show ?thesis
    using x nf
    by (simp add: createVxLANAndBridgeToExtEntity_l3Route_def Let_def case_prod_beta no_fault_ops)
qed

lemma wireEE_emits:
  assumes nf: "kv_faults (db s) = []"
    and slot: "getHEToEEState (he_Name he) (ee_Name ee) s = Some st"
    and vx: "heToEEVni (Some st) = Some vni"
    and hi: "ee_HostInterface ee \<noteq> None"
  shows "\<exists>sr. extEntityCalls (snd (wireExternalEntityToHostEntity ee he s))
           = extEntityCalls s @ [SfcCtlrL2WireExternalEntityToHostEntity ee he vni sr]"
proof -
  obtain hostInterface where x: "ee_HostInterface ee = Some hostInterface" using hi by auto
  from slot obtain m where m: "HEToEEs (l2CNPStateCache s) (he_Name he) = Some m" "m (ee_Name ee) = Some st"
    by (auto simp: getHEToEEState_def split: option.splits)
  from vx obtain iface vxlan where v: "heToEE_vlanIf st = Some iface" "if_Vxlan iface = Some vxlan"
    "vx_Vni vxlan = vni"
    by (auto simp: heToEEVni_def split: option.splits)
  show ?thesis
    using x m v nf
    by (simp add: wireExternalEntityToHostEntity_def Let_def case_prod_beta no_fault_ops)
qed

lemma bd_block_emits:
  assumes nf: "kv_faults (db s) = []"
    and names: "he_Name (lookupHE s h) = h" "ee_Name (lookupEE s e) = e"
    and vx: "heToEEVni (Some st) = Some vni"
    and hi: "ee_HostInterface (lookupEE s e) \<noteq> None"
    and parms: "sp_DynamicBridgeParms (SysParms (l2CNPEntityCache s)) \<noteq> None"
  shows "\<exists>sr. extEntityCalls (snd (createVxLANAndBridgeToExtEntity_bd h e st s))
           = extEntityCalls s @ [SfcCtlrL2WireExternalEntityToHostEntity (lookupEE s e) (lookupHE s h) vni sr]"
proof -
  obtain p where p: "sp_DynamicBridgeParms (SysParms (l2CNPEntityCache s)) = Some p"
    using parms by auto
  from vx obtain iface where vi: "heToEE_vlanIf st = Some iface"
    by (auto simp: heToEEVni_def split: option.splits)
  define b where "b = bridgedDomainCreateWithIfs h (''BD_H2E_'' @ h @ ''_'' @ e)
      [BDInterface (if_Name iface)] (Some p) s"
  define s2 where "s2 = setHEToEEState h e (st\<lparr>heToEE_bd := Some (length (bdHeap s))\<rparr>) (snd b)"
  have n2: "kv_faults (db s2) = []" unfolding s2_def b_def using nf by (simp add: no_fault_ops)
  have g2: "getHEToEEState (he_Name (lookupHE s h)) (ee_Name (lookupEE s e)) s2
              = Some (st\<lparr>heToEE_bd := Some (length (bdHeap s))\<rparr>)"
    unfolding names s2_def by simp
  have v2: "heToEEVni (Some (st\<lparr>heToEE_bd := Some (length (bdHeap s))\<rparr>)) = Some vni"
    using vx by (simp add: heToEEVni_def)
  have c2: "extEntityCalls s2 = extEntityCalls s" unfolding s2_def b_def by simp
  from wireEE_emits [OF n2 g2 v2 hi] obtain sr where
    w: "extEntityCalls (snd (wireExternalEntityToHostEntity (lookupEE s e) (lookupHE s h) s2))
          = extEntityCalls s @ [SfcCtlrL2WireExternalEntityToHostEntity (lookupEE s e) (lookupHE s h) vni sr]"
    unfolding c2 by auto
  have "snd (createVxLANAndBridgeToExtEntity_bd h e st s)
          = snd (wireExternalEntityToHostEntity (lookupEE s e) (lookupHE s h) s2)"
    using vi p nf names
    by (simp add: createVxLANAndBridgeToExtEntity_bd_def Let_def case_prod_beta no_fault_ops
        s2_def b_def split: sum.splits)
  with w show ?thesis by auto
qed


lemma createVxLANAndBridgeToExtEntity_emits:
  assumes slot: "getHEToEEState h e s = Some st0" and nobd: "heToEE_bd st0 = None"
    and nf: "kv_faults (db s) = []"
    and names: "he_Name (lookupHE s h) = h" "ee_Name (lookupEE s e) = e"
    and hv: "ee_HostVxlan (lookupEE s e) \<noteq> None"
    and hi: "ee_HostInterface (lookupEE s e) \<noteq> None"
    and parms: "sp_DynamicBridgeParms (SysParms (l2CNPEntityCache s)) \<noteq> None"
    and tunnel: "heToEE_vlanIf st0 \<noteq> None \<longrightarrow> heToEEVni (Some st0) \<noteq> None"
  shows "\<exists>sr vni. extEntityCalls (snd (createVxLANAndBridgeToExtEntity sfc h e v s))
           = extEntityCalls s @ [SfcCtlrL2WireExternalEntityToHostEntity (lookupEE s e) (lookupHE s h) vni sr]
         \<and> (heToEE_vlanIf st0 \<noteq> None \<longrightarrow> heToEEVni (Some st0) = Some vni)"
proof -
  define b1 where "b1 = (if heToEE_vlanIf st0 = None
      then createVxLANAndBridgeToExtEntity_vlanIf h e v st0 s else (Inr st0, s))"
  have e1: "l2CNPEntityCache (snd b1) = l2CNPEntityCache s"
    by (simp add: b1_def vlanIf_block_entity)
  have c1: "extEntityCalls (snd b1) = extEntityCalls s"
    by (simp add: b1_def vlanIf_block_calls)
  have "\<exists>st1. fst b1 = Inr st1 \<and> heToEEVni (Some st1) \<noteq> None
          \<and> kv_faults (db (snd b1)) = [] \<and> (heToEE_vlanIf st0 \<noteq> None \<longrightarrow> st1 = st0)"
  proof (cases "heToEE_vlanIf st0")
    case None
    then have "b1 = createVxLANAndBridgeToExtEntity_vlanIf h e v st0 s" by (simp add: b1_def)
    with vlanIf_block_ok [OF nf hv, of h v st0] None show ?thesis by auto
  next
    case (Some iface)
    then have "b1 = (Inr st0, s)" by (simp add: b1_def)
    with tunnel nf Some show ?thesis by simp
  qed
  then obtain st1 where st1: "fst b1 = Inr st1" and v1: "heToEEVni (Some st1) \<noteq> None"
    and n1: "kv_faults (db (snd b1)) = []"
    and k1: "heToEE_vlanIf st0 \<noteq> None \<longrightarrow> st1 = st0"
    by blast
  have r1: "heToEE_bd st1 = None" and g1: "getHEToEEState h e (snd b1) = Some st1"
    using st1 slot nobd vlanIf_block_result [of h e v st0 s st1]
    by (auto simp: b1_def split: if_splits)
  define b2 where "b2 = (if heToEE_l3Route st1 = None
      then createVxLANAndBridgeToExtEntity_l3Route h e st1 (snd b1) else (Inr st1, snd b1))"
  have e2: "l2CNPEntityCache (snd b2) = l2CNPEntityCache s"
    by (simp add: b2_def l3Route_block_entity e1)
  have c2: "extEntityCalls (snd b2) = extEntityCalls s"
    by (simp add: b2_def l3Route_block_calls c1)
  have "\<exists>st2. fst b2 = Inr st2 \<and> kv_faults (db (snd b2)) = []"
  proof (cases "heToEE_l3Route st1")
    case None
    then have "b2 = createVxLANAndBridgeToExtEntity_l3Route h e st1 (snd b1)" by (simp add: b2_def)
    moreover have "ee_HostVxlan (lookupEE (snd b1) e) \<noteq> None"
      "ee_HostInterface (lookupEE (snd b1) e) \<noteq> None"
      using hv hi by (simp_all add: lookup_cong [OF e1])
    ultimately show ?thesis using l3Route_block_ok [OF n1, of e h st1] by auto
  next
    case (Some sr)
    then have "b2 = (Inr st1, snd b1)" by (simp add: b2_def)
    with n1 show ?thesis by simp
  qed
  then obtain st2 where st2: "fst b2 = Inr st2" and n2: "kv_faults (db (snd b2)) = []"
    by blast
  have r2: "heToEE_bd st2 = None" and w2: "heToEE_vlanIf st2 = heToEE_vlanIf st1"
    using st2 g1 r1 l3Route_block_result [of h e st1 "snd b1" st2]
    by (auto simp: b2_def split: if_splits)
  from v1 w2 obtain vni where vni: "heToEEVni (Some st2) = Some vni" "heToEEVni (Some st1) = Some vni"
    by (auto simp: heToEEVni_def)
  have u: "snd (createVxLANAndBridgeToExtEntity sfc h e v s)
             = snd (createVxLANAndBridgeToExtEntity_bd h e st2 (snd b2))"
  proof -
    from slot obtain m where m: "HEToEEs (l2CNPStateCache s) h = Some m" "m e = Some st0"
      by (auto simp: getHEToEEState_def split: option.splits)
    have "createVxLANAndBridgeToExtEntity sfc h e v s =
     (case b1 of
        (Inl err, s1) \<Rightarrow> (Inl err, s1)
      | (Inr st1, s1) \<Rightarrow>
         (case (if heToEE_l3Route st1 = None
                then createVxLANAndBridgeToExtEntity_l3Route h e st1 s1 else (Inr st1, s1)) of
            (Inl err, s2) \<Rightarrow> (Inl err, s2)
          | (Inr st2, s2) \<Rightarrow>
             (case (if heToEE_bd st2 = None
                    then createVxLANAndBridgeToExtEntity_bd h e st2 s2 else (Inr st2, s2)) of
                (Inl err, s3) \<Rightarrow> (Inl err, s3)
              | (Inr st3, s3) \<Rightarrow> (Inr (heToEE_bd st3), s3))))"
      unfolding createVxLANAndBridgeToExtEntity_def b1_def by (simp only: m option.case)
    then show ?thesis
      using st1 st2 r2 by (simp add: case_prod_beta b2_def split: sum.splits)
  qed
  from bd_block_emits [OF n2 _ _ vni(1), of h e] names hi parms
  obtain sr where "extEntityCalls (snd (createVxLANAndBridgeToExtEntity_bd h e st2 (snd b2)))
      = extEntityCalls s @ [SfcCtlrL2WireExternalEntityToHostEntity (lookupEE s e) (lookupHE s h) vni sr]"
    unfolding lookup_cong [OF e2] e2 c2 by auto
  then show ?thesis unfolding u using vni(2) k1 by auto
qed


text \<open>
  C3, as amended. A call of \<^verbatim>\<open>createVxLANAndBridgeToExtEntity\<close> for a recorded edge
  \<open>(h, e)\<close> adds at most one call to the external-entity driver, and only when the edge
  had no bridge domain before and has one after; the call carries the cached entities and
  the VNI of the tunnel interface the edge holds after the call, so once the bridge
  exists no further call is made. When no store request fails, the entities are cached
  under their names, the external entity has its host interface and host VXLAN and the
  dynamic bridge parameters are set, the call is made, and with a tunnel interface
  created earlier its VNI is the one passed. (A failed write of the route from the
  external entity to the host drops the call: see the counterexample.) For an edge that
  is not recorded the function returns an error and changes nothing.
\<close>

theorem C3_external_entity_call_once_with_tunnel_vni:
  "(getHEToEEState h e s = None \<longrightarrow>
      isl (fst (createVxLANAndBridgeToExtEntity sfc h e v s))
      \<and> snd (createVxLANAndBridgeToExtEntity sfc h e v s) = s)
   \<and> (getHEToEEState h e s = Some st0 \<longrightarrow>
        (extEntityCalls (snd (createVxLANAndBridgeToExtEntity sfc h e v s)) = extEntityCalls s
         \<or> (\<exists>sr vni bd st3.
               extEntityCalls (snd (createVxLANAndBridgeToExtEntity sfc h e v s))
                 = extEntityCalls s
                     @ [SfcCtlrL2WireExternalEntityToHostEntity (lookupEE s e) (lookupHE s h) vni sr]
             \<and> heToEE_bd st0 = None
             \<and> fst (createVxLANAndBridgeToExtEntity sfc h e v s) = Inr (Some bd)
             \<and> getHEToEEState h e (snd (createVxLANAndBridgeToExtEntity sfc h e v s)) = Some st3
             \<and> heToEE_bd st3 = Some bd
             \<and> heToEEVni (getHEToEEState (he_Name (lookupHE s h)) (ee_Name (lookupEE s e))
                  (snd (createVxLANAndBridgeToExtEntity sfc h e v s))) = Some vni))
      \<and> (heToEE_bd st0 \<noteq> None \<longrightarrow>
            extEntityCalls (snd (createVxLANAndBridgeToExtEntity sfc h e v s)) = extEntityCalls s)
      \<and> (heToEE_bd st0 = None \<and> kv_faults (db s) = []
          \<and> he_Name (lookupHE s h) = h \<and> ee_Name (lookupEE s e) = e
          \<and> ee_HostVxlan (lookupEE s e) \<noteq> None \<and> ee_HostInterface (lookupEE s e) \<noteq> None
          \<and> sp_DynamicBridgeParms (SysParms (l2CNPEntityCache s)) \<noteq> None
          \<and> (heToEE_vlanIf st0 \<noteq> None \<longrightarrow> heToEEVni (Some st0) \<noteq> None) \<longrightarrow>
            (\<exists>sr vni.
               extEntityCalls (snd (createVxLANAndBridgeToExtEntity sfc h e v s))
                 = extEntityCalls s
                     @ [SfcCtlrL2WireExternalEntityToHostEntity (lookupEE s e) (lookupHE s h) vni sr]
             \<and> heToEEVni (getHEToEEState h e (snd (createVxLANAndBridgeToExtEntity sfc h e v s)))
                 = Some vni
             \<and> (heToEE_vlanIf st0 \<noteq> None \<longrightarrow> heToEEVni (Some st0) = Some vni))))"
proof (intro conjI impI)
  assume "getHEToEEState h e s = None"
  then show "isl (fst (createVxLANAndBridgeToExtEntity sfc h e v s))"
    and "snd (createVxLANAndBridgeToExtEntity sfc h e v s) = s"
    using createVxLANAndBridgeToExtEntity_no_slot [of h e s sfc v] by simp_all
next
  assume slot: "getHEToEEState h e s = Some st0"
  from createVxLANAndBridgeToExtEntity_calls [OF slot, of sfc v]
  show d: "extEntityCalls (snd (createVxLANAndBridgeToExtEntity sfc h e v s)) = extEntityCalls s
         \<or> (\<exists>sr vni bd st3.
               extEntityCalls (snd (createVxLANAndBridgeToExtEntity sfc h e v s))
                 = extEntityCalls s
                     @ [SfcCtlrL2WireExternalEntityToHostEntity (lookupEE s e) (lookupHE s h) vni sr]
             \<and> heToEE_bd st0 = None
             \<and> fst (createVxLANAndBridgeToExtEntity sfc h e v s) = Inr (Some bd)
             \<and> getHEToEEState h e (snd (createVxLANAndBridgeToExtEntity sfc h e v s)) = Some st3
             \<and> heToEE_bd st3 = Some bd
             \<and> heToEEVni (getHEToEEState (he_Name (lookupHE s h)) (ee_Name (lookupEE s e))
                  (snd (createVxLANAndBridgeToExtEntity sfc h e v s))) = Some vni)" .
  {
    assume "heToEE_bd st0 \<noteq> None"
    with d show "extEntityCalls (snd (createVxLANAndBridgeToExtEntity sfc h e v s)) = extEntityCalls s"
      by auto
  }
  {
    assume a: "heToEE_bd st0 = None \<and> kv_faults (db s) = []
          \<and> he_Name (lookupHE s h) = h \<and> ee_Name (lookupEE s e) = e
          \<and> ee_HostVxlan (lookupEE s e) \<noteq> None \<and> ee_HostInterface (lookupEE s e) \<noteq> None
          \<and> sp_DynamicBridgeParms (SysParms (l2CNPEntityCache s)) \<noteq> None
          \<and> (heToEE_vlanIf st0 \<noteq> None \<longrightarrow> heToEEVni (Some st0) \<noteq> None)"
    from a have p: "heToEE_bd st0 = None" "kv_faults (db s) = []"
      "he_Name (lookupHE s h) = h" "ee_Name (lookupEE s e) = e"
      "ee_HostVxlan (lookupEE s e) \<noteq> None" "ee_HostInterface (lookupEE s e) \<noteq> None"
      "sp_DynamicBridgeParms (SysParms (l2CNPEntityCache s)) \<noteq> None"
      "heToEE_vlanIf st0 \<noteq> None \<longrightarrow> heToEEVni (Some st0) \<noteq> None"
      by simp_all
    from createVxLANAndBridgeToExtEntity_emits [OF slot p, of sfc v]
    obtain sr vni where
      e: "extEntityCalls (snd (createVxLANAndBridgeToExtEntity sfc h e v s))
           = extEntityCalls s @ [SfcCtlrL2WireExternalEntityToHostEntity (lookupEE s e) (lookupHE s h) vni sr]"
      and k: "heToEE_vlanIf st0 \<noteq> None \<longrightarrow> heToEEVni (Some st0) = Some vni"
      by blast
    from d e a have "heToEEVni (getHEToEEState h e (snd (createVxLANAndBridgeToExtEntity sfc h e v s)))
        = Some vni" by auto
    with e k show "\<exists>sr vni.
               extEntityCalls (snd (createVxLANAndBridgeToExtEntity sfc h e v s))
                 = extEntityCalls s
                     @ [SfcCtlrL2WireExternalEntityToHostEntity (lookupEE s e) (lookupHE s h) vni sr]
             \<and> heToEEVni (getHEToEEState h e (snd (createVxLANAndBridgeToExtEntity sfc h e v s)))
                 = Some vni
             \<and> (heToEE_vlanIf st0 \<noteq> None \<longrightarrow> heToEEVni (Some st0) = Some vni)" by blast
  }
qed

theorem C3_external_entity_call_once_with_tunnel_vni_witness:
  "getHEToEEState ''h1'' ''ee1'' (h1WiredToEe1 []) = Some emptyHEToEE
   \<and> heToEE_bd emptyHEToEE = None \<and> kv_faults (db (h1WiredToEe1 [])) = []
   \<and> he_Name (lookupHE (h1WiredToEe1 []) ''h1'') = ''h1''
   \<and> ee_Name (lookupEE (h1WiredToEe1 []) ''ee1'') = ''ee1''
   \<and> ee_HostVxlan (lookupEE (h1WiredToEe1 []) ''ee1'') \<noteq> None
   \<and> ee_HostInterface (lookupEE (h1WiredToEe1 []) ''ee1'') \<noteq> None
   \<and> sp_DynamicBridgeParms (SysParms (l2CNPEntityCache (h1WiredToEe1 []))) \<noteq> None
   \<and> heToEE_vlanIf emptyHEToEE = None
   \<and> map callVni (extEntityCalls (snd (createVxLANAndBridgeToExtEntity h1ToEe1Sfc ''h1'' ''ee1'' 0
                                          (h1WiredToEe1 [])))) = [Some 5000]
   \<and> heToEEVni (getHEToEEState ''h1'' ''ee1''
        (snd (createVxLANAndBridgeToExtEntity h1ToEe1Sfc ''h1'' ''ee1'' 0 (h1WiredToEe1 []))))
       = Some 5000
   \<and> extEntityCalls (snd (createVxLANAndBridgeToExtEntity h1ToEe1Sfc ''h1'' ''ee1'' 0
        (snd (createVxLANAndBridgeToExtEntity h1ToEe1Sfc ''h1'' ''ee1'' 0 (h1WiredToEe1 [])))))
       = extEntityCalls (snd (createVxLANAndBridgeToExtEntity h1ToEe1Sfc ''h1'' ''ee1'' 0
                                (h1WiredToEe1 [])))"
  using C3_external_entity_call_once_with_tunnel_vni
      [of "''h1''" "''ee1''" "h1WiredToEe1 []" h1ToEe1Sfc 0 emptyHEToEE]
  by (simp add: h1WiredToEe1_def h1ToEe1Sfc_def emptyHEToEE_def eval_defs Let_def callVni_def
      heToEEVni_def)

text \<open>
  C3 as stated fails when the store fails. With the fourth store request failing (the
  write of the route from the external entity to the host), wiring the chain succeeds
  and creates the bridge domain of the edge, yet no call is made to the external-entity
  driver; since the bridge now exists, wiring the edge again makes none either.
\<close>

theorem C3_call_dropped_counterexample:
  "map_option (\<lambda>r. (fst r, extEntityCalls (snd r),
                     map_option heToEE_bd (getHEToEEState ''h1'' ''ee1'' (snd r)),
                     heToEEVni (getHEToEEState ''h1'' ''ee1'' (snd r))))
     (WireSfcEntity noIpam h1ToEe1Sfc (h1WiredToEe1 [False, False, False, True]))
     = Some (Inr (), [], Some (Some 0), Some 5000)
   \<and> map_option (\<lambda>r. (fst (createVxLANAndBridgeToExtEntity h1ToEe1Sfc ''h1'' ''ee1'' 0 (snd r)),
                extEntityCalls (snd (createVxLANAndBridgeToExtEntity h1ToEe1Sfc ''h1'' ''ee1'' 0 (snd r)))))
     (WireSfcEntity noIpam h1ToEe1Sfc (h1WiredToEe1 [False, False, False, True]))
     = Some (Inr (Some 0), [])"
  by (simp add: h1WiredToEe1_def h1ToEe1Sfc_def eval_defs Let_def heToEEVni_def)


subsection \<open>Reuse of a persisted VNI\<close>

text \<open>
  C1. The driver is started over a store that holds \<open>HE2HEIDs[h1, h2] = 6000\<close>; the VLAN
  counter stands at 4999. Wiring a chain for the pair \<open>(h1, h2)\<close> that supplies no
  \<open>vlan_id\<close> does not reuse 6000: the lookup is made in the table of the
  host-to-external-entity bindings, which has no entry for the pair, so the counter is
  incremented to 5000, the tunnel is created with VNI 5000 and the binding of the pair is
  overwritten with 5000. The same chain towards an external entity, over a store that
  holds \<open>HE2EEIDs[h1, ee1] = 6000\<close>, reuses 6000 and leaves the counter at 4999.
\<close>

theorem C1_dest_host_binding_not_reused:
  "DatastoreHE2HEIDsRetrieve ''h1'' ''h2'' restartedDriver = Some 6000
   \<and> VLanID (seq restartedDriver) = 4999
   \<and> map_option (\<lambda>r. (fst r, VLanID (seq (snd r)),
                       heToHEVni (getHEToHEState ''h1'' ''h2'' (snd r)),
                       DatastoreHE2HEIDsRetrieve ''h1'' ''h2'' (snd r)))
        (WireSfcEntity noIpam h1ToH2Sfc restartedDriver)
       = Some (Inr (), 5000, Some 5000, Some 5000)
   \<and> DatastoreHE2EEIDsRetrieve ''h1'' ''ee1'' restartedDriverEe1 = Some 6000
   \<and> VLanID (seq restartedDriverEe1) = 4999
   \<and> map_option (\<lambda>r. (fst r, VLanID (seq (snd r)),
                       heToEEVni (getHEToEEState ''h1'' ''ee1'' (snd r)),
                       DatastoreHE2EEIDsRetrieve ''h1'' ''ee1'' (snd r)))
        (WireSfcEntity noIpam h1ToEe1Sfc restartedDriverEe1)
       = Some (Inr (), 4999, Some 6000, Some 6000)"
  by (simp add: restartedDriver_def restartedDriverEe1_def h1ToH2Sfc_def h1ToEe1Sfc_def
      eval_defs Let_def heToHEVni_def heToEEVni_def)


subsection \<open>Rejection of a north-south VXLAN chain\<close>

lemma nsVxlanScan_result:
  "nsVxlanScan cache n els (ec, en, ee, dc, dn, de) = Inr r \<Longrightarrow>
   r = (ec + length (externalEntityElements els),
        (if externalEntityElements els = [] then en
         else el_Container (last (externalEntityElements els))),
        (if externalEntityElements els = [] then ee else Some (last (externalEntityElements els))),
        dc + length (hostEntityElements els),
        (if hostEntityElements els = [] then dn else el_Container (last (hostEntityElements els))),
        (if hostEntityElements els = [] then de else Some (last (hostEntityElements els))))"
proof (induction els arbitrary: ec en ee dc dn de)
  case Nil
  then show ?case by (simp add: externalEntityElements_def hostEntityElements_def)
next
  case (Cons e es)
  show ?case
  proof (cases "el_Type e = EXTERNAL_ENTITY")
    case True
    with Cons.prems have
      "nsVxlanScan cache n es (ec + 1, el_Container e, Some e, dc, dn, de) = Inr r"
      by (simp split: if_splits)
    from Cons.IH [OF this] True show ?thesis
      by (simp add: externalEntityElements_def hostEntityElements_def)
  next
    case False
    show ?thesis
    proof (cases "el_Type e = HOST_ENTITY")
      case True
      with False Cons.prems have
        "nsVxlanScan cache n es (ec, en, ee, dc + 1, el_Container e, Some e) = Inr r"
        by (simp split: if_splits)
      from Cons.IH [OF this] True show ?thesis
        by (simp add: externalEntityElements_def hostEntityElements_def)
    next
      case h: False
      with False Cons.prems have "nsVxlanScan cache n es (ec, en, ee, dc, dn, de) = Inr r"
        by simp
      from Cons.IH [OF this] False h show ?thesis
        by (simp add: externalEntityElements_def hostEntityElements_def)
    qed
  qed
qed

lemma nsVxlanScan_rejects:
  "ec \<le> 1 \<Longrightarrow> dc \<le> 1 \<Longrightarrow>
   isl (nsVxlanScan cache n els (ec, en, ee, dc, dn, de)) =
     (1 < ec + length (externalEntityElements els)
      \<or> 1 < dc + length (hostEntityElements els)
      \<or> list_ex (\<lambda>e. EEs cache (el_Container e) = None) (externalEntityElements els)
      \<or> list_ex (\<lambda>e. HEs cache (el_Container e) = None) (hostEntityElements els))"
proof (induction els arbitrary: ec en ee dc dn de)
  case Nil
  then show ?case by (simp add: externalEntityElements_def hostEntityElements_def)
next
  case (Cons e es)
  show ?case
  proof (cases "el_Type e = EXTERNAL_ENTITY")
    case True
    show ?thesis
    proof (cases "ec = 0 \<and> EEs cache (el_Container e) \<noteq> None")
      case ok: True
      then have "ec + 1 \<le> 1" by simp
      from Cons.IH [OF this Cons.prems(2), of "el_Container e" "Some e" dn de] True ok
      show ?thesis by (auto simp: externalEntityElements_def hostEntityElements_def)
    next
      case False
      with True Cons.prems show ?thesis
        by (auto simp: externalEntityElements_def hostEntityElements_def)
    qed
  next
    case False
    show ?thesis
    proof (cases "el_Type e = HOST_ENTITY")
      case True
      show ?thesis
      proof (cases "dc = 0 \<and> HEs cache (el_Container e) \<noteq> None")
        case ok: True
        then have "dc + 1 \<le> 1" by simp
        from Cons.IH [OF Cons.prems(1) this, of en ee "el_Container e" "Some e"] True ok
        show ?thesis by (auto simp: externalEntityElements_def hostEntityElements_def)
      next
        case no: False
        with True Cons.prems show ?thesis
          by (auto simp: externalEntityElements_def hostEntityElements_def)
      qed
    next
      case h: False
      from Cons.IH [OF Cons.prems, of en ee dn de] False h show ?thesis
        by (simp add: externalEntityElements_def hostEntityElements_def)
    qed
  qed
qed

lemma nsVxlanRejected_setSFC [simp]:
  "nsVxlanRejected (l2CNPEntityCache (setSFC k sfc s)) els = nsVxlanRejected (l2CNPEntityCache s) els"
  by (simp add: nsVxlanRejected_def setSFC_def)

lemma wireSfcNorthSouthVXLANElements_rejected:
  assumes "nsVxlanRejected (l2CNPEntityCache s) (sfc_Elements sfc)"
  shows "\<exists>err. wireSfcNorthSouthVXLANElements ipam sfc s = (Inl err, s)"
proof (cases "nsVxlanScan (l2CNPEntityCache s) (sfc_Name sfc) (sfc_Elements sfc) (0, [], None, 0, [], None)")
  case (Inl err)
  then show ?thesis by (simp add: wireSfcNorthSouthVXLANElements_def)
next
  case (Inr r)
  from nsVxlanScan_result [OF Inr]
  have r: "r = nsVxlanEndpoints (sfc_Elements sfc)"
    by (simp add: nsVxlanEndpoints_def Let_def)
  from Inr nsVxlanScan_rejects [of 0 0 "l2CNPEntityCache s" "sfc_Name sfc" "sfc_Elements sfc" "[]" None "[]" None]
  have "\<not> (1 < length (externalEntityElements (sfc_Elements sfc))
      \<or> 1 < length (hostEntityElements (sfc_Elements sfc))
      \<or> list_ex (\<lambda>e. EEs (l2CNPEntityCache s) (el_Container e) = None) (externalEntityElements (sfc_Elements sfc))
      \<or> list_ex (\<lambda>e. HEs (l2CNPEntityCache s) (el_Container e) = None) (hostEntityElements (sfc_Elements sfc)))"
    by simp
  with assms have "externalEntityElements (sfc_Elements sfc) = [] \<and> hostEntityElements (sfc_Elements sfc) = []"
    unfolding nsVxlanRejected_def by blast
  with Inr r show ?thesis
    by (simp add: wireSfcNorthSouthVXLANElements_def nsVxlanEndpoints_def)
qed

lemma wireSfcNorthSouthVXLANElements_accepted:
  assumes "\<not> nsVxlanRejected (l2CNPEntityCache s) (sfc_Elements sfc)"
  shows "wireSfcNorthSouthVXLANElements ipam sfc s
           = forEach (nsVxlanWireElement ipam sfc (nsVxlanEndpoints (sfc_Elements sfc)))
               (sfc_Elements sfc) s"
proof -
  from assms have n: "\<not> (1 < length (externalEntityElements (sfc_Elements sfc))
      \<or> 1 < length (hostEntityElements (sfc_Elements sfc))
      \<or> list_ex (\<lambda>e. EEs (l2CNPEntityCache s) (el_Container e) = None) (externalEntityElements (sfc_Elements sfc))
      \<or> list_ex (\<lambda>e. HEs (l2CNPEntityCache s) (el_Container e) = None) (hostEntityElements (sfc_Elements sfc)))"
    and some: "\<not> (externalEntityElements (sfc_Elements sfc) = [] \<and> hostEntityElements (sfc_Elements sfc) = [])"
    unfolding nsVxlanRejected_def by blast+
  from n nsVxlanScan_rejects [of 0 0 "l2CNPEntityCache s" "sfc_Name sfc" "sfc_Elements sfc" "[]" None "[]" None]
  have "\<not> isl (nsVxlanScan (l2CNPEntityCache s) (sfc_Name sfc) (sfc_Elements sfc) (0, [], None, 0, [], None))"
    by simp
  then obtain r where
    r: "nsVxlanScan (l2CNPEntityCache s) (sfc_Name sfc) (sfc_Elements sfc) (0, [], None, 0, [], None) = Inr r"
    by (cases "nsVxlanScan (l2CNPEntityCache s) (sfc_Name sfc) (sfc_Elements sfc) (0, [], None, 0, [], None)") auto
  from nsVxlanScan_result [OF r]
  have e: "r = nsVxlanEndpoints (sfc_Elements sfc)"
    by (simp add: nsVxlanEndpoints_def Let_def)
  from some show ?thesis
    unfolding wireSfcNorthSouthVXLANElements_def r e
    by (auto simp: nsVxlanEndpoints_def Let_def)
qed

lemma forEach_no_container:
  "\<forall>e \<in> set els. \<not> isContainerElement e \<Longrightarrow>
   forEach (nsVxlanWireElement ipam sfc scan) els s = (Inr (), s)"
  by (induction els) (simp_all add: nsVxlanWireElement_def isContainerElement_def)

text \<open>
  C4, as amended. For a chain of type \<^verbatim>\<open>SFC_NS_VXLAN\<close>, if the element list has more than
  one external-entity element, more than one host-entity element, neither, or such an
  element whose name is not in its entity cache, \<^verbatim>\<open>WireSfcEntity\<close> returns an error and
  the driver is as it was but for the chain being recorded in the entity cache: no
  element has been wired. Otherwise the result is the one of wiring the elements in
  order against the end points found, so that an error, if any, comes from wiring a
  container element; a chain without container elements succeeds.
\<close>

theorem C4_ns_vxlan_rejected_before_wiring:
  assumes "sfc_Type sfc = SFC_NS_VXLAN"
  shows "(nsVxlanRejected (l2CNPEntityCache s) (sfc_Elements sfc) \<longrightarrow>
            (\<exists>err. WireSfcEntity ipam sfc s = Some (Inl err, setSFC (sfc_Name sfc) sfc s)))
       \<and> (\<not> nsVxlanRejected (l2CNPEntityCache s) (sfc_Elements sfc) \<longrightarrow>
            WireSfcEntity ipam sfc s
              = Some (forEach (nsVxlanWireElement ipam sfc (nsVxlanEndpoints (sfc_Elements sfc)))
                        (sfc_Elements sfc) (setSFC (sfc_Name sfc) sfc s)))
       \<and> (\<not> nsVxlanRejected (l2CNPEntityCache s) (sfc_Elements sfc)
            \<and> (\<forall>e \<in> set (sfc_Elements sfc). \<not> isContainerElement e) \<longrightarrow>
            WireSfcEntity ipam sfc s = Some (Inr (), setSFC (sfc_Name sfc) sfc s))"
proof (intro conjI impI)
  assume "nsVxlanRejected (l2CNPEntityCache s) (sfc_Elements sfc)"
  then have "nsVxlanRejected (l2CNPEntityCache (setSFC (sfc_Name sfc) sfc s)) (sfc_Elements sfc)"
    by simp
  from wireSfcNorthSouthVXLANElements_rejected [OF this, of ipam] assms
  show "\<exists>err. WireSfcEntity ipam sfc s = Some (Inl err, setSFC (sfc_Name sfc) sfc s)"
    by (simp add: WireSfcEntity_def)
next
  assume "\<not> nsVxlanRejected (l2CNPEntityCache s) (sfc_Elements sfc)"
  then have "\<not> nsVxlanRejected (l2CNPEntityCache (setSFC (sfc_Name sfc) sfc s)) (sfc_Elements sfc)"
    by simp
  from wireSfcNorthSouthVXLANElements_accepted [OF this, of ipam] assms
  show "WireSfcEntity ipam sfc s
          = Some (forEach (nsVxlanWireElement ipam sfc (nsVxlanEndpoints (sfc_Elements sfc)))
                    (sfc_Elements sfc) (setSFC (sfc_Name sfc) sfc s))"
    by (simp add: WireSfcEntity_def)
next
  assume a: "\<not> nsVxlanRejected (l2CNPEntityCache s) (sfc_Elements sfc)
            \<and> (\<forall>e \<in> set (sfc_Elements sfc). \<not> isContainerElement e)"
  then have "\<not> nsVxlanRejected (l2CNPEntityCache (setSFC (sfc_Name sfc) sfc s)) (sfc_Elements sfc)"
    by simp
  from wireSfcNorthSouthVXLANElements_accepted [OF this, of ipam] assms a
  show "WireSfcEntity ipam sfc s = Some (Inr (), setSFC (sfc_Name sfc) sfc s)"
    by (simp add: WireSfcEntity_def forEach_no_container)
qed

theorem C4_ns_vxlan_rejected_before_wiring_witness:
  "sfc_Type ee1OnlySfc = SFC_NS_VXLAN
   \<and> \<not> nsVxlanRejected (l2CNPEntityCache (h1WiredToEe1 [])) (sfc_Elements ee1OnlySfc)
   \<and> nsVxlanRejected (l2CNPEntityCache newDriver) (sfc_Elements ee1OnlySfc)
   \<and> list_all (\<lambda>e. \<not> isContainerElement e) (sfc_Elements ee1OnlySfc)
   \<and> WireSfcEntity noIpam ee1OnlySfc (h1WiredToEe1 [])
       = Some (Inr (), setSFC ''sfc1'' ee1OnlySfc (h1WiredToEe1 []))
   \<and> map_option snd (WireSfcEntity noIpam ee1OnlySfc newDriver)
       = Some (setSFC ''sfc1'' ee1OnlySfc newDriver)
   \<and> map_option (isl \<circ> fst) (WireSfcEntity noIpam ee1OnlySfc newDriver) = Some True"
  using C4_ns_vxlan_rejected_before_wiring [of ee1OnlySfc "h1WiredToEe1 []" noIpam]
    C4_ns_vxlan_rejected_before_wiring [of ee1OnlySfc newDriver noIpam]
  by (auto simp: ee1OnlySfc_def sfcOf_def elementOf_def nsVxlanRejected_def externalEntityElements_def
      hostEntityElements_def isContainerElement_def isAfpElement_def isMemifElement_def
      h1WiredToEe1_def newDriver_def NewSfcCtlrL2CNPDriver_def SetSystemParameters_def
      WireHostEntityToExternalEntity_def setHE_def setEE_def setHEToEEState_def getHEToEEState_def
      extEntityNamed_def hostNamed_def zeroExternalEntity_def zeroHostEntity_def Let_def)

text \<open>
  C4 as stated fails in its ``only if'' part. The host \<open>h1\<close> is wired to the external
  entity \<open>ee1\<close>; a chain with the one external-entity element \<open>ee1\<close>, which is cached,
  and a container on the host \<open>h9\<close> meets none of the four conditions, and yet
  \<^verbatim>\<open>WireSfcEntity\<close> returns an error: it comes from wiring the container, whose host was
  never wired to \<open>ee1\<close>.
\<close>

theorem C4_error_while_wiring_counterexample:
  "sfc_Type h9ToEe1Sfc = SFC_NS_VXLAN
   \<and> \<not> nsVxlanRejected (l2CNPEntityCache (h1WiredToEe1 [])) (sfc_Elements h9ToEe1Sfc)
   \<and> map_option fst (WireSfcEntity noIpam h9ToEe1Sfc (h1WiredToEe1 []))
       = Some (Inl (HostNotFound ''h9'' ''sfc1''))"
  by (simp add: h9ToEe1Sfc_def h1WiredToEe1_def eval_defs Let_def nsVxlanRejected_def
      externalEntityElements_def hostEntityElements_def)


subsection \<open>Pairs of an east-west memif chain\<close>













end
